theory Spec2Isabelle
  imports Complex_Main
begin

section \<open>Flappy Wind: the simulation core of \<open>src/App.tsx\<close>\<close>

text \<open>
  The game keeps its data in React state cells and in mutable refs, read and written by
  callbacks. The model below is a record \<open>App\<close> holding every cell, and one HOL function
  per callback that takes the record and returns the updated one.

  \<^item> JavaScript numbers are modelled as \<open>real\<close>, and the score as a natural number.
    The two functions whose results are compared for equality below, \<open>normalize\<close> and
    \<open>createPipe\<close>, are computed as the program computes them, in binary64: every
    multiplication, addition, subtraction, division and \<open>Math.sqrt\<close> of their bodies
    is followed by \<open>fl\<close>, rounding to the nearest number with a 53-bit significand,
    ties to even. The exponent range is taken as unbounded (overflow to infinity,
    subnormal numbers and NaN are not part of the model). Elsewhere the arithmetic is
    exact.
  \<^item> A React state cell holds the value with every queued update applied (the functional
    updaters \<open>prev \<Rightarrow> ...\<close> compose in order). The refs \<open>isGameRunningRef\<close>,
    \<open>gameOverRef\<close>, \<open>scoreRef\<close>, \<open>bestScoreRef\<close> and \<open>windEnergyRef\<close> are
    copied from the state cells by effects that run after a render (\<open>commit\<close>), never
    inside a callback.
  \<^item> \<open>Math.random()\<close> reads the head of the stream \<open>rand\<close> and advances it.
  \<^item> \<open>playSound\<close>, \<open>addScreenShake\<close> and \<open>createParticles\<close> append their call to
    the trace \<open>effects\<close>, so that the number of times a cue fired can be stated.
  \<^item> The canvas dimensions are a parameter \<open>cd\<close>; the constants derived from them
    (\<open>PIPE_GAP\<close>, \<open>GUST_RADIUS\<close>, ...) are functions of it. Resizing the window
    during a run is not modelled.
  \<^item> Drawing (\<open>render\<close> and the \<open>draw...\<close> functions), the oscillator behind
    \<open>playSound\<close>, the fade-in of the game-over card and local storage only read the
    state or write cells that nothing below reads; they are left out.
\<close>

subsection \<open>Data model\<close>

record Vec =
  vec_x :: real
  vec_y :: real

record Bird =
  bird_x :: real
  bird_y :: real
  bird_radius :: real
  bird_color :: string
  bird_vy :: real
  bird_vx :: real
  bird_rotation :: real

record Pipe =
  pipe_x :: real
  topHeight :: real
  bottomY :: real
  pipe_width :: real
  gap :: real
  passed :: bool
  pipeColor :: string
  animationOffset :: real

record Gust =
  gust_x :: real
  gust_y :: real
  direction :: Vec
  magnitude :: real
  gust_radius :: real
  gust_life :: real
  gust_maxLife :: real

record Particle =
  particle_x :: real
  particle_y :: real
  particle_vx :: real
  particle_vy :: real
  particle_life :: real
  particle_maxLife :: real
  particle_color :: string
  particle_size :: real

record Cloud =
  cloud_x :: real
  cloud_y :: real
  cloud_size :: real
  cloud_speed :: real
  cloud_opacity :: real

record Shake =
  shake_x :: real
  shake_y :: real
  intensity :: real

record CanvasDimensions =
  width :: real
  height :: real

datatype effect =
    Sound real real string
  | ShakeAdded real
  | Burst real real nat string

record App =
  isGameRunning :: bool
  gameOver :: bool
  score :: nat
  bestScore :: nat
  windEnergy :: real
  isDrawing :: bool
  isDrawingRendered :: bool
  isGameRunningRef :: bool
  gameOverRef :: bool
  scoreRef :: nat
  bestScoreRef :: nat
  windEnergyRef :: real
  lastTimeRef :: real
  gameTimeRef :: real
  drawStartRef :: "Vec option"
  drawCurrentRef :: "Vec option"
  shakeRef :: Shake
  cloudsRef :: "Cloud list"
  birdRef :: Bird
  pipesRef :: "Pipe list"
  gustsRef :: "Gust list"
  particlesRef :: "Particle list"
  nextPipeTimeRef :: real
  rand :: "nat \<Rightarrow> real"
  effects :: "effect list"

subsection \<open>Constants\<close>

definition GRAVITY :: real where "GRAVITY = 800"
definition FLAP_POWER :: real where "FLAP_POWER = - 300"

definition CANVAS_WIDTH :: "CanvasDimensions \<Rightarrow> real" where
  "CANVAS_WIDTH cd = width cd"
definition CANVAS_HEIGHT :: "CanvasDimensions \<Rightarrow> real" where
  "CANVAS_HEIGHT cd = height cd"
definition PIPE_WIDTH :: "CanvasDimensions \<Rightarrow> real" where
  "PIPE_WIDTH cd = max 40 (CANVAS_WIDTH cd * 0.075)"
definition PIPE_GAP :: "CanvasDimensions \<Rightarrow> real" where
  "PIPE_GAP cd = max 120 (CANVAS_HEIGHT cd * 0.25)"
definition PIPE_SPEED :: "CanvasDimensions \<Rightarrow> real" where
  "PIPE_SPEED cd = max 150 (CANVAS_WIDTH cd * 0.25)"

definition MAX_WIND_ENERGY :: real where "MAX_WIND_ENERGY = 100"
definition WIND_REGEN_RATE :: real where "WIND_REGEN_RATE = 15"
definition GUST_COST_PER_PIXEL :: real where "GUST_COST_PER_PIXEL = 0.5"
definition GUST_BASE_POWER :: real where "GUST_BASE_POWER = 1200"
definition GUST_RADIUS :: "CanvasDimensions \<Rightarrow> real" where
  "GUST_RADIUS cd = max 60 (CANVAS_WIDTH cd * 0.125)"
definition GUST_LIFE :: real where "GUST_LIFE = 1.2"

definition PIPE_COLORS :: "string list" where
  "PIPE_COLORS = [''#4CAF50'', ''#45A049'', ''#3E8E41'', ''#66BB6A'']"

subsection \<open>Random numbers and side-effect hooks\<close>

text \<open>\<open>advance k\<close> consumes \<open>k\<close> calls of \<open>Math.random()\<close>; the calls read
  \<open>rand s 0\<close>, ..., \<open>rand s (k - 1)\<close>.\<close>

definition advance :: "nat \<Rightarrow> App \<Rightarrow> App" where
  "advance k s = s\<lparr>rand := (\<lambda>n. rand s (n + k))\<rparr>"

definition playSound :: "real \<Rightarrow> real \<Rightarrow> string \<Rightarrow> App \<Rightarrow> App" where
  "playSound frequency duration type s = s\<lparr>effects := effects s @ [Sound frequency duration type]\<rparr>"

text \<open>One iteration of the loop of \<open>createParticles\<close>: the object literal calls
  \<open>Math.random()\<close> for \<open>x\<close>, \<open>y\<close>, \<open>vx\<close>, \<open>vy\<close> and \<open>size\<close>, in this order.\<close>

definition pushParticle :: "real \<Rightarrow> real \<Rightarrow> string \<Rightarrow> App \<Rightarrow> App" where
  "pushParticle x y color s =
     advance 5 (s\<lparr>particlesRef := particlesRef s @
       [\<lparr>particle_x = x + (rand s 0 - 0.5) * 20,
         particle_y = y + (rand s 1 - 0.5) * 20,
         particle_vx = (rand s 2 - 0.5) * 200,
         particle_vy = (rand s 3 - 0.5) * 200,
         particle_life = 0.5,
         particle_maxLife = 0.5,
         particle_color = color,
         particle_size = rand s 4 * 4 + 2\<rparr>]\<rparr>)"

fun pushParticles :: "real \<Rightarrow> real \<Rightarrow> nat \<Rightarrow> string \<Rightarrow> App \<Rightarrow> App" where
  "pushParticles x y 0 color s = s"
| "pushParticles x y (Suc n) color s = pushParticles x y n color (pushParticle x y color s)"

definition createParticles :: "real \<Rightarrow> real \<Rightarrow> nat \<Rightarrow> string \<Rightarrow> App \<Rightarrow> App" where
  "createParticles x y count color s =
     pushParticles x y count color (s\<lparr>effects := effects s @ [Burst x y count color]\<rparr>)"

definition addScreenShake :: "real \<Rightarrow> App \<Rightarrow> App" where
  "addScreenShake i s =
     s\<lparr>shakeRef := (shakeRef s)\<lparr>intensity := max (intensity (shakeRef s)) i\<rparr>,
       effects := effects s @ [ShakeAdded i]\<rparr>"

definition updateScreenShake :: "real \<Rightarrow> App \<Rightarrow> App" where
  "updateScreenShake deltaTime s =
     (if intensity (shakeRef s) > 0 then
        (let sh = \<lparr>shake_x = (rand s 0 - 0.5) * intensity (shakeRef s),
                   shake_y = (rand s 1 - 0.5) * intensity (shakeRef s),
                   intensity = intensity (shakeRef s) * (0.1 powr deltaTime)\<rparr>;
             sh' = (if intensity sh < 0.1
                    then \<lparr>shake_x = 0, shake_y = 0, intensity = 0\<rparr> else sh)
         in advance 2 (s\<lparr>shakeRef := sh'\<rparr>))
      else s)"

subsection \<open>Binary64 rounding\<close>

text \<open>\<open>roundEven y\<close> is the integer nearest to \<open>y\<close>, the even one of the two when
  \<open>y\<close> is half way. \<open>expo x\<close> is the binary exponent of \<open>x\<close>:
  \<open>2 ^ expo x \<le> \<bar>x\<bar> < 2 ^ (expo x + 1)\<close>. \<open>fl x\<close> rounds \<open>x\<close> to the nearest
  multiple of \<open>2 ^ (expo x - 52)\<close>, which is the nearest number with a 53-bit
  significand. \<open>unitRoundoff\<close> is the bound \<open>1 / 2 ^ 53\<close> on the relative error of
  one rounding.\<close>

definition roundEven :: "real \<Rightarrow> int" where
  "roundEven y =
     (let f = \<lfloor>y\<rfloor> in
      if y - of_int f < 1 / 2 then f
      else if y - of_int f > 1 / 2 then f + 1
      else if even f then f else f + 1)"

definition expo :: "real \<Rightarrow> int" where
  "expo x = \<lfloor>log 2 \<bar>x\<bar>\<rfloor>"

definition fl :: "real \<Rightarrow> real" where
  "fl x =
     (if x = 0 then 0
      else of_int (roundEven (x / 2 powi (expo x - 52))) * 2 powi (expo x - 52))"

definition unitRoundoff :: real where
  "unitRoundoff = 1 / 2 ^ 53"

subsection \<open>Vector helpers\<close>

definition distance :: "Vec \<Rightarrow> Vec \<Rightarrow> real" where
  "distance p1 p2 = sqrt ((vec_x p1 - vec_x p2)\<^sup>2 + (vec_y p1 - vec_y p2)\<^sup>2)"

text \<open>\<open>normalize\<close> in binary64: the two products, their sum, the square root and the
  two quotients are each rounded.\<close>

definition normalize_vec :: "Vec \<Rightarrow> Vec" where
  "normalize_vec vec =
     (let len = fl (sqrt (fl (fl (vec_x vec * vec_x vec) + fl (vec_y vec * vec_y vec))))
      in if len > 0 then \<lparr>vec_x = fl (vec_x vec / len), vec_y = fl (vec_y vec / len)\<rparr>
         else \<lparr>vec_x = 0, vec_y = 0\<rparr>)"

subsection \<open>Gust creation\<close>

text \<open>\<open>createGust\<close> returns \<open>null\<close> (here \<open>None\<close>) without touching anything when the
  stroke is shorter than 20 or the cost, computed from \<open>windEnergyRef\<close>, is below 10.\<close>

definition createGust :: "CanvasDimensions \<Rightarrow> Vec \<Rightarrow> Vec \<Rightarrow> App \<Rightarrow> Gust option \<times> App" where
  "createGust cd start end s =
     (let strokeLength = distance start end in
      if strokeLength < 20 then (None, s)
      else
        let cost = min (strokeLength * GUST_COST_PER_PIXEL) (windEnergyRef s) in
        if cost < 10 then (None, s)
        else
          let dir = normalize_vec \<lparr>vec_x = vec_x end - vec_x start, vec_y = vec_y end - vec_y start\<rparr>;
              mag = min (strokeLength * 2) GUST_BASE_POWER;
              s1 = s\<lparr>windEnergy := max 0 (windEnergy s - cost)\<rparr>;
              s2 = advance 1 (playSound (200 + rand s1 0 * 100) 0.1 ''sine'' s1);
              s3 = createParticles (vec_x start) (vec_y start) 5 ''rgba(0, 200, 255, 0.8)'' s2
          in (Some \<lparr>gust_x = vec_x start, gust_y = vec_y start, direction = dir,
                     magnitude = mag, gust_radius = GUST_RADIUS cd,
                     gust_life = GUST_LIFE, gust_maxLife = GUST_LIFE\<rparr>, s3))"

subsection \<open>Click, mouse and touch handlers\<close>

text \<open>The bird of a fresh run, as written in \<open>useRef<Bird>\<close> and again in the restart
  branch of \<open>handleCanvasClick\<close>.\<close>

definition initialBird :: "CanvasDimensions \<Rightarrow> Bird" where
  "initialBird cd =
     \<lparr>bird_x = CANVAS_WIDTH cd * 0.125,
      bird_y = CANVAS_HEIGHT cd * 0.5,
      bird_radius = max 15 (CANVAS_WIDTH cd * 0.025),
      bird_color = ''#FFD700'',
      bird_vy = 0,
      bird_vx = 0,
      bird_rotation = 0\<rparr>"

text \<open>The three statements of a flap, which the source repeats in \<open>handleCanvasClick\<close>
  and twice in \<open>handleTouchEnd\<close>.\<close>

definition flap :: "App \<Rightarrow> App" where
  "flap s =
     (let s1 = s\<lparr>birdRef := (birdRef s)\<lparr>bird_vy := FLAP_POWER\<rparr>\<rparr>;
          s2 = playSound 440 0.1 ''sine'' s1
      in createParticles (bird_x (birdRef s2)) (bird_y (birdRef s2)) 3 ''#FFD700'' s2)"

definition handleCanvasClick :: "CanvasDimensions \<Rightarrow> App \<Rightarrow> App" where
  "handleCanvasClick cd s =
     (if isDrawingRendered s then s
      else if gameOverRef s then
        playSound 440 0.1 ''sine''
          (s\<lparr>gameOver := False, score := 0, windEnergy := 100, isGameRunning := True,
             birdRef := initialBird cd, pipesRef := [], gustsRef := [], particlesRef := [],
             nextPipeTimeRef := 2, gameTimeRef := 0\<rparr>)
      else
        let s1 = (if \<not> isGameRunningRef s
                  then playSound 330 0.1 ''sine'' (s\<lparr>isGameRunning := True, nextPipeTimeRef := 2\<rparr>)
                  else s)
        in if \<not> gameOverRef s1 then flap s1 else s1)"

definition handleTouchStart :: "CanvasDimensions \<Rightarrow> Vec \<Rightarrow> App \<Rightarrow> App" where
  "handleTouchStart cd pos s =
     (if \<not> isGameRunningRef s \<or> gameOverRef s then handleCanvasClick cd s
      else s\<lparr>isDrawing := True, drawStartRef := Some pos, drawCurrentRef := Some pos\<rparr>)"

definition handleTouchMove :: "Vec \<Rightarrow> App \<Rightarrow> App" where
  "handleTouchMove pos s =
     (if \<not> isDrawingRendered s \<or> drawStartRef s = None then s
      else s\<lparr>drawCurrentRef := Some pos\<rparr>)"

definition handleTouchEnd :: "CanvasDimensions \<Rightarrow> App \<Rightarrow> App" where
  "handleTouchEnd cd s =
     (if \<not> isGameRunningRef s then s
      else
        case (isDrawingRendered s, drawStartRef s, drawCurrentRef s) of
          (True, Some start, Some cur) \<Rightarrow>
            (let d = sqrt ((vec_x cur - vec_x start)\<^sup>2 + (vec_y cur - vec_y start)\<^sup>2);
                 s1 = (if d > 20 then
                         (case createGust cd start cur s of
                            (Some gust, s') \<Rightarrow> s'\<lparr>gustsRef := gustsRef s' @ [gust]\<rparr>
                          | (None, s') \<Rightarrow> s')
                       else if \<not> gameOverRef s then flap s else s)
             in s1\<lparr>isDrawing := False, drawStartRef := None, drawCurrentRef := None\<rparr>)
        | _ \<Rightarrow> (if \<not> gameOverRef s then flap s else s))"

definition handleMouseDown :: "Vec \<Rightarrow> App \<Rightarrow> App" where
  "handleMouseDown pos s =
     (if \<not> isGameRunningRef s \<or> gameOverRef s then s
      else s\<lparr>isDrawing := True, drawStartRef := Some pos, drawCurrentRef := Some pos\<rparr>)"

definition handleMouseMove :: "Vec \<Rightarrow> App \<Rightarrow> App" where
  "handleMouseMove pos s =
     (if \<not> isDrawingRendered s \<or> drawStartRef s = None then s
      else s\<lparr>drawCurrentRef := Some pos\<rparr>)"

definition handleMouseUp :: "CanvasDimensions \<Rightarrow> App \<Rightarrow> App" where
  "handleMouseUp cd s =
     (case (isDrawingRendered s, drawStartRef s, drawCurrentRef s) of
        (True, Some start, Some cur) \<Rightarrow>
          (let s1 = (case createGust cd start cur s of
                       (Some gust, s') \<Rightarrow> s'\<lparr>gustsRef := gustsRef s' @ [gust]\<rparr>
                     | (None, s') \<Rightarrow> s')
           in s1\<lparr>isDrawing := False, drawStartRef := None, drawCurrentRef := None\<rparr>)
      | _ \<Rightarrow> s)"

subsection \<open>Obstacles\<close>

text \<open>\<open>createPipe\<close> closes over \<open>CANVAS_HEIGHT\<close>, \<open>PIPE_GAP\<close> and \<open>PIPE_WIDTH\<close> (its
  dependency list); they are parameters here. \<open>r1\<close> and \<open>r2\<close> are its two calls of
  \<open>Math.random()\<close>, in the order of the source. The body is computed in binary64:
  the literal \<open>0.15\<close> is the double \<open>fl 0.15\<close>, and each operation is rounded.\<close>

definition createPipe :: "real \<Rightarrow> real \<Rightarrow> real \<Rightarrow> real \<Rightarrow> real \<Rightarrow> real \<Rightarrow> Pipe" where
  "createPipe canvasHeight pipeGap pipeWidth x r1 r2 =
     (let minTopHeight = fl (canvasHeight * fl 0.15);
          maxTopHeight = fl (fl (canvasHeight - pipeGap) - fl (canvasHeight * fl 0.15));
          top = fl (fl (r1 * fl (maxTopHeight - minTopHeight)) + minTopHeight)
      in \<lparr>pipe_x = x,
          topHeight = top,
          bottomY = fl (top + pipeGap),
          pipe_width = pipeWidth,
          gap = pipeGap,
          passed = False,
          pipeColor = PIPE_COLORS ! nat \<lfloor>fl (r2 * real (length PIPE_COLORS))\<rfloor>,
          animationOffset = 0\<rparr>)"

definition checkCollision :: "Bird \<Rightarrow> Pipe \<Rightarrow> bool" where
  "checkCollision bird pipe =
     (let birdLeft = bird_x bird - bird_radius bird;
          birdRight = bird_x bird + bird_radius bird;
          birdTop = bird_y bird - bird_radius bird;
          birdBottom = bird_y bird + bird_radius bird;
          pipeLeft = pipe_x pipe;
          pipeRight = pipe_x pipe + pipe_width pipe
      in if birdRight > pipeLeft \<and> birdLeft < pipeRight
         then (if birdTop < topHeight pipe \<or> birdBottom > bottomY pipe then True else False)
         else False)"

subsection \<open>Per-tick updates\<close>

definition applyGustForce :: "Bird \<Rightarrow> Gust \<Rightarrow> real \<Rightarrow> Bird" where
  "applyGustForce bird gust deltaTime =
     (let dist = distance \<lparr>vec_x = bird_x bird, vec_y = bird_y bird\<rparr>
                          \<lparr>vec_x = gust_x gust, vec_y = gust_y gust\<rparr>
      in if dist < gust_radius gust then
           (let influence = 1 - (dist / gust_radius gust)\<^sup>2;
                force = magnitude gust * influence
            in bird\<lparr>bird_vx := bird_vx bird + vec_x (direction gust) * force * deltaTime,
                    bird_vy := bird_vy bird + vec_y (direction gust) * force * deltaTime\<rparr>)
         else bird)"

text \<open>\<open>moveBird\<close> is the first part of \<open>updateBird\<close> (gravity, gusts, damping,
  integration, rotation and the two horizontal walls), which only mutates the bird.\<close>

definition moveBird :: "CanvasDimensions \<Rightarrow> real \<Rightarrow> Gust list \<Rightarrow> Bird \<Rightarrow> Bird" where
  "moveBird cd deltaTime gusts b0 =
     (let b1 = b0\<lparr>bird_vy := bird_vy b0 + GRAVITY * deltaTime\<rparr>;
          b2 = fold (\<lambda>gust bird. applyGustForce bird gust deltaTime) gusts b1;
          b3 = b2\<lparr>bird_vx := bird_vx b2 * 0.98\<rparr>;
          b4 = b3\<lparr>bird_x := bird_x b3 + bird_vx b3 * deltaTime\<rparr>;
          b5 = b4\<lparr>bird_y := bird_y b4 + bird_vy b4 * deltaTime\<rparr>;
          b6 = b5\<lparr>bird_rotation := max (- pi / 3) (min (pi / 2) (bird_vy b5 * 0.003))\<rparr>;
          b7 = (if bird_x b6 < bird_radius b6
                then b6\<lparr>bird_x := bird_radius b6, bird_vx := 0\<rparr> else b6)
      in if bird_x b7 > CANVAS_WIDTH cd - bird_radius b7
         then b7\<lparr>bird_x := CANVAS_WIDTH cd - bird_radius b7, bird_vx := 0\<rparr> else b7)"

definition updateBird :: "CanvasDimensions \<Rightarrow> real \<Rightarrow> App \<Rightarrow> App" where
  "updateBird cd deltaTime s =
     (if gameOverRef s then s
      else
        let bird = moveBird cd deltaTime (gustsRef s) (birdRef s);
            s1 = s\<lparr>birdRef := bird\<rparr>
        in if bird_y bird < bird_radius bird \<or> bird_y bird > CANVAS_HEIGHT cd - bird_radius bird
           then createParticles (bird_x bird) (bird_y bird) 10 ''#FF0000''
                  (addScreenShake 15 (playSound 150 0.5 ''square'' (s1\<lparr>gameOver := True\<rparr>)))
           else s1)"

fun cloudsForEach ::
  "CanvasDimensions \<Rightarrow> real \<Rightarrow> Cloud list \<Rightarrow> (nat \<Rightarrow> real) \<Rightarrow> Cloud list \<times> (nat \<Rightarrow> real)" where
  "cloudsForEach cd deltaTime [] r = ([], r)"
| "cloudsForEach cd deltaTime (cloud # clouds) r =
     (let c1 = cloud\<lparr>cloud_x := cloud_x cloud - cloud_speed cloud * deltaTime\<rparr> in
      if cloud_x c1 < - cloud_size c1 - 50 then
        (let c2 = c1\<lparr>cloud_x := CANVAS_WIDTH cd + cloud_size c1,
                      cloud_y := r 0 * CANVAS_HEIGHT cd * 0.4 + 50\<rparr>;
             (cs, r') = cloudsForEach cd deltaTime clouds (\<lambda>n. r (Suc n))
         in (c2 # cs, r'))
      else
        (let (cs, r') = cloudsForEach cd deltaTime clouds r in (c1 # cs, r')))"

definition updateClouds :: "CanvasDimensions \<Rightarrow> real \<Rightarrow> App \<Rightarrow> App" where
  "updateClouds cd deltaTime s =
     (let (cs, r) = cloudsForEach cd deltaTime (cloudsRef s) (rand s)
      in s\<lparr>cloudsRef := cs, rand := r\<rparr>)"

text \<open>The body of the \<open>forEach\<close> of \<open>updatePipes\<close>: it scrolls one pipe and, the first
  time its trailing edge is behind the bird, marks it passed and adds one to the score.\<close>

definition pipeBody :: "CanvasDimensions \<Rightarrow> real \<Rightarrow> Pipe \<Rightarrow> App \<Rightarrow> Pipe \<times> App" where
  "pipeBody cd deltaTime pipe s =
     (let p1 = pipe\<lparr>pipe_x := pipe_x pipe - PIPE_SPEED cd * deltaTime\<rparr>;
          p2 = (if animationOffset p1 < 1
                then p1\<lparr>animationOffset := animationOffset p1 + deltaTime * 3\<rparr> else p1)
      in if \<not> passed p2 \<and> pipe_x p2 + pipe_width p2 < bird_x (birdRef s) then
           (p2\<lparr>passed := True\<rparr>,
            createParticles (pipe_x p2 + pipe_width p2) (topHeight p2 + gap p2 / 2) 5 ''#4CAF50''
              (playSound 523 0.2 ''sine'' (s\<lparr>score := score s + 1\<rparr>)))
         else (p2, s))"

fun pipesForEach :: "CanvasDimensions \<Rightarrow> real \<Rightarrow> Pipe list \<Rightarrow> App \<Rightarrow> Pipe list \<times> App" where
  "pipesForEach cd deltaTime [] s = ([], s)"
| "pipesForEach cd deltaTime (pipe # pipes) s =
     (let (p, s1) = pipeBody cd deltaTime pipe s;
          (ps, s2) = pipesForEach cd deltaTime pipes s1
      in (p # ps, s2))"

definition updatePipes :: "CanvasDimensions \<Rightarrow> real \<Rightarrow> App \<Rightarrow> App" where
  "updatePipes cd deltaTime s =
     (if gameOverRef s then s
      else
        let (ps, s1) = pipesForEach cd deltaTime (pipesRef s) s;
            s2 = s1\<lparr>pipesRef := filter (\<lambda>pipe. pipe_x pipe > - pipe_width pipe) ps\<rparr>;
            s3 = s2\<lparr>nextPipeTimeRef := nextPipeTimeRef s2 - deltaTime\<rparr>;
            s4 = (if nextPipeTimeRef s3 \<le> 0 then
                    advance 2
                      (s3\<lparr>pipesRef := pipesRef s3 @
                            [createPipe (CANVAS_HEIGHT cd) (PIPE_GAP cd) (PIPE_WIDTH cd)
                               (CANVAS_WIDTH cd + 50) (rand s3 0) (rand s3 1)],
                          nextPipeTimeRef := 2.5\<rparr>)
                  else s3)
        in if list_ex (checkCollision (birdRef s4)) (pipesRef s4)
           then createParticles (bird_x (birdRef s4)) (bird_y (birdRef s4)) 10 ''#FF0000''
                  (addScreenShake 15 (playSound 150 0.5 ''square'' (s4\<lparr>gameOver := True\<rparr>)))
           else s4)"

definition particleStep :: "real \<Rightarrow> Particle \<Rightarrow> Particle" where
  "particleStep deltaTime particle =
     particle\<lparr>particle_x := particle_x particle + particle_vx particle * deltaTime,
              particle_y := particle_y particle + particle_vy particle * deltaTime,
              particle_vy := particle_vy particle + 200 * deltaTime,
              particle_life := particle_life particle - deltaTime\<rparr>"

definition updateParticles :: "real \<Rightarrow> App \<Rightarrow> App" where
  "updateParticles deltaTime s =
     s\<lparr>particlesRef :=
         filter (\<lambda>particle. particle_life particle > 0)
           (map (particleStep deltaTime) (particlesRef s))\<rparr>"

definition gustStep :: "real \<Rightarrow> Gust \<Rightarrow> Gust" where
  "gustStep deltaTime gust = gust\<lparr>gust_life := gust_life gust - deltaTime\<rparr>"

definition updateGusts :: "real \<Rightarrow> App \<Rightarrow> App" where
  "updateGusts deltaTime s =
     s\<lparr>gustsRef := filter (\<lambda>gust. gust_life gust > 0) (map (gustStep deltaTime) (gustsRef s))\<rparr>"

definition updateWindEnergy :: "real \<Rightarrow> App \<Rightarrow> App" where
  "updateWindEnergy deltaTime s =
     (if windEnergyRef s < MAX_WIND_ENERGY
      then s\<lparr>windEnergy := min MAX_WIND_ENERGY (windEnergy s + WIND_REGEN_RATE * deltaTime)\<rparr>
      else s)"

definition updateGameTime :: "real \<Rightarrow> App \<Rightarrow> App" where
  "updateGameTime deltaTime s =
     (if isGameRunningRef s then s\<lparr>gameTimeRef := gameTimeRef s + deltaTime\<rparr> else s)"

subsection \<open>The game loop\<close>

text \<open>\<open>frameDelta\<close> is the \<open>deltaTime\<close> of \<open>gameLoop\<close>: zero on the first frame, when
  \<open>lastTimeRef\<close> is still 0.\<close>

definition frameDelta :: "real \<Rightarrow> App \<Rightarrow> real" where
  "frameDelta currentTime s =
     (if lastTimeRef s \<noteq> 0 then (currentTime - lastTimeRef s) / 1000 else 0)"

text \<open>\<open>update\<close> is the guarded block of \<open>gameLoop\<close>. \<open>render\<close> only reads the state and
  is left out.\<close>

definition update :: "CanvasDimensions \<Rightarrow> real \<Rightarrow> App \<Rightarrow> App" where
  "update cd deltaTime s =
     (let s1 = updateGameTime deltaTime (updateClouds cd deltaTime (updateScreenShake deltaTime s))
      in if isGameRunningRef s1 then
           updateWindEnergy deltaTime
             (updateParticles deltaTime
               (updateGusts deltaTime
                 (updatePipes cd deltaTime
                   (updateBird cd deltaTime s1))))
         else s1)"

definition gameLoop :: "CanvasDimensions \<Rightarrow> real \<Rightarrow> App \<Rightarrow> App" where
  "gameLoop cd currentTime s =
     (let deltaTime = frameDelta currentTime s;
          s1 = (if deltaTime > 0 \<and> deltaTime < 0.1 then update cd deltaTime s else s)
      in s1\<lparr>lastTimeRef := currentTime\<rparr>)"

subsection \<open>React: render and effects\<close>

text \<open>After a render the effects copy the state cells into the refs, the callbacks are
  rebuilt over the rendered \<open>isDrawing\<close>, and the best score follows the score.\<close>

definition commit :: "App \<Rightarrow> App" where
  "commit s =
     (let s1 = s\<lparr>isGameRunningRef := isGameRunning s,
                 gameOverRef := gameOver s,
                 scoreRef := score s,
                 bestScoreRef := bestScore s,
                 windEnergyRef := windEnergy s,
                 isDrawingRendered := isDrawing s\<rparr>
      in if score s1 > bestScore s1 then s1\<lparr>bestScore := score s1\<rparr> else s1)"

datatype event =
    Frame real
  | Commit
  | Click
  | MouseDown Vec
  | MouseMove Vec
  | MouseUp
  | TouchStart Vec
  | TouchMove Vec
  | TouchEnd

fun step :: "CanvasDimensions \<Rightarrow> event \<Rightarrow> App \<Rightarrow> App" where
  "step cd (Frame currentTime) s = gameLoop cd currentTime s"
| "step cd Commit s = commit s"
| "step cd Click s = handleCanvasClick cd s"
| "step cd (MouseDown pos) s = handleMouseDown pos s"
| "step cd (MouseMove pos) s = handleMouseMove pos s"
| "step cd MouseUp s = handleMouseUp cd s"
| "step cd (TouchStart pos) s = handleTouchStart cd pos s"
| "step cd (TouchMove pos) s = handleTouchMove pos s"
| "step cd TouchEnd s = handleTouchEnd cd s"

fun run :: "CanvasDimensions \<Rightarrow> event list \<Rightarrow> App \<Rightarrow> App" where
  "run cd [] s = s"
| "run cd (e # es) s = run cd es (step cd e s)"

text \<open>The state on mount: the \<open>useState\<close> and \<open>useRef\<close> initial values. \<open>best\<close> is the
  best score read from local storage. The clouds are added by the mount effect.\<close>

definition pushCloud :: "CanvasDimensions \<Rightarrow> App \<Rightarrow> App" where
  "pushCloud cd s =
     advance 5 (s\<lparr>cloudsRef := cloudsRef s @
       [\<lparr>cloud_x = rand s 0 * (CANVAS_WIDTH cd + 200) - 200,
         cloud_y = rand s 1 * CANVAS_HEIGHT cd * 0.4 + 50,
         cloud_size = rand s 2 * (CANVAS_WIDTH cd * 0.05) + CANVAS_WIDTH cd * 0.04,
         cloud_speed = rand s 3 * 20 + 10,
         cloud_opacity = rand s 4 * 0.3 + 0.2\<rparr>]\<rparr>)"

fun pushClouds :: "CanvasDimensions \<Rightarrow> nat \<Rightarrow> App \<Rightarrow> App" where
  "pushClouds cd 0 s = s"
| "pushClouds cd (Suc n) s = pushClouds cd n (pushCloud cd s)"

definition initialApp :: "CanvasDimensions \<Rightarrow> nat \<Rightarrow> (nat \<Rightarrow> real) \<Rightarrow> App" where
  "initialApp cd best r =
     pushClouds cd (max 4 (nat \<lfloor>CANVAS_WIDTH cd / 100\<rfloor>))
       \<lparr>isGameRunning = False, gameOver = False, score = 0, bestScore = best,
        windEnergy = 100, isDrawing = False, isDrawingRendered = False,
        isGameRunningRef = False, gameOverRef = False, scoreRef = 0, bestScoreRef = best,
        windEnergyRef = 100, lastTimeRef = 0, gameTimeRef = 0,
        drawStartRef = None, drawCurrentRef = None,
        shakeRef = \<lparr>shake_x = 0, shake_y = 0, intensity = 0\<rparr>,
        cloudsRef = [], birdRef = initialBird cd, pipesRef = [], gustsRef = [],
        particlesRef = [], nextPipeTimeRef = 0, rand = r, effects = []\<rparr>"

section \<open>Notions used to state the properties\<close>

text \<open>The position of the bird, as \<open>distance(bird, gust)\<close> reads it.\<close>

definition birdPos :: "Bird \<Rightarrow> Vec" where
  "birdPos bird = \<lparr>vec_x = bird_x bird, vec_y = bird_y bird\<rparr>"

text \<open>The force field of a gust in the words of the specification (\<open>gustForceAt\<close>):
  zero at distance \<open>radius\<close> or more from the origin, otherwise
  \<open>magnitude * (1 - (d / radius)\<^sup>2)\<close> along the direction. It is compared with
  \<open>applyGustForce\<close> below.\<close>

definition spec_gustForceAt :: "Vec \<Rightarrow> Gust \<Rightarrow> Vec" where
  "spec_gustForceAt point gust =
     (let d = distance point \<lparr>vec_x = gust_x gust, vec_y = gust_y gust\<rparr> in
      if d \<ge> gust_radius gust then \<lparr>vec_x = 0, vec_y = 0\<rparr>
      else \<lparr>vec_x = vec_x (direction gust) * (magnitude gust * (1 - (d / gust_radius gust)\<^sup>2)),
            vec_y = vec_y (direction gust) * (magnitude gust * (1 - (d / gust_radius gust)\<^sup>2))\<rparr>)"

text \<open>The scoring test of \<open>updatePipes\<close>, on the pipe as it is before the tick scrolls
  it: after scrolling by \<open>PIPE_SPEED * deltaTime\<close> its trailing edge is left of the bird.\<close>

definition trailingEdgeBehind :: "CanvasDimensions \<Rightarrow> real \<Rightarrow> App \<Rightarrow> Pipe \<Rightarrow> bool" where
  "trailingEdgeBehind cd deltaTime s pipe \<longleftrightarrow>
     pipe_x pipe - PIPE_SPEED cd * deltaTime + pipe_width pipe < bird_x (birdRef s)"

text \<open>The points one pipe earns over a sequence of ticks: each tick runs the loop body
  of \<open>updatePipes\<close> on the pipe as the previous tick left it, in whatever state the
  game is then, and counts by how much the score grew.\<close>

fun scoredOver :: "CanvasDimensions \<Rightarrow> (real \<times> App) list \<Rightarrow> Pipe \<Rightarrow> nat" where
  "scoredOver cd [] pipe = 0"
| "scoredOver cd ((deltaTime, s) # ticks) pipe =
     (score (snd (pipeBody cd deltaTime pipe s)) - score s) +
     scoredOver cd ticks (fst (pipeBody cd deltaTime pipe s))"

text \<open>The number of pipes on the screen that have not been counted yet, and the events
  that are animation frames.\<close>

definition unpassedCount :: "App \<Rightarrow> nat" where
  "unpassedCount s = length (filter (\<lambda>p. \<not> passed p) (pipesRef s))"

fun isFrame :: "event \<Rightarrow> bool" where
  "isFrame (Frame t) = True"
| "isFrame e = False"

text \<open>The energy pool is within its bounds.\<close>

definition energyInRange :: "App \<Rightarrow> bool" where
  "energyInRange s \<longleftrightarrow> 0 \<le> windEnergy s \<and> windEnergy s \<le> MAX_WIND_ENERGY"

text \<open>The two bounds between which \<open>createPipe\<close> draws \<open>topHeight\<close>, as it computes
  them.\<close>

definition minTopHeight :: "real \<Rightarrow> real" where
  "minTopHeight canvasHeight = fl (canvasHeight * fl 0.15)"

definition maxTopHeight :: "real \<Rightarrow> real \<Rightarrow> real" where
  "maxTopHeight canvasHeight pipeGap =
     fl (fl (canvasHeight - pipeGap) - fl (canvasHeight * fl 0.15))"

text \<open>The length that \<open>normalize\<close> computes for the vector \<open>(x, y)\<close>.\<close>

definition nlen :: "real \<Rightarrow> real \<Rightarrow> real" where
  "nlen x y = fl (sqrt (fl (fl (x * x) + fl (y * y))))"

text \<open>The Euclidean length of the direction of a gust.\<close>

definition directionLength :: "Gust \<Rightarrow> real" where
  "directionLength g = sqrt ((vec_x (direction g))\<^sup>2 + (vec_y (direction g))\<^sup>2)"

text \<open>A gust has a direction whose length is 1 up to the rounding of \<open>normalize\<close>
  (within \<open>1 / 2 ^ 50\<close>, four units in the last place of 1) and a magnitude between 40
  and 1200.\<close>

definition gustWellFormed :: "Gust \<Rightarrow> bool" where
  "gustWellFormed g \<longleftrightarrow>
     \<bar>directionLength g - 1\<bar> \<le> 1 / 2 ^ 50 \<and>
     40 \<le> magnitude g \<and> magnitude g \<le> 1200"

text \<open>The terminal test of \<open>updateBird\<close>, and the three cues the source fires at a
  crash (the sound, the screen shake and the burst of ten red particles at the bird).\<close>

definition outOfBounds :: "CanvasDimensions \<Rightarrow> Bird \<Rightarrow> bool" where
  "outOfBounds cd bird \<longleftrightarrow>
     bird_y bird < bird_radius bird \<or> bird_y bird > CANVAS_HEIGHT cd - bird_radius bird"

definition crashEffects :: "Bird \<Rightarrow> effect list" where
  "crashEffects bird =
     [Sound 150 0.5 ''square'', ShakeAdded 15, Burst (bird_x bird) (bird_y bird) 10 ''#FF0000'']"

text \<open>The cues of one scored pipe.\<close>

definition scoreEffects :: "CanvasDimensions \<Rightarrow> real \<Rightarrow> Pipe \<Rightarrow> effect list" where
  "scoreEffects cd deltaTime pipe =
     [Sound 523 0.2 ''sine'',
      Burst (pipe_x pipe - PIPE_SPEED cd * deltaTime + pipe_width pipe)
            (topHeight pipe + gap pipe / 2) 5 ''#4CAF50'']"

text \<open>Every gust of the active collection is well formed.\<close>

definition gustsWellFormed :: "App \<Rightarrow> bool" where
  "gustsWellFormed s \<longleftrightarrow> (\<forall>g \<in> set (gustsRef s). gustWellFormed g)"

subsection \<open>Example states\<close>

definition demoCanvas :: CanvasDimensions where
  "demoCanvas = \<lparr>width = 800, height = 600\<rparr>"

text \<open>A gust at (400, 300) with radius 100, magnitude 1200 and direction (1, 0).\<close>

definition demoGust :: Gust where
  "demoGust =
     \<lparr>gust_x = 400, gust_y = 300, direction = \<lparr>vec_x = 1, vec_y = 0\<rparr>, magnitude = 1200,
      gust_radius = 100, gust_life = 1.2, gust_maxLife = 1.2\<rparr>"

text \<open>A run in progress, with half of the energy left and a stroke being drawn from
  (400, 300) to (500, 300).\<close>

definition demoApp :: App where
  "demoApp =
     \<lparr>isGameRunning = True, gameOver = False, score = 0, bestScore = 0,
      windEnergy = 50, isDrawing = True, isDrawingRendered = True,
      isGameRunningRef = True, gameOverRef = False, scoreRef = 0, bestScoreRef = 0,
      windEnergyRef = 50, lastTimeRef = 1000, gameTimeRef = 1,
      drawStartRef = Some \<lparr>vec_x = 400, vec_y = 300\<rparr>,
      drawCurrentRef = Some \<lparr>vec_x = 500, vec_y = 300\<rparr>,
      shakeRef = \<lparr>shake_x = 0, shake_y = 0, intensity = 0\<rparr>,
      cloudsRef = [], birdRef = initialBird demoCanvas, pipesRef = [], gustsRef = [],
      particlesRef = [], nextPipeTimeRef = 1, rand = (\<lambda>n. 1 / 2), effects = []\<rparr>"

text \<open>The same run with a diagonal stroke, from (100, 100) to (200, 200).\<close>

definition diagonalApp :: App where
  "diagonalApp =
     demoApp\<lparr>drawStartRef := Some \<lparr>vec_x = 100, vec_y = 100\<rparr>,
             drawCurrentRef := Some \<lparr>vec_x = 200, vec_y = 200\<rparr>\<rparr>"

text \<open>A finished run after the render that followed the crash: \<open>gameOver\<close> and
  \<open>gameOverRef\<close> are set, \<open>isGameRunning\<close> is still set (nothing ever clears it),
  one gust is still alive and half of the energy is left.\<close>

definition overApp :: App where
  "overApp =
     \<lparr>isGameRunning = True, gameOver = True, score = 3, bestScore = 3,
      windEnergy = 50, isDrawing = False, isDrawingRendered = False,
      isGameRunningRef = True, gameOverRef = True, scoreRef = 3, bestScoreRef = 3,
      windEnergyRef = 50, lastTimeRef = 1000, gameTimeRef = 5,
      drawStartRef = None, drawCurrentRef = None,
      shakeRef = \<lparr>shake_x = 0, shake_y = 0, intensity = 0\<rparr>,
      cloudsRef = [],
      birdRef = \<lparr>bird_x = 100, bird_y = 590, bird_radius = 20, bird_color = ''#FFD700'',
                 bird_vy = 500, bird_vx = 0, bird_rotation = 1.5\<rparr>,
      pipesRef = [], gustsRef = [demoGust],
      particlesRef = [], nextPipeTimeRef = 1, rand = (\<lambda>n. 1 / 2), effects = []\<rparr>"

text \<open>A run in progress in which the bird, falling at 500 px/s and drifting right at
  50 px/s, is one tick above the
  floor (\<open>y = 579\<close>, the floor test is \<open>y > 580\<close>) and horizontally inside a pipe.\<close>

definition fallingApp :: App where
  "fallingApp =
     \<lparr>isGameRunning = True, gameOver = False, score = 0, bestScore = 0,
      windEnergy = 100, isDrawing = False, isDrawingRendered = False,
      isGameRunningRef = True, gameOverRef = False, scoreRef = 0, bestScoreRef = 0,
      windEnergyRef = 100, lastTimeRef = 1000, gameTimeRef = 6,
      drawStartRef = None, drawCurrentRef = None,
      shakeRef = \<lparr>shake_x = 0, shake_y = 0, intensity = 0\<rparr>,
      cloudsRef = [],
      birdRef = \<lparr>bird_x = 100, bird_y = 579, bird_radius = 20, bird_color = ''#FFD700'',
                 bird_vy = 500, bird_vx = 50, bird_rotation = 1.5\<rparr>,
      pipesRef = [\<lparr>pipe_x = 90, topHeight = 200, bottomY = 350, pipe_width = 60, gap = 150,
                   passed = False, pipeColor = ''#4CAF50'', animationOffset = 1\<rparr>],
      gustsRef = [],
      particlesRef = [], nextPipeTimeRef = 1, rand = (\<lambda>n. 1 / 2), effects = []\<rparr>"

text \<open>The same run with the pipe further right, at \<open>x = 121\<close>: the right edge of the
  bird is at 120, so the bird does not touch the pipe yet, and it is still above the
  floor.\<close>

definition closingApp :: App where
  "closingApp =
     fallingApp\<lparr>pipesRef :=
       [\<lparr>pipe_x = 121, topHeight = 200, bottomY = 350, pipe_width = 60, gap = 150,
         passed = False, pipeColor = ''#4CAF50'', animationOffset = 1\<rparr>]\<rparr>"

text \<open>A pipe that the bird of \<open>demoApp\<close> (at \<open>x = 100\<close>) has not passed yet and whose
  trailing edge is at 90.\<close>

definition demoPipe :: Pipe where
  "demoPipe =
     \<lparr>pipe_x = 30, topHeight = 200, bottomY = 350, pipe_width = 60, gap = 150,
      passed = False, pipeColor = ''#4CAF50'', animationOffset = 1\<rparr>"

section \<open>Frame lemmas: the cells each callback leaves alone\<close>

lemma advance_frame [simp]:
  "isGameRunning (advance k s) = isGameRunning s
   \<and> gameOver (advance k s) = gameOver s
   \<and> score (advance k s) = score s
   \<and> bestScore (advance k s) = bestScore s
   \<and> windEnergy (advance k s) = windEnergy s
   \<and> isDrawing (advance k s) = isDrawing s
   \<and> isDrawingRendered (advance k s) = isDrawingRendered s
   \<and> isGameRunningRef (advance k s) = isGameRunningRef s
   \<and> gameOverRef (advance k s) = gameOverRef s
   \<and> scoreRef (advance k s) = scoreRef s
   \<and> bestScoreRef (advance k s) = bestScoreRef s
   \<and> windEnergyRef (advance k s) = windEnergyRef s
   \<and> lastTimeRef (advance k s) = lastTimeRef s
   \<and> gameTimeRef (advance k s) = gameTimeRef s
   \<and> drawStartRef (advance k s) = drawStartRef s
   \<and> drawCurrentRef (advance k s) = drawCurrentRef s
   \<and> shakeRef (advance k s) = shakeRef s
   \<and> cloudsRef (advance k s) = cloudsRef s
   \<and> birdRef (advance k s) = birdRef s
   \<and> pipesRef (advance k s) = pipesRef s
   \<and> gustsRef (advance k s) = gustsRef s
   \<and> particlesRef (advance k s) = particlesRef s
   \<and> nextPipeTimeRef (advance k s) = nextPipeTimeRef s
   \<and> effects (advance k s) = effects s"
  by (simp add: advance_def)

lemma playSound_frame [simp]:
  "isGameRunning (playSound f d t s) = isGameRunning s
   \<and> gameOver (playSound f d t s) = gameOver s
   \<and> score (playSound f d t s) = score s
   \<and> bestScore (playSound f d t s) = bestScore s
   \<and> windEnergy (playSound f d t s) = windEnergy s
   \<and> isDrawing (playSound f d t s) = isDrawing s
   \<and> isDrawingRendered (playSound f d t s) = isDrawingRendered s
   \<and> isGameRunningRef (playSound f d t s) = isGameRunningRef s
   \<and> gameOverRef (playSound f d t s) = gameOverRef s
   \<and> scoreRef (playSound f d t s) = scoreRef s
   \<and> bestScoreRef (playSound f d t s) = bestScoreRef s
   \<and> windEnergyRef (playSound f d t s) = windEnergyRef s
   \<and> lastTimeRef (playSound f d t s) = lastTimeRef s
   \<and> gameTimeRef (playSound f d t s) = gameTimeRef s
   \<and> drawStartRef (playSound f d t s) = drawStartRef s
   \<and> drawCurrentRef (playSound f d t s) = drawCurrentRef s
   \<and> shakeRef (playSound f d t s) = shakeRef s
   \<and> cloudsRef (playSound f d t s) = cloudsRef s
   \<and> birdRef (playSound f d t s) = birdRef s
   \<and> pipesRef (playSound f d t s) = pipesRef s
   \<and> gustsRef (playSound f d t s) = gustsRef s
   \<and> particlesRef (playSound f d t s) = particlesRef s
   \<and> nextPipeTimeRef (playSound f d t s) = nextPipeTimeRef s
   \<and> rand (playSound f d t s) = rand s"
  by (simp add: playSound_def)

lemma pushParticle_frame [simp]:
  "isGameRunning (pushParticle x y c s) = isGameRunning s
   \<and> gameOver (pushParticle x y c s) = gameOver s
   \<and> score (pushParticle x y c s) = score s
   \<and> bestScore (pushParticle x y c s) = bestScore s
   \<and> windEnergy (pushParticle x y c s) = windEnergy s
   \<and> isDrawing (pushParticle x y c s) = isDrawing s
   \<and> isDrawingRendered (pushParticle x y c s) = isDrawingRendered s
   \<and> isGameRunningRef (pushParticle x y c s) = isGameRunningRef s
   \<and> gameOverRef (pushParticle x y c s) = gameOverRef s
   \<and> scoreRef (pushParticle x y c s) = scoreRef s
   \<and> bestScoreRef (pushParticle x y c s) = bestScoreRef s
   \<and> windEnergyRef (pushParticle x y c s) = windEnergyRef s
   \<and> lastTimeRef (pushParticle x y c s) = lastTimeRef s
   \<and> gameTimeRef (pushParticle x y c s) = gameTimeRef s
   \<and> drawStartRef (pushParticle x y c s) = drawStartRef s
   \<and> drawCurrentRef (pushParticle x y c s) = drawCurrentRef s
   \<and> shakeRef (pushParticle x y c s) = shakeRef s
   \<and> cloudsRef (pushParticle x y c s) = cloudsRef s
   \<and> birdRef (pushParticle x y c s) = birdRef s
   \<and> pipesRef (pushParticle x y c s) = pipesRef s
   \<and> gustsRef (pushParticle x y c s) = gustsRef s
   \<and> nextPipeTimeRef (pushParticle x y c s) = nextPipeTimeRef s
   \<and> effects (pushParticle x y c s) = effects s"
  by (simp add: pushParticle_def)

lemma pushParticles_frame [simp]:
  "isGameRunning (pushParticles x y n c s) = isGameRunning s
   \<and> gameOver (pushParticles x y n c s) = gameOver s
   \<and> score (pushParticles x y n c s) = score s
   \<and> bestScore (pushParticles x y n c s) = bestScore s
   \<and> windEnergy (pushParticles x y n c s) = windEnergy s
   \<and> isDrawing (pushParticles x y n c s) = isDrawing s
   \<and> isDrawingRendered (pushParticles x y n c s) = isDrawingRendered s
   \<and> isGameRunningRef (pushParticles x y n c s) = isGameRunningRef s
   \<and> gameOverRef (pushParticles x y n c s) = gameOverRef s
   \<and> scoreRef (pushParticles x y n c s) = scoreRef s
   \<and> bestScoreRef (pushParticles x y n c s) = bestScoreRef s
   \<and> windEnergyRef (pushParticles x y n c s) = windEnergyRef s
   \<and> lastTimeRef (pushParticles x y n c s) = lastTimeRef s
   \<and> gameTimeRef (pushParticles x y n c s) = gameTimeRef s
   \<and> drawStartRef (pushParticles x y n c s) = drawStartRef s
   \<and> drawCurrentRef (pushParticles x y n c s) = drawCurrentRef s
   \<and> shakeRef (pushParticles x y n c s) = shakeRef s
   \<and> cloudsRef (pushParticles x y n c s) = cloudsRef s
   \<and> birdRef (pushParticles x y n c s) = birdRef s
   \<and> pipesRef (pushParticles x y n c s) = pipesRef s
   \<and> gustsRef (pushParticles x y n c s) = gustsRef s
   \<and> nextPipeTimeRef (pushParticles x y n c s) = nextPipeTimeRef s
   \<and> effects (pushParticles x y n c s) = effects s"
  by (induction n arbitrary: s) simp_all

lemma createParticles_frame [simp]:
  "isGameRunning (createParticles x y n c s) = isGameRunning s
   \<and> gameOver (createParticles x y n c s) = gameOver s
   \<and> score (createParticles x y n c s) = score s
   \<and> bestScore (createParticles x y n c s) = bestScore s
   \<and> windEnergy (createParticles x y n c s) = windEnergy s
   \<and> isDrawing (createParticles x y n c s) = isDrawing s
   \<and> isDrawingRendered (createParticles x y n c s) = isDrawingRendered s
   \<and> isGameRunningRef (createParticles x y n c s) = isGameRunningRef s
   \<and> gameOverRef (createParticles x y n c s) = gameOverRef s
   \<and> scoreRef (createParticles x y n c s) = scoreRef s
   \<and> bestScoreRef (createParticles x y n c s) = bestScoreRef s
   \<and> windEnergyRef (createParticles x y n c s) = windEnergyRef s
   \<and> lastTimeRef (createParticles x y n c s) = lastTimeRef s
   \<and> gameTimeRef (createParticles x y n c s) = gameTimeRef s
   \<and> drawStartRef (createParticles x y n c s) = drawStartRef s
   \<and> drawCurrentRef (createParticles x y n c s) = drawCurrentRef s
   \<and> shakeRef (createParticles x y n c s) = shakeRef s
   \<and> cloudsRef (createParticles x y n c s) = cloudsRef s
   \<and> birdRef (createParticles x y n c s) = birdRef s
   \<and> pipesRef (createParticles x y n c s) = pipesRef s
   \<and> gustsRef (createParticles x y n c s) = gustsRef s
   \<and> nextPipeTimeRef (createParticles x y n c s) = nextPipeTimeRef s"
  by (simp add: createParticles_def)

lemma addScreenShake_frame [simp]:
  "isGameRunning (addScreenShake i s) = isGameRunning s
   \<and> gameOver (addScreenShake i s) = gameOver s
   \<and> score (addScreenShake i s) = score s
   \<and> bestScore (addScreenShake i s) = bestScore s
   \<and> windEnergy (addScreenShake i s) = windEnergy s
   \<and> isDrawing (addScreenShake i s) = isDrawing s
   \<and> isDrawingRendered (addScreenShake i s) = isDrawingRendered s
   \<and> isGameRunningRef (addScreenShake i s) = isGameRunningRef s
   \<and> gameOverRef (addScreenShake i s) = gameOverRef s
   \<and> scoreRef (addScreenShake i s) = scoreRef s
   \<and> bestScoreRef (addScreenShake i s) = bestScoreRef s
   \<and> windEnergyRef (addScreenShake i s) = windEnergyRef s
   \<and> lastTimeRef (addScreenShake i s) = lastTimeRef s
   \<and> gameTimeRef (addScreenShake i s) = gameTimeRef s
   \<and> drawStartRef (addScreenShake i s) = drawStartRef s
   \<and> drawCurrentRef (addScreenShake i s) = drawCurrentRef s
   \<and> cloudsRef (addScreenShake i s) = cloudsRef s
   \<and> birdRef (addScreenShake i s) = birdRef s
   \<and> pipesRef (addScreenShake i s) = pipesRef s
   \<and> gustsRef (addScreenShake i s) = gustsRef s
   \<and> particlesRef (addScreenShake i s) = particlesRef s
   \<and> nextPipeTimeRef (addScreenShake i s) = nextPipeTimeRef s
   \<and> rand (addScreenShake i s) = rand s"
  by (simp add: addScreenShake_def)

lemma updateScreenShake_frame [simp]:
  "isGameRunning (updateScreenShake dt s) = isGameRunning s
   \<and> gameOver (updateScreenShake dt s) = gameOver s
   \<and> score (updateScreenShake dt s) = score s
   \<and> bestScore (updateScreenShake dt s) = bestScore s
   \<and> windEnergy (updateScreenShake dt s) = windEnergy s
   \<and> isDrawing (updateScreenShake dt s) = isDrawing s
   \<and> isDrawingRendered (updateScreenShake dt s) = isDrawingRendered s
   \<and> isGameRunningRef (updateScreenShake dt s) = isGameRunningRef s
   \<and> gameOverRef (updateScreenShake dt s) = gameOverRef s
   \<and> scoreRef (updateScreenShake dt s) = scoreRef s
   \<and> bestScoreRef (updateScreenShake dt s) = bestScoreRef s
   \<and> windEnergyRef (updateScreenShake dt s) = windEnergyRef s
   \<and> lastTimeRef (updateScreenShake dt s) = lastTimeRef s
   \<and> gameTimeRef (updateScreenShake dt s) = gameTimeRef s
   \<and> drawStartRef (updateScreenShake dt s) = drawStartRef s
   \<and> drawCurrentRef (updateScreenShake dt s) = drawCurrentRef s
   \<and> cloudsRef (updateScreenShake dt s) = cloudsRef s
   \<and> birdRef (updateScreenShake dt s) = birdRef s
   \<and> pipesRef (updateScreenShake dt s) = pipesRef s
   \<and> gustsRef (updateScreenShake dt s) = gustsRef s
   \<and> particlesRef (updateScreenShake dt s) = particlesRef s
   \<and> nextPipeTimeRef (updateScreenShake dt s) = nextPipeTimeRef s
   \<and> effects (updateScreenShake dt s) = effects s"
  by (simp add: updateScreenShake_def Let_def)

lemma updateClouds_frame [simp]:
  "isGameRunning (updateClouds cd dt s) = isGameRunning s
   \<and> gameOver (updateClouds cd dt s) = gameOver s
   \<and> score (updateClouds cd dt s) = score s
   \<and> bestScore (updateClouds cd dt s) = bestScore s
   \<and> windEnergy (updateClouds cd dt s) = windEnergy s
   \<and> isDrawing (updateClouds cd dt s) = isDrawing s
   \<and> isDrawingRendered (updateClouds cd dt s) = isDrawingRendered s
   \<and> isGameRunningRef (updateClouds cd dt s) = isGameRunningRef s
   \<and> gameOverRef (updateClouds cd dt s) = gameOverRef s
   \<and> scoreRef (updateClouds cd dt s) = scoreRef s
   \<and> bestScoreRef (updateClouds cd dt s) = bestScoreRef s
   \<and> windEnergyRef (updateClouds cd dt s) = windEnergyRef s
   \<and> lastTimeRef (updateClouds cd dt s) = lastTimeRef s
   \<and> gameTimeRef (updateClouds cd dt s) = gameTimeRef s
   \<and> drawStartRef (updateClouds cd dt s) = drawStartRef s
   \<and> drawCurrentRef (updateClouds cd dt s) = drawCurrentRef s
   \<and> shakeRef (updateClouds cd dt s) = shakeRef s
   \<and> birdRef (updateClouds cd dt s) = birdRef s
   \<and> pipesRef (updateClouds cd dt s) = pipesRef s
   \<and> gustsRef (updateClouds cd dt s) = gustsRef s
   \<and> particlesRef (updateClouds cd dt s) = particlesRef s
   \<and> nextPipeTimeRef (updateClouds cd dt s) = nextPipeTimeRef s
   \<and> effects (updateClouds cd dt s) = effects s"
  by (simp add: updateClouds_def split: prod.splits)

lemma updateGameTime_frame [simp]:
  "isGameRunning (updateGameTime dt s) = isGameRunning s
   \<and> gameOver (updateGameTime dt s) = gameOver s
   \<and> score (updateGameTime dt s) = score s
   \<and> bestScore (updateGameTime dt s) = bestScore s
   \<and> windEnergy (updateGameTime dt s) = windEnergy s
   \<and> isDrawing (updateGameTime dt s) = isDrawing s
   \<and> isDrawingRendered (updateGameTime dt s) = isDrawingRendered s
   \<and> isGameRunningRef (updateGameTime dt s) = isGameRunningRef s
   \<and> gameOverRef (updateGameTime dt s) = gameOverRef s
   \<and> scoreRef (updateGameTime dt s) = scoreRef s
   \<and> bestScoreRef (updateGameTime dt s) = bestScoreRef s
   \<and> windEnergyRef (updateGameTime dt s) = windEnergyRef s
   \<and> lastTimeRef (updateGameTime dt s) = lastTimeRef s
   \<and> drawStartRef (updateGameTime dt s) = drawStartRef s
   \<and> drawCurrentRef (updateGameTime dt s) = drawCurrentRef s
   \<and> shakeRef (updateGameTime dt s) = shakeRef s
   \<and> cloudsRef (updateGameTime dt s) = cloudsRef s
   \<and> birdRef (updateGameTime dt s) = birdRef s
   \<and> pipesRef (updateGameTime dt s) = pipesRef s
   \<and> gustsRef (updateGameTime dt s) = gustsRef s
   \<and> particlesRef (updateGameTime dt s) = particlesRef s
   \<and> nextPipeTimeRef (updateGameTime dt s) = nextPipeTimeRef s
   \<and> rand (updateGameTime dt s) = rand s
   \<and> effects (updateGameTime dt s) = effects s"
  by (simp add: updateGameTime_def)

lemma updateWindEnergy_frame [simp]:
  "isGameRunning (updateWindEnergy dt s) = isGameRunning s
   \<and> gameOver (updateWindEnergy dt s) = gameOver s
   \<and> score (updateWindEnergy dt s) = score s
   \<and> bestScore (updateWindEnergy dt s) = bestScore s
   \<and> isDrawing (updateWindEnergy dt s) = isDrawing s
   \<and> isDrawingRendered (updateWindEnergy dt s) = isDrawingRendered s
   \<and> isGameRunningRef (updateWindEnergy dt s) = isGameRunningRef s
   \<and> gameOverRef (updateWindEnergy dt s) = gameOverRef s
   \<and> scoreRef (updateWindEnergy dt s) = scoreRef s
   \<and> bestScoreRef (updateWindEnergy dt s) = bestScoreRef s
   \<and> windEnergyRef (updateWindEnergy dt s) = windEnergyRef s
   \<and> lastTimeRef (updateWindEnergy dt s) = lastTimeRef s
   \<and> gameTimeRef (updateWindEnergy dt s) = gameTimeRef s
   \<and> drawStartRef (updateWindEnergy dt s) = drawStartRef s
   \<and> drawCurrentRef (updateWindEnergy dt s) = drawCurrentRef s
   \<and> shakeRef (updateWindEnergy dt s) = shakeRef s
   \<and> cloudsRef (updateWindEnergy dt s) = cloudsRef s
   \<and> birdRef (updateWindEnergy dt s) = birdRef s
   \<and> pipesRef (updateWindEnergy dt s) = pipesRef s
   \<and> gustsRef (updateWindEnergy dt s) = gustsRef s
   \<and> particlesRef (updateWindEnergy dt s) = particlesRef s
   \<and> nextPipeTimeRef (updateWindEnergy dt s) = nextPipeTimeRef s
   \<and> rand (updateWindEnergy dt s) = rand s
   \<and> effects (updateWindEnergy dt s) = effects s"
  by (simp add: updateWindEnergy_def)

lemma updateGusts_frame [simp]:
  "isGameRunning (updateGusts dt s) = isGameRunning s
   \<and> gameOver (updateGusts dt s) = gameOver s
   \<and> score (updateGusts dt s) = score s
   \<and> bestScore (updateGusts dt s) = bestScore s
   \<and> windEnergy (updateGusts dt s) = windEnergy s
   \<and> isDrawing (updateGusts dt s) = isDrawing s
   \<and> isDrawingRendered (updateGusts dt s) = isDrawingRendered s
   \<and> isGameRunningRef (updateGusts dt s) = isGameRunningRef s
   \<and> gameOverRef (updateGusts dt s) = gameOverRef s
   \<and> scoreRef (updateGusts dt s) = scoreRef s
   \<and> bestScoreRef (updateGusts dt s) = bestScoreRef s
   \<and> windEnergyRef (updateGusts dt s) = windEnergyRef s
   \<and> lastTimeRef (updateGusts dt s) = lastTimeRef s
   \<and> gameTimeRef (updateGusts dt s) = gameTimeRef s
   \<and> drawStartRef (updateGusts dt s) = drawStartRef s
   \<and> drawCurrentRef (updateGusts dt s) = drawCurrentRef s
   \<and> shakeRef (updateGusts dt s) = shakeRef s
   \<and> cloudsRef (updateGusts dt s) = cloudsRef s
   \<and> birdRef (updateGusts dt s) = birdRef s
   \<and> pipesRef (updateGusts dt s) = pipesRef s
   \<and> particlesRef (updateGusts dt s) = particlesRef s
   \<and> nextPipeTimeRef (updateGusts dt s) = nextPipeTimeRef s
   \<and> rand (updateGusts dt s) = rand s
   \<and> effects (updateGusts dt s) = effects s"
  by (simp add: updateGusts_def)

lemma updateParticles_frame [simp]:
  "isGameRunning (updateParticles dt s) = isGameRunning s
   \<and> gameOver (updateParticles dt s) = gameOver s
   \<and> score (updateParticles dt s) = score s
   \<and> bestScore (updateParticles dt s) = bestScore s
   \<and> windEnergy (updateParticles dt s) = windEnergy s
   \<and> isDrawing (updateParticles dt s) = isDrawing s
   \<and> isDrawingRendered (updateParticles dt s) = isDrawingRendered s
   \<and> isGameRunningRef (updateParticles dt s) = isGameRunningRef s
   \<and> gameOverRef (updateParticles dt s) = gameOverRef s
   \<and> scoreRef (updateParticles dt s) = scoreRef s
   \<and> bestScoreRef (updateParticles dt s) = bestScoreRef s
   \<and> windEnergyRef (updateParticles dt s) = windEnergyRef s
   \<and> lastTimeRef (updateParticles dt s) = lastTimeRef s
   \<and> gameTimeRef (updateParticles dt s) = gameTimeRef s
   \<and> drawStartRef (updateParticles dt s) = drawStartRef s
   \<and> drawCurrentRef (updateParticles dt s) = drawCurrentRef s
   \<and> shakeRef (updateParticles dt s) = shakeRef s
   \<and> cloudsRef (updateParticles dt s) = cloudsRef s
   \<and> birdRef (updateParticles dt s) = birdRef s
   \<and> pipesRef (updateParticles dt s) = pipesRef s
   \<and> gustsRef (updateParticles dt s) = gustsRef s
   \<and> nextPipeTimeRef (updateParticles dt s) = nextPipeTimeRef s
   \<and> rand (updateParticles dt s) = rand s
   \<and> effects (updateParticles dt s) = effects s"
  by (simp add: updateParticles_def)

lemma flap_frame [simp]:
  "isGameRunning (flap s) = isGameRunning s
   \<and> gameOver (flap s) = gameOver s
   \<and> score (flap s) = score s
   \<and> bestScore (flap s) = bestScore s
   \<and> windEnergy (flap s) = windEnergy s
   \<and> isDrawing (flap s) = isDrawing s
   \<and> isDrawingRendered (flap s) = isDrawingRendered s
   \<and> isGameRunningRef (flap s) = isGameRunningRef s
   \<and> gameOverRef (flap s) = gameOverRef s
   \<and> scoreRef (flap s) = scoreRef s
   \<and> bestScoreRef (flap s) = bestScoreRef s
   \<and> windEnergyRef (flap s) = windEnergyRef s
   \<and> lastTimeRef (flap s) = lastTimeRef s
   \<and> gameTimeRef (flap s) = gameTimeRef s
   \<and> drawStartRef (flap s) = drawStartRef s
   \<and> drawCurrentRef (flap s) = drawCurrentRef s
   \<and> shakeRef (flap s) = shakeRef s
   \<and> cloudsRef (flap s) = cloudsRef s
   \<and> pipesRef (flap s) = pipesRef s
   \<and> gustsRef (flap s) = gustsRef s
   \<and> nextPipeTimeRef (flap s) = nextPipeTimeRef s"
  by (simp add: flap_def Let_def)

lemma pipeBody_frame [simp]:
  "isGameRunning (snd (pipeBody cd dt p s)) = isGameRunning s
   \<and> gameOver (snd (pipeBody cd dt p s)) = gameOver s
   \<and> bestScore (snd (pipeBody cd dt p s)) = bestScore s
   \<and> windEnergy (snd (pipeBody cd dt p s)) = windEnergy s
   \<and> isDrawing (snd (pipeBody cd dt p s)) = isDrawing s
   \<and> isDrawingRendered (snd (pipeBody cd dt p s)) = isDrawingRendered s
   \<and> isGameRunningRef (snd (pipeBody cd dt p s)) = isGameRunningRef s
   \<and> gameOverRef (snd (pipeBody cd dt p s)) = gameOverRef s
   \<and> scoreRef (snd (pipeBody cd dt p s)) = scoreRef s
   \<and> bestScoreRef (snd (pipeBody cd dt p s)) = bestScoreRef s
   \<and> windEnergyRef (snd (pipeBody cd dt p s)) = windEnergyRef s
   \<and> lastTimeRef (snd (pipeBody cd dt p s)) = lastTimeRef s
   \<and> gameTimeRef (snd (pipeBody cd dt p s)) = gameTimeRef s
   \<and> drawStartRef (snd (pipeBody cd dt p s)) = drawStartRef s
   \<and> drawCurrentRef (snd (pipeBody cd dt p s)) = drawCurrentRef s
   \<and> shakeRef (snd (pipeBody cd dt p s)) = shakeRef s
   \<and> cloudsRef (snd (pipeBody cd dt p s)) = cloudsRef s
   \<and> birdRef (snd (pipeBody cd dt p s)) = birdRef s
   \<and> pipesRef (snd (pipeBody cd dt p s)) = pipesRef s
   \<and> gustsRef (snd (pipeBody cd dt p s)) = gustsRef s
   \<and> nextPipeTimeRef (snd (pipeBody cd dt p s)) = nextPipeTimeRef s"
  by (simp add: pipeBody_def Let_def)

lemma pipesForEach_frame [simp]:
  "isGameRunning (snd (pipesForEach cd dt ps s)) = isGameRunning s
   \<and> gameOver (snd (pipesForEach cd dt ps s)) = gameOver s
   \<and> bestScore (snd (pipesForEach cd dt ps s)) = bestScore s
   \<and> windEnergy (snd (pipesForEach cd dt ps s)) = windEnergy s
   \<and> isDrawing (snd (pipesForEach cd dt ps s)) = isDrawing s
   \<and> isDrawingRendered (snd (pipesForEach cd dt ps s)) = isDrawingRendered s
   \<and> isGameRunningRef (snd (pipesForEach cd dt ps s)) = isGameRunningRef s
   \<and> gameOverRef (snd (pipesForEach cd dt ps s)) = gameOverRef s
   \<and> scoreRef (snd (pipesForEach cd dt ps s)) = scoreRef s
   \<and> bestScoreRef (snd (pipesForEach cd dt ps s)) = bestScoreRef s
   \<and> windEnergyRef (snd (pipesForEach cd dt ps s)) = windEnergyRef s
   \<and> lastTimeRef (snd (pipesForEach cd dt ps s)) = lastTimeRef s
   \<and> gameTimeRef (snd (pipesForEach cd dt ps s)) = gameTimeRef s
   \<and> drawStartRef (snd (pipesForEach cd dt ps s)) = drawStartRef s
   \<and> drawCurrentRef (snd (pipesForEach cd dt ps s)) = drawCurrentRef s
   \<and> shakeRef (snd (pipesForEach cd dt ps s)) = shakeRef s
   \<and> cloudsRef (snd (pipesForEach cd dt ps s)) = cloudsRef s
   \<and> birdRef (snd (pipesForEach cd dt ps s)) = birdRef s
   \<and> pipesRef (snd (pipesForEach cd dt ps s)) = pipesRef s
   \<and> gustsRef (snd (pipesForEach cd dt ps s)) = gustsRef s
   \<and> nextPipeTimeRef (snd (pipesForEach cd dt ps s)) = nextPipeTimeRef s"
  by (induction ps arbitrary: s) (simp_all add: case_prod_unfold Let_def)

lemma updateBird_frame [simp]:
  "isGameRunning (updateBird cd dt s) = isGameRunning s
   \<and> score (updateBird cd dt s) = score s
   \<and> bestScore (updateBird cd dt s) = bestScore s
   \<and> windEnergy (updateBird cd dt s) = windEnergy s
   \<and> isDrawing (updateBird cd dt s) = isDrawing s
   \<and> isDrawingRendered (updateBird cd dt s) = isDrawingRendered s
   \<and> isGameRunningRef (updateBird cd dt s) = isGameRunningRef s
   \<and> gameOverRef (updateBird cd dt s) = gameOverRef s
   \<and> scoreRef (updateBird cd dt s) = scoreRef s
   \<and> bestScoreRef (updateBird cd dt s) = bestScoreRef s
   \<and> windEnergyRef (updateBird cd dt s) = windEnergyRef s
   \<and> lastTimeRef (updateBird cd dt s) = lastTimeRef s
   \<and> gameTimeRef (updateBird cd dt s) = gameTimeRef s
   \<and> drawStartRef (updateBird cd dt s) = drawStartRef s
   \<and> drawCurrentRef (updateBird cd dt s) = drawCurrentRef s
   \<and> cloudsRef (updateBird cd dt s) = cloudsRef s
   \<and> pipesRef (updateBird cd dt s) = pipesRef s
   \<and> gustsRef (updateBird cd dt s) = gustsRef s
   \<and> nextPipeTimeRef (updateBird cd dt s) = nextPipeTimeRef s"
  by (simp add: updateBird_def Let_def)

lemma updatePipes_frame [simp]:
  "isGameRunning (updatePipes cd dt s) = isGameRunning s
   \<and> bestScore (updatePipes cd dt s) = bestScore s
   \<and> windEnergy (updatePipes cd dt s) = windEnergy s
   \<and> isDrawing (updatePipes cd dt s) = isDrawing s
   \<and> isDrawingRendered (updatePipes cd dt s) = isDrawingRendered s
   \<and> isGameRunningRef (updatePipes cd dt s) = isGameRunningRef s
   \<and> gameOverRef (updatePipes cd dt s) = gameOverRef s
   \<and> scoreRef (updatePipes cd dt s) = scoreRef s
   \<and> bestScoreRef (updatePipes cd dt s) = bestScoreRef s
   \<and> windEnergyRef (updatePipes cd dt s) = windEnergyRef s
   \<and> lastTimeRef (updatePipes cd dt s) = lastTimeRef s
   \<and> gameTimeRef (updatePipes cd dt s) = gameTimeRef s
   \<and> drawStartRef (updatePipes cd dt s) = drawStartRef s
   \<and> drawCurrentRef (updatePipes cd dt s) = drawCurrentRef s
   \<and> cloudsRef (updatePipes cd dt s) = cloudsRef s
   \<and> birdRef (updatePipes cd dt s) = birdRef s
   \<and> gustsRef (updatePipes cd dt s) = gustsRef s"
  by (simp add: updatePipes_def Let_def case_prod_unfold)

lemma createGust_frame [simp]:
  "isGameRunning (snd (createGust cd a b s)) = isGameRunning s
   \<and> gameOver (snd (createGust cd a b s)) = gameOver s
   \<and> score (snd (createGust cd a b s)) = score s
   \<and> bestScore (snd (createGust cd a b s)) = bestScore s
   \<and> isDrawing (snd (createGust cd a b s)) = isDrawing s
   \<and> isDrawingRendered (snd (createGust cd a b s)) = isDrawingRendered s
   \<and> isGameRunningRef (snd (createGust cd a b s)) = isGameRunningRef s
   \<and> gameOverRef (snd (createGust cd a b s)) = gameOverRef s
   \<and> scoreRef (snd (createGust cd a b s)) = scoreRef s
   \<and> bestScoreRef (snd (createGust cd a b s)) = bestScoreRef s
   \<and> windEnergyRef (snd (createGust cd a b s)) = windEnergyRef s
   \<and> lastTimeRef (snd (createGust cd a b s)) = lastTimeRef s
   \<and> gameTimeRef (snd (createGust cd a b s)) = gameTimeRef s
   \<and> drawStartRef (snd (createGust cd a b s)) = drawStartRef s
   \<and> drawCurrentRef (snd (createGust cd a b s)) = drawCurrentRef s
   \<and> shakeRef (snd (createGust cd a b s)) = shakeRef s
   \<and> cloudsRef (snd (createGust cd a b s)) = cloudsRef s
   \<and> birdRef (snd (createGust cd a b s)) = birdRef s
   \<and> pipesRef (snd (createGust cd a b s)) = pipesRef s
   \<and> gustsRef (snd (createGust cd a b s)) = gustsRef s
   \<and> nextPipeTimeRef (snd (createGust cd a b s)) = nextPipeTimeRef s"
  by (simp add: createGust_def Let_def)

lemma pushCloud_frame [simp]:
  "isGameRunning (pushCloud cd s) = isGameRunning s
   \<and> gameOver (pushCloud cd s) = gameOver s
   \<and> score (pushCloud cd s) = score s
   \<and> bestScore (pushCloud cd s) = bestScore s
   \<and> windEnergy (pushCloud cd s) = windEnergy s
   \<and> isDrawing (pushCloud cd s) = isDrawing s
   \<and> isDrawingRendered (pushCloud cd s) = isDrawingRendered s
   \<and> isGameRunningRef (pushCloud cd s) = isGameRunningRef s
   \<and> gameOverRef (pushCloud cd s) = gameOverRef s
   \<and> scoreRef (pushCloud cd s) = scoreRef s
   \<and> bestScoreRef (pushCloud cd s) = bestScoreRef s
   \<and> windEnergyRef (pushCloud cd s) = windEnergyRef s
   \<and> lastTimeRef (pushCloud cd s) = lastTimeRef s
   \<and> gameTimeRef (pushCloud cd s) = gameTimeRef s
   \<and> drawStartRef (pushCloud cd s) = drawStartRef s
   \<and> drawCurrentRef (pushCloud cd s) = drawCurrentRef s
   \<and> shakeRef (pushCloud cd s) = shakeRef s
   \<and> birdRef (pushCloud cd s) = birdRef s
   \<and> pipesRef (pushCloud cd s) = pipesRef s
   \<and> gustsRef (pushCloud cd s) = gustsRef s
   \<and> particlesRef (pushCloud cd s) = particlesRef s
   \<and> nextPipeTimeRef (pushCloud cd s) = nextPipeTimeRef s
   \<and> effects (pushCloud cd s) = effects s"
  by (simp add: pushCloud_def)

lemma pushClouds_frame [simp]:
  "isGameRunning (pushClouds cd n s) = isGameRunning s
   \<and> gameOver (pushClouds cd n s) = gameOver s
   \<and> score (pushClouds cd n s) = score s
   \<and> bestScore (pushClouds cd n s) = bestScore s
   \<and> windEnergy (pushClouds cd n s) = windEnergy s
   \<and> isDrawing (pushClouds cd n s) = isDrawing s
   \<and> isDrawingRendered (pushClouds cd n s) = isDrawingRendered s
   \<and> isGameRunningRef (pushClouds cd n s) = isGameRunningRef s
   \<and> gameOverRef (pushClouds cd n s) = gameOverRef s
   \<and> scoreRef (pushClouds cd n s) = scoreRef s
   \<and> bestScoreRef (pushClouds cd n s) = bestScoreRef s
   \<and> windEnergyRef (pushClouds cd n s) = windEnergyRef s
   \<and> lastTimeRef (pushClouds cd n s) = lastTimeRef s
   \<and> gameTimeRef (pushClouds cd n s) = gameTimeRef s
   \<and> drawStartRef (pushClouds cd n s) = drawStartRef s
   \<and> drawCurrentRef (pushClouds cd n s) = drawCurrentRef s
   \<and> shakeRef (pushClouds cd n s) = shakeRef s
   \<and> birdRef (pushClouds cd n s) = birdRef s
   \<and> pipesRef (pushClouds cd n s) = pipesRef s
   \<and> gustsRef (pushClouds cd n s) = gustsRef s
   \<and> particlesRef (pushClouds cd n s) = particlesRef s
   \<and> nextPipeTimeRef (pushClouds cd n s) = nextPipeTimeRef s
   \<and> effects (pushClouds cd n s) = effects s"
  by (induction n arbitrary: s) simp_all

lemma update_frame [simp]:
  "isGameRunning (update cd dt s) = isGameRunning s
   \<and> bestScore (update cd dt s) = bestScore s
   \<and> isDrawing (update cd dt s) = isDrawing s
   \<and> isDrawingRendered (update cd dt s) = isDrawingRendered s
   \<and> isGameRunningRef (update cd dt s) = isGameRunningRef s
   \<and> gameOverRef (update cd dt s) = gameOverRef s
   \<and> scoreRef (update cd dt s) = scoreRef s
   \<and> bestScoreRef (update cd dt s) = bestScoreRef s
   \<and> windEnergyRef (update cd dt s) = windEnergyRef s
   \<and> lastTimeRef (update cd dt s) = lastTimeRef s
   \<and> drawStartRef (update cd dt s) = drawStartRef s
   \<and> drawCurrentRef (update cd dt s) = drawCurrentRef s"
  by (simp add: update_def Let_def)

section \<open>Facts about binary64 rounding\<close>

subsection \<open>Rounding to the nearest integer and to 53 bits\<close>

lemma roundEven_floor_le: "\<lfloor>y\<rfloor> \<le> roundEven y"
  by (simp add: roundEven_def Let_def)

lemma roundEven_le_floor1: "roundEven y \<le> \<lfloor>y\<rfloor> + 1"
  by (simp add: roundEven_def Let_def)

lemma roundEven_of_int [simp]: "roundEven (of_int k) = k"
  by (simp add: roundEven_def Let_def)

lemma roundEven_error: "\<bar>of_int (roundEven y) - y\<bar> \<le> 1 / 2"
proof -
  have "of_int \<lfloor>y\<rfloor> \<le> y" "y < of_int \<lfloor>y\<rfloor> + 1" by linarith+
  then show ?thesis by (auto simp add: roundEven_def Let_def)
qed

lemma roundEven_eqI:
  assumes "of_int n - 1 / 2 < y" "y < of_int n + 1 / 2"
  shows "roundEven y = n"
proof -
  have e: "\<bar>of_int (roundEven y) - y\<bar> \<le> 1 / 2" by (rule roundEven_error)
  have "\<bar>of_int (roundEven y) - (of_int n :: real)\<bar> < 1" using e assms by linarith
  then have "\<bar>roundEven y - n\<bar> < 1" by (metis of_int_diff of_int_abs of_int_less_1_iff)
  then show ?thesis by linarith
qed

lemma roundEven_le_int: "y \<le> of_int n \<Longrightarrow> roundEven y \<le> n"
proof -
  assume a: "y \<le> of_int n"
  show ?thesis
  proof (cases "y = of_int n")
    case True then show ?thesis by simp
  next
    case False
    then have "y < of_int n" using a by simp
    then have "\<lfloor>y\<rfloor> < n" by (simp add: floor_less_iff)
    then show ?thesis using roundEven_le_floor1[of y] by linarith
  qed
qed

lemma roundEven_ge_int: "of_int n \<le> y \<Longrightarrow> n \<le> roundEven y"
  using roundEven_floor_le[of y] by (meson le_floor_iff order_trans)


lemma roundEven_nonneg: "0 \<le> y \<Longrightarrow> 0 \<le> roundEven y"
  using roundEven_ge_int[of 0 y] by simp

lemma expo_bounds:
  assumes "x \<noteq> 0"
  shows "2 powi (expo x) \<le> \<bar>x\<bar>" and "\<bar>x\<bar> < 2 powi (expo x + 1)"
proof -
  have pos: "0 < \<bar>x\<bar>" using assms by simp
  have "\<lfloor>log 2 \<bar>x\<bar>\<rfloor> = expo x" by (simp add: expo_def)
  then have "2 powr (of_int (expo x)) \<le> \<bar>x\<bar> \<and> \<bar>x\<bar> < 2 powr (of_int (expo x) + 1)"
    using floor_log_eq_powr_iff[of "\<bar>x\<bar>" 2 "expo x"] pos by simp
  then show "2 powi (expo x) \<le> \<bar>x\<bar>" and "\<bar>x\<bar> < 2 powi (expo x + 1)"
    using powr_real_of_int'[of 2 "expo x"] powr_real_of_int'[of 2 "expo x + 1"] by simp_all
qed

lemma powi_le_abs_nonzero:
  assumes "2 powi e \<le> \<bar>x :: real\<bar>"
  shows "x \<noteq> 0"
proof -
  have "0 < \<bar>x\<bar>" using assms zero_less_power_int[of "2::real" e] by linarith
  then show ?thesis by simp
qed

lemma expo_eqI:
  assumes "2 powi e \<le> \<bar>x\<bar>" "\<bar>x\<bar> < 2 powi (e + 1)"
  shows "expo x = e"
proof -
  have pos: "0 < \<bar>x\<bar>" using assms(1) zero_less_power_int[of "2::real" e] by linarith
  have "2 powr (of_int e) \<le> \<bar>x\<bar> \<and> \<bar>x\<bar> < 2 powr (of_int e + 1)"
    using assms powr_real_of_int'[of 2 e] powr_real_of_int'[of 2 "e + 1"] by simp
  then show ?thesis
    unfolding expo_def using floor_log_eq_powr_iff[of "\<bar>x\<bar>" 2 e] pos by simp
qed

lemma fl_eval:
  assumes "2 powi e \<le> \<bar>x\<bar>" "\<bar>x\<bar> < 2 powi (e + 1)"
      and "of_int n - 1 / 2 < x / 2 powi (e - 52)" "x / 2 powi (e - 52) < of_int n + 1 / 2"
  shows "fl x = of_int n * 2 powi (e - 52)"
proof -
  have e: "expo x = e" using assms(1,2) by (rule expo_eqI)
  have "x \<noteq> 0" using assms(1) by (rule powi_le_abs_nonzero)
  then show ?thesis using roundEven_eqI[OF assms(3,4)] by (simp add: fl_def e)
qed

lemma fl_eval_exact:
  assumes "2 powi e \<le> \<bar>x\<bar>" "\<bar>x\<bar> < 2 powi (e + 1)"
      and "x / 2 powi (e - 52) = of_int n"
  shows "fl x = x"
proof -
  have e: "expo x = e" using assms(1,2) by (rule expo_eqI)
  have nz: "x \<noteq> 0" using assms(1) by (rule powi_le_abs_nonzero)
  have "of_int n * 2 powi (e - 52) = x"
    using assms(3)[symmetric] by simp
  then show ?thesis using nz by (simp add: fl_def e assms(3))
qed

lemma abs_scale:
  fixes a x q :: real
  assumes "0 < q"
  shows "\<bar>a - x / q\<bar> * q = \<bar>a * q - x\<bar>"
proof -
  have "a * q - x = (a - x / q) * q" using assms by (simp add: field_simps)
  then have "\<bar>a * q - x\<bar> = \<bar>a - x / q\<bar> * \<bar>q\<bar>" by (simp only: abs_mult)
  then show ?thesis using assms by simp
qed

lemma fl_error: "\<bar>fl x - x\<bar> \<le> \<bar>x\<bar> / 2 ^ 53"
proof (cases "x = 0")
  case True then show ?thesis by (simp add: fl_def)
next
  case False
  let ?q = "2 powi (expo x - 52) :: real"
  have q: "0 < ?q" by simp
  have "\<bar>of_int (roundEven (x / ?q)) - x / ?q\<bar> \<le> 1 / 2" by (rule roundEven_error)
  then have "\<bar>of_int (roundEven (x / ?q)) - x / ?q\<bar> * ?q \<le> 1 / 2 * ?q"
    using q by (simp add: mult_right_mono)
  moreover have "\<bar>of_int (roundEven (x / ?q)) - x / ?q\<bar> * ?q =
        \<bar>of_int (roundEven (x / ?q)) * ?q - x\<bar>"
    using q by (rule abs_scale)
  ultimately have err: "\<bar>fl x - x\<bar> \<le> ?q / 2" using False by (simp add: fl_def)
  have "?q = 2 powi (expo x) / 2 ^ 52"
    by (simp add: power_int_diff)
  then have "?q / 2 = 2 powi (expo x) / 2 ^ 53" by simp
  also have "\<dots> \<le> \<bar>x\<bar> / 2 ^ 53"
    using expo_bounds(1)[OF False] by (simp add: divide_right_mono)
  finally show ?thesis using err by linarith
qed



lemma fl_zero [simp]: "fl 0 = 0"
  by (simp add: fl_def)



lemma fl_idem [simp]: "fl (fl x) = fl x"
proof (cases "x = 0")
  case True
  then show ?thesis by simp
next
  case False
  let ?e = "expo x"
  let ?q = "2 powi (?e - 52) :: real"
  let ?k = "roundEven (x / ?q)"
  have q: "0 < ?q" by simp
  have z: "fl x = of_int ?k * ?q" using False by (simp add: fl_def)
  have b: "2 powi ?e \<le> \<bar>x\<bar>" "\<bar>x\<bar> < 2 powi (?e + 1)" using expo_bounds[OF False] by simp_all
  have lo: "2 ^ 52 \<le> \<bar>x\<bar> / ?q"
  proof -
    have "2 powi ?e / ?q \<le> \<bar>x\<bar> / ?q" using b(1) by (simp add: divide_right_mono)
    moreover have "2 powi ?e / ?q = 2 ^ 52" by (simp add: power_int_diff)
    ultimately show ?thesis by simp
  qed
  have hi: "\<bar>x\<bar> / ?q \<le> 2 ^ 53"
  proof -
    have "\<bar>x\<bar> / ?q \<le> 2 powi (?e + 1) / ?q" using b(2) by (simp add: divide_right_mono)
    moreover have "2 powi (?e + 1) / ?q = 2 ^ 53" by (simp add: power_int_diff power_int_add)
    ultimately show ?thesis by simp
  qed
  have ax: "\<bar>x / ?q\<bar> = \<bar>x\<bar> / ?q" by simp
  have klo: "2 ^ 52 \<le> \<bar>?k\<bar>"
  proof (cases "0 \<le> x")
    case True
    then have "of_int (2 ^ 52) \<le> x / ?q" using lo by simp
    then have "2 ^ 52 \<le> ?k" by (rule roundEven_ge_int)
    then show ?thesis by simp
  next
    case False
    then have "x / ?q \<le> of_int (- (2 ^ 52))" using lo by simp
    then have "?k \<le> - (2 ^ 52)" by (rule roundEven_le_int)
    then show ?thesis by simp
  qed
  have khi: "\<bar>?k\<bar> \<le> 2 ^ 53"
  proof (cases "0 \<le> x")
    case True
    then have "x / ?q \<le> of_int (2 ^ 53)" using hi by simp
    then have k: "?k \<le> 2 ^ 53" by (rule roundEven_le_int)
    have "0 \<le> x / ?q" using True by simp
    then have "0 \<le> ?k" by (rule roundEven_nonneg)
    then show ?thesis using k by simp
  next
    case False
    then have "of_int (- (2 ^ 53)) \<le> x / ?q" using hi by simp
    then have k: "- (2 ^ 53) \<le> ?k" by (rule roundEven_ge_int)
    have "x / ?q \<le> of_int 0" using False by (simp add: divide_nonpos_pos)
    then have "?k \<le> 0" by (rule roundEven_le_int)
    then show ?thesis using k by simp
  qed
  have absz: "\<bar>fl x\<bar> = of_int \<bar>?k\<bar> * ?q" using q by (simp add: z abs_mult)
  have rlo: "(2 ^ 52 :: real) \<le> of_int \<bar>?k\<bar>"
  proof -
    have "(of_int (2 ^ 52) :: real) \<le> of_int \<bar>?k\<bar>" using klo by (simp only: of_int_le_iff)
    then show ?thesis by simp
  qed
  have zlo: "2 powi ?e \<le> \<bar>fl x\<bar>"
  proof -
    have "2 ^ 52 * ?q \<le> of_int \<bar>?k\<bar> * ?q" using rlo by (rule mult_right_mono) simp
    moreover have "2 ^ 52 * ?q = 2 powi ?e" by (simp add: power_int_diff)
    ultimately show ?thesis using absz by linarith
  qed
  show ?thesis
  proof (cases "\<bar>?k\<bar> = 2 ^ 53")
    case False
    then have "\<bar>?k\<bar> < 2 ^ 53" using khi by linarith
    then have "(of_int \<bar>?k\<bar> :: real) < of_int (2 ^ 53)" by (simp only: of_int_less_iff)
    then have "(of_int \<bar>?k\<bar> :: real) < 2 ^ 53" by simp
    then have "of_int \<bar>?k\<bar> * ?q < 2 ^ 53 * ?q" using q by (simp add: mult_strict_right_mono)
    moreover have "2 ^ 53 * ?q = 2 powi (?e + 1)" by (simp add: power_int_diff power_int_add)
    ultimately have zhi: "\<bar>fl x\<bar> < 2 powi (?e + 1)" using absz by linarith
    have "fl x / ?q = of_int ?k" using q by (simp add: z)
    with zlo zhi show ?thesis by (rule fl_eval_exact)
  next
    case True
    then have "(of_int \<bar>?k\<bar> :: real) = of_int (2 ^ 53)" by (simp only:)
    then have k53: "(of_int \<bar>?k\<bar> :: real) = 2 ^ 53" by simp
    have p: "2 ^ 53 * ?q = 2 powi (?e + 1)" by (simp add: power_int_diff power_int_add)
    have az: "\<bar>fl x\<bar> = 2 powi (?e + 1)" using absz k53 p by simp
    have zlo': "2 powi (?e + 1) \<le> \<bar>fl x\<bar>" using az by simp
    have "(2::real) powi (?e + 1) < 2 powi (?e + 1 + 1)"
      by (intro power_int_strict_increasing) simp_all
    then have zhi': "\<bar>fl x\<bar> < 2 powi (?e + 1 + 1)" using az by simp
    have q2: "2 powi (?e + 1 - 52) = 2 * ?q" by (simp add: power_int_diff power_int_add)
    obtain j where j: "?k = 2 * j"
    proof -
      have "even \<bar>?k\<bar>" using True by simp
      then have "even ?k" by simp
      then show ?thesis using that by (auto elim: evenE)
    qed
    have "fl x / 2 powi (?e + 1 - 52) = (of_int (2 * j) * ?q) / (2 * ?q)"
      by (simp only: z q2 j)
    also have "\<dots> = of_int j" using q by simp
    finally have "fl x / 2 powi (?e + 1 - 52) = of_int j" .
    with zlo' zhi' show ?thesis by (rule fl_eval_exact)
  qed
qed

subsection \<open>Relative error\<close>

lemma unitRoundoff_bounds: "0 < unitRoundoff" "unitRoundoff < 1"
  by (simp_all add: unitRoundoff_def)

lemma fl_rel_error: "\<bar>fl x - x\<bar> \<le> \<bar>x\<bar> * unitRoundoff"
  using fl_error[of x] by (simp add: unitRoundoff_def)

lemma fl_rel_nonneg:
  assumes "0 \<le> z"
  shows "z * (1 - unitRoundoff) \<le> fl z" and "fl z \<le> z * (1 + unitRoundoff)"
proof -
  have "\<bar>fl z - z\<bar> \<le> z * unitRoundoff" using fl_rel_error[of z] assms by simp
  then have "- (z * unitRoundoff) \<le> fl z - z" "fl z - z \<le> z * unitRoundoff"
    by linarith+
  then show "z * (1 - unitRoundoff) \<le> fl z" and "fl z \<le> z * (1 + unitRoundoff)"
    by (simp_all add: algebra_simps)
qed

lemma fl_abs_bounds:
  shows "\<bar>w\<bar> * (1 - unitRoundoff) \<le> \<bar>fl w\<bar>" and "\<bar>fl w\<bar> \<le> \<bar>w\<bar> * (1 + unitRoundoff)"
proof -
  have e: "\<bar>fl w - w\<bar> \<le> \<bar>w\<bar> * unitRoundoff" by (rule fl_rel_error)
  have "\<bar>w\<bar> - \<bar>w\<bar> * unitRoundoff \<le> \<bar>fl w\<bar>" using e by linarith
  then show "\<bar>w\<bar> * (1 - unitRoundoff) \<le> \<bar>fl w\<bar>" by (simp add: algebra_simps)
  have "\<bar>fl w\<bar> \<le> \<bar>w\<bar> + \<bar>w\<bar> * unitRoundoff" using e by linarith
  then show "\<bar>fl w\<bar> \<le> \<bar>w\<bar> * (1 + unitRoundoff)" by (simp add: algebra_simps)
qed

lemma fl_sq_bounds:
  shows "w\<^sup>2 * (1 - unitRoundoff)\<^sup>2 \<le> (fl w)\<^sup>2" and "(fl w)\<^sup>2 \<le> w\<^sup>2 * (1 + unitRoundoff)\<^sup>2"
proof -
  have nn: "0 \<le> \<bar>w\<bar> * (1 - unitRoundoff)" using unitRoundoff_bounds by simp
  have "(\<bar>w\<bar> * (1 - unitRoundoff))\<^sup>2 \<le> \<bar>fl w\<bar>\<^sup>2"
    using fl_abs_bounds(1)[of w] nn by (rule power_mono)
  then show "w\<^sup>2 * (1 - unitRoundoff)\<^sup>2 \<le> (fl w)\<^sup>2" by (simp add: power_mult_distrib)
  have "\<bar>fl w\<bar>\<^sup>2 \<le> (\<bar>w\<bar> * (1 + unitRoundoff))\<^sup>2"
    using fl_abs_bounds(2)[of w] by (rule power_mono) simp
  then show "(fl w)\<^sup>2 \<le> w\<^sup>2 * (1 + unitRoundoff)\<^sup>2" by (simp add: power_mult_distrib)
qed


lemma nlen_sq_bounds:
  assumes "0 < x * x + y * y"
  shows "0 < nlen x y"
    and "(x * x + y * y) * (1 - unitRoundoff) ^ 4 \<le> (nlen x y)\<^sup>2"
    and "(nlen x y)\<^sup>2 \<le> (x * x + y * y) * (1 + unitRoundoff) ^ 4"
proof -
  let ?u = "unitRoundoff"
  let ?a = "x * x" and ?b = "y * y"
  let ?A = "fl (x * x)" and ?B = "fl (y * y)"
  let ?S = "fl (?A + ?B)"
  have u: "0 < 1 - ?u" "0 < 1 + ?u" using unitRoundoff_bounds by simp_all
  have a: "0 \<le> ?a" "0 \<le> ?b" by simp_all
  have A: "?a * (1 - ?u) \<le> ?A" "?A \<le> ?a * (1 + ?u)" using fl_rel_nonneg[OF a(1)] by simp_all
  have B: "?b * (1 - ?u) \<le> ?B" "?B \<le> ?b * (1 + ?u)" using fl_rel_nonneg[OF a(2)] by simp_all
  have AB: "(?a + ?b) * (1 - ?u) \<le> ?A + ?B" "?A + ?B \<le> (?a + ?b) * (1 + ?u)"
    using A B by (simp_all add: distrib_right)
  have ABpos: "0 < ?A + ?B"
  proof -
    have "0 < (?a + ?b) * (1 - ?u)" using assms u by simp
    then show ?thesis using AB(1) by linarith
  qed
  have S: "(?A + ?B) * (1 - ?u) \<le> ?S" "?S \<le> (?A + ?B) * (1 + ?u)"
    using fl_rel_nonneg[of "?A + ?B"] ABpos by simp_all
  have S1: "(?a + ?b) * (1 - ?u)\<^sup>2 \<le> ?S"
  proof -
    have "(?a + ?b) * (1 - ?u) * (1 - ?u) \<le> (?A + ?B) * (1 - ?u)"
      using AB(1) u(1) by (simp add: mult_right_mono)
    then show ?thesis using S(1) by (simp add: power2_eq_square mult.assoc)
  qed
  have S2: "?S \<le> (?a + ?b) * (1 + ?u)\<^sup>2"
  proof -
    have "(?A + ?B) * (1 + ?u) \<le> (?a + ?b) * (1 + ?u) * (1 + ?u)"
      using AB(2) u(2) by (simp add: mult_right_mono)
    then show ?thesis using S(2) by (simp add: power2_eq_square mult.assoc)
  qed
  have Spos: "0 < ?S"
  proof -
    have "0 < (?A + ?B) * (1 - ?u)" using ABpos u by simp
    then show ?thesis using S(1) by linarith
  qed
  have sq: "(sqrt ?S)\<^sup>2 = ?S" using Spos by simp
  have "(sqrt ?S)\<^sup>2 * (1 - ?u)\<^sup>2 \<le> (fl (sqrt ?S))\<^sup>2"
       "(fl (sqrt ?S))\<^sup>2 \<le> (sqrt ?S)\<^sup>2 * (1 + ?u)\<^sup>2"
    by (rule fl_sq_bounds)+
  then have L: "?S * (1 - ?u)\<^sup>2 \<le> (nlen x y)\<^sup>2" "(nlen x y)\<^sup>2 \<le> ?S * (1 + ?u)\<^sup>2"
    unfolding nlen_def sq by this+
  have "sqrt ?S * (1 - ?u) \<le> nlen x y"
    unfolding nlen_def using fl_rel_nonneg(1)[of "sqrt ?S"] Spos by simp
  moreover have "0 < sqrt ?S * (1 - ?u)" using Spos u by simp
  ultimately show "0 < nlen x y" by linarith
  have p4: "(1 - ?u) ^ 4 = (1 - ?u)\<^sup>2 * (1 - ?u)\<^sup>2" "(1 + ?u) ^ 4 = (1 + ?u)\<^sup>2 * (1 + ?u)\<^sup>2"
    by (simp_all add: power2_eq_square power4_eq_xxxx)
  have "(?a + ?b) * (1 - ?u)\<^sup>2 * (1 - ?u)\<^sup>2 \<le> ?S * (1 - ?u)\<^sup>2"
    using S1 by (intro mult_right_mono) simp_all
  then have "(?a + ?b) * (1 - ?u)\<^sup>2 * (1 - ?u)\<^sup>2 \<le> (nlen x y)\<^sup>2"
    using L(1) by linarith
  then show "(x * x + y * y) * (1 - unitRoundoff) ^ 4 \<le> (nlen x y)\<^sup>2"
    by (simp only: p4 mult.assoc)
  have "?S * (1 + ?u)\<^sup>2 \<le> (?a + ?b) * (1 + ?u)\<^sup>2 * (1 + ?u)\<^sup>2"
    using S2 by (intro mult_right_mono) simp_all
  then have "(nlen x y)\<^sup>2 \<le> (?a + ?b) * (1 + ?u)\<^sup>2 * (1 + ?u)\<^sup>2"
    using L(2) by linarith
  then show "(nlen x y)\<^sup>2 \<le> (x * x + y * y) * (1 + unitRoundoff) ^ 4"
    by (simp only: p4 mult.assoc)
qed

lemma normalized_sq_bounds:
  assumes "0 < x * x + y * y"
  shows "(1 - unitRoundoff)\<^sup>2 / (1 + unitRoundoff) ^ 4
           \<le> (fl (x / nlen x y))\<^sup>2 + (fl (y / nlen x y))\<^sup>2"
    and "(fl (x / nlen x y))\<^sup>2 + (fl (y / nlen x y))\<^sup>2
           \<le> (1 + unitRoundoff)\<^sup>2 / (1 - unitRoundoff) ^ 4"
proof -
  let ?u = "unitRoundoff"
  let ?L = "nlen x y"
  let ?q = "x * x + y * y"
  have u: "0 < 1 - ?u" "0 < 1 + ?u" using unitRoundoff_bounds by simp_all
  have L: "0 < ?L" "?q * (1 - ?u) ^ 4 \<le> ?L\<^sup>2" "?L\<^sup>2 \<le> ?q * (1 + ?u) ^ 4"
    using nlen_sq_bounds[OF assms] by simp_all
  have L2: "0 < ?L\<^sup>2" using L(1) by simp
  have w: "(x / ?L)\<^sup>2 + (y / ?L)\<^sup>2 = ?q / ?L\<^sup>2"
    by (simp add: power_divide add_divide_distrib power2_eq_square)
  have "((x / ?L)\<^sup>2 + (y / ?L)\<^sup>2) * (1 - ?u)\<^sup>2 \<le> (fl (x / ?L))\<^sup>2 + (fl (y / ?L))\<^sup>2"
    using fl_sq_bounds(1)[of "x / ?L"] fl_sq_bounds(1)[of "y / ?L"]
    unfolding distrib_right by (rule add_mono)
  then have lo1: "(?q / ?L\<^sup>2) * (1 - ?u)\<^sup>2 \<le> (fl (x / ?L))\<^sup>2 + (fl (y / ?L))\<^sup>2"
    unfolding w .
  have "(fl (x / ?L))\<^sup>2 + (fl (y / ?L))\<^sup>2 \<le> ((x / ?L)\<^sup>2 + (y / ?L)\<^sup>2) * (1 + ?u)\<^sup>2"
    using fl_sq_bounds(2)[of "x / ?L"] fl_sq_bounds(2)[of "y / ?L"]
    unfolding distrib_right by (rule add_mono)
  then have hi1: "(fl (x / ?L))\<^sup>2 + (fl (y / ?L))\<^sup>2 \<le> (?q / ?L\<^sup>2) * (1 + ?u)\<^sup>2"
    unfolding w .
  have p1: "0 < (1 + ?u) ^ 4" "0 < (1 - ?u) ^ 4" using u by simp_all
  have r_lo: "1 / (1 + ?u) ^ 4 \<le> ?q / ?L\<^sup>2"
  proof -
    have "?L\<^sup>2 / (1 + ?u) ^ 4 \<le> ?q" using L(3) p1(1) by (simp only: pos_divide_le_eq)
    then have "1 / (1 + ?u) ^ 4 * ?L\<^sup>2 \<le> ?q" by simp
    then show ?thesis using L2 by (simp only: pos_le_divide_eq)
  qed
  have r_hi: "?q / ?L\<^sup>2 \<le> 1 / (1 - ?u) ^ 4"
  proof -
    have "?q \<le> ?L\<^sup>2 / (1 - ?u) ^ 4" using L(2) p1(2) by (simp only: pos_le_divide_eq)
    then have "?q \<le> 1 / (1 - ?u) ^ 4 * ?L\<^sup>2" by simp
    then show ?thesis using L2 by (simp only: pos_divide_le_eq)
  qed
  have "(1 / (1 + ?u) ^ 4) * (1 - ?u)\<^sup>2 \<le> (?q / ?L\<^sup>2) * (1 - ?u)\<^sup>2"
    using r_lo by (intro mult_right_mono) simp_all
  then show "(1 - ?u)\<^sup>2 / (1 + ?u) ^ 4 \<le> (fl (x / ?L))\<^sup>2 + (fl (y / ?L))\<^sup>2"
    using lo1 by simp
  have "(?q / ?L\<^sup>2) * (1 + ?u)\<^sup>2 \<le> (1 / (1 - ?u) ^ 4) * (1 + ?u)\<^sup>2"
    using r_hi by (intro mult_right_mono) simp_all
  then show "(fl (x / ?L))\<^sup>2 + (fl (y / ?L))\<^sup>2 \<le> (1 + ?u)\<^sup>2 / (1 - ?u) ^ 4"
    using hi1 by simp
qed

subsection \<open>Evaluating a rounding\<close>

lemma roundoff_numeric1: "1 - 1 / 2 ^ 50 \<le> (1 - unitRoundoff)\<^sup>2 / (1 + unitRoundoff) ^ 4"
  by (simp add: unitRoundoff_def power_divide)

lemma roundoff_numeric2: "(1 + unitRoundoff)\<^sup>2 / (1 - unitRoundoff) ^ 4 \<le> 1 + 1 / 2 ^ 50"
  by (simp add: unitRoundoff_def power_divide)



lemma fl_sqrt_eval:
  assumes "(2 powi e)\<^sup>2 \<le> y" and "y < (2 powi (e + 1))\<^sup>2"
    and "((of_int n - 1 / 2) * 2 powi (e - 52))\<^sup>2 < y"
    and "y < ((of_int n + 1 / 2) * 2 powi (e - 52))\<^sup>2"
    and "1 \<le> n"
  shows "fl (sqrt y) = of_int n * 2 powi (e - 52)"
proof (rule fl_eval)
  have q: "0 < (2::real) powi (e - 52)" by simp
  have n: "(1::real) \<le> of_int n" using assms(5) by simp
  show "2 powi e \<le> \<bar>sqrt y\<bar>"
    using real_le_rsqrt[OF assms(1)] by simp
  have "sqrt y < 2 powi (e + 1)"
    using assms(2) by (intro real_less_lsqrt) simp_all
  moreover have "0 \<le> sqrt y" using assms(1) by (simp add: order_trans[OF zero_le_power2])
  ultimately show "\<bar>sqrt y\<bar> < 2 powi (e + 1)" by simp
  have "(of_int n - 1 / 2) * 2 powi (e - 52) < sqrt y"
    using assms(3) by (rule real_less_rsqrt)
  then show "of_int n - 1 / 2 < sqrt y / 2 powi (e - 52)"
    using q by (simp only: pos_less_divide_eq)
  have "0 \<le> (of_int n + 1 / 2) * (2::real) powi (e - 52)" using n by simp
  then have "sqrt y < (of_int n + 1 / 2) * 2 powi (e - 52)"
    using assms(4) by (intro real_less_lsqrt) simp_all
  then show "sqrt y / 2 powi (e - 52) < of_int n + 1 / 2"
    using q by (simp only: pos_divide_less_eq)
qed


lemma fl_1 [simp]: "fl 1 = 1"
  by (rule fl_eval_exact[of 0 _ 4503599627370496]) simp_all

lemma fl_100: "fl 100 = 100"
  by (rule fl_eval_exact[of 6 _ 7036874417766400]) simp_all







lemma fl_10000: "fl 10000 = 10000"
  by (rule fl_eval_exact[of 13 _ 5497558138880000]) simp_all

lemma fl_20000: "fl 20000 = 20000"
  by (rule fl_eval_exact[of 14 _ 5497558138880000]) simp_all





lemma fl_sqrt_20000: "fl (sqrt 20000) = 621977702395095 / 2 ^ 42"
  by (rule trans[OF fl_sqrt_eval[of 7 _ 4975821619160760]]) (simp_all add: power_divide)

lemma fl_diag_component: "fl (100 / (621977702395095 / 2 ^ 42)) = 1592262918131443 / 2 ^ 51"
  by (rule trans[OF fl_eval[of "-1" _ 6369051672525772]]) simp_all

section \<open>Helper lemmas\<close>

lemma distance_horizontal:
  "distance \<lparr>vec_x = a, vec_y = b\<rparr> \<lparr>vec_x = c, vec_y = b\<rparr> = \<bar>a - c\<bar>"
  by (simp add: distance_def)

lemma createGust_None:
  assumes "distance start end < 20 \<or>
           min (distance start end * GUST_COST_PER_PIXEL) (windEnergyRef s) < 10"
  shows "createGust cd start end s = (None, s)"
  using assms by (auto simp add: createGust_def Let_def)

lemma createGust_windEnergy:
  "windEnergy (snd (createGust cd a b s)) =
     (if distance a b < 20 \<or> min (distance a b * GUST_COST_PER_PIXEL) (windEnergyRef s) < 10
      then windEnergy s
      else max 0 (windEnergy s - min (distance a b * GUST_COST_PER_PIXEL) (windEnergyRef s)))"
  by (simp add: createGust_def Let_def)

lemma update_windEnergy:
  "windEnergy (update cd dt s) =
     (if isGameRunningRef s \<and> windEnergyRef s < MAX_WIND_ENERGY
      then min MAX_WIND_ENERGY (windEnergy s + WIND_REGEN_RATE * dt) else windEnergy s)"
  by (simp add: update_def Let_def updateWindEnergy_def)

subsection \<open>The gust force\<close>

lemma applyGustForce_spec:
  "applyGustForce bird gust dt =
     bird\<lparr>bird_vx := bird_vx bird + vec_x (spec_gustForceAt (birdPos bird) gust) * dt,
          bird_vy := bird_vy bird + vec_y (spec_gustForceAt (birdPos bird) gust) * dt\<rparr>"
  by (simp add: applyGustForce_def spec_gustForceAt_def birdPos_def Let_def)

lemma applyGustForce_pos [simp]:
  "bird_x (applyGustForce bird gust dt) = bird_x bird"
  "bird_y (applyGustForce bird gust dt) = bird_y bird"
  "birdPos (applyGustForce bird gust dt) = birdPos bird"
  by (simp_all add: applyGustForce_def birdPos_def Let_def)

lemma fold_applyGustForce:
  "fold (\<lambda>gust bird. applyGustForce bird gust dt) gusts bird =
     bird\<lparr>bird_vx := bird_vx bird +
                     (\<Sum>gust\<leftarrow>gusts. vec_x (spec_gustForceAt (birdPos bird) gust)) * dt,
          bird_vy := bird_vy bird +
                     (\<Sum>gust\<leftarrow>gusts. vec_y (spec_gustForceAt (birdPos bird) gust)) * dt\<rparr>"
proof (induction gusts arbitrary: bird)
  case Nil
  show ?case by simp
next
  case (Cons g gs)
  have pos: "birdPos (applyGustForce bird g dt) = birdPos bird" by simp
  show ?case
    apply (simp only: fold_simps Cons.IH pos)
    apply (simp add: applyGustForce_spec algebra_simps birdPos_def)
    done
qed

lemma moveBird_vy:
  "bird_vy (moveBird cd dt gusts bird) =
     bird_vy bird + GRAVITY * dt +
     (\<Sum>gust\<leftarrow>gusts. vec_y (spec_gustForceAt (birdPos bird) gust)) * dt"
  by (simp add: moveBird_def Let_def fold_applyGustForce birdPos_def)

lemma moveBird_vx:
  assumes "bird_radius bird \<le>
             bird_x bird +
             (bird_vx bird + (\<Sum>gust\<leftarrow>gusts. vec_x (spec_gustForceAt (birdPos bird) gust)) * dt)
               * 0.98 * dt"
      and "bird_x bird +
             (bird_vx bird + (\<Sum>gust\<leftarrow>gusts. vec_x (spec_gustForceAt (birdPos bird) gust)) * dt)
               * 0.98 * dt \<le> CANVAS_WIDTH cd - bird_radius bird"
  shows "bird_vx (moveBird cd dt gusts bird) =
           (bird_vx bird + (\<Sum>gust\<leftarrow>gusts. vec_x (spec_gustForceAt (birdPos bird) gust)) * dt)
             * 0.98"
  using assms by (simp add: moveBird_def Let_def fold_applyGustForce birdPos_def)

lemma sqrt_2500: "sqrt 2500 = 50"
  by (rule real_sqrt_unique) simp_all

subsection \<open>Energy stays in range\<close>

lemma createGust_energyInRange:
  "energyInRange s \<Longrightarrow> energyInRange (snd (createGust cd a b s))"
  by (auto simp add: energyInRange_def createGust_windEnergy)

lemma gameLoop_energyInRange:
  "energyInRange s \<Longrightarrow> energyInRange (gameLoop cd t s)"
  by (auto simp add: energyInRange_def gameLoop_def Let_def update_windEnergy
        MAX_WIND_ENERGY_def WIND_REGEN_RATE_def)

lemma handleCanvasClick_energyInRange:
  "energyInRange s \<Longrightarrow> energyInRange (handleCanvasClick cd s)"
  by (simp add: energyInRange_def handleCanvasClick_def Let_def MAX_WIND_ENERGY_def)

lemma handleMouseUp_energyInRange:
  "energyInRange s \<Longrightarrow> energyInRange (handleMouseUp cd s)"
  using createGust_energyInRange[of s cd]
  by (auto simp add: energyInRange_def handleMouseUp_def Let_def
        split: option.splits bool.splits prod.splits dest!: arg_cong[where f=snd])

lemma handleTouchEnd_energyInRange:
  "energyInRange s \<Longrightarrow> energyInRange (handleTouchEnd cd s)"
  using createGust_energyInRange[of s cd]
  by (auto simp add: energyInRange_def handleTouchEnd_def Let_def
        split: option.splits bool.splits prod.splits dest!: arg_cong[where f=snd])

lemma step_energyInRange:
  assumes "energyInRange s"
  shows "energyInRange (step cd e s)"
proof (cases e)
  case (Frame t)
  then show ?thesis using assms by (simp add: gameLoop_energyInRange)
next
  case Commit
  then show ?thesis using assms by (simp add: energyInRange_def commit_def Let_def)
next
  case Click
  then show ?thesis using assms by (simp add: handleCanvasClick_energyInRange)
next
  case (MouseDown p)
  then show ?thesis using assms by (simp add: energyInRange_def handleMouseDown_def)
next
  case (MouseMove p)
  then show ?thesis using assms by (simp add: energyInRange_def handleMouseMove_def)
next
  case MouseUp
  then show ?thesis using assms by (simp add: handleMouseUp_energyInRange)
next
  case (TouchStart p)
  then show ?thesis
    using assms handleCanvasClick_energyInRange[of s cd]
    by (auto simp add: handleTouchStart_def energyInRange_def)
next
  case (TouchMove p)
  then show ?thesis using assms by (simp add: energyInRange_def handleTouchMove_def)
next
  case TouchEnd
  then show ?thesis using assms by (simp add: handleTouchEnd_energyInRange)
qed

lemma run_energyInRange:
  "energyInRange s \<Longrightarrow> energyInRange (run cd es s)"
  by (induction es arbitrary: s) (simp_all add: step_energyInRange)

subsection \<open>Cues, the bird and the pipes in one tick\<close>

lemma createParticles_effects [simp]:
  "effects (createParticles x y n c s) = effects s @ [Burst x y n c]"
  by (simp add: createParticles_def)

lemma playSound_effects [simp]:
  "effects (playSound f d t s) = effects s @ [Sound f d t]"
  by (simp add: playSound_def)

lemma addScreenShake_effects [simp]:
  "effects (addScreenShake i s) = effects s @ [ShakeAdded i]"
  by (simp add: addScreenShake_def)

lemma updateBird_over: "gameOverRef s \<Longrightarrow> updateBird cd dt s = s"
  by (simp add: updateBird_def)

lemma updatePipes_over: "gameOverRef s \<Longrightarrow> updatePipes cd dt s = s"
  by (simp add: updatePipes_def)

lemma updateBird_birdRef:
  "birdRef (updateBird cd dt s) =
     (if gameOverRef s then birdRef s else moveBird cd dt (gustsRef s) (birdRef s))"
  by (simp add: updateBird_def Let_def)

lemma updateBird_gameOver:
  "gameOver (updateBird cd dt s) =
     (gameOver s \<or> \<not> gameOverRef s \<and> outOfBounds cd (moveBird cd dt (gustsRef s) (birdRef s)))"
  by (auto simp add: updateBird_def Let_def outOfBounds_def)

lemma updateBird_effects:
  "effects (updateBird cd dt s) =
     effects s @ (if \<not> gameOverRef s \<and> outOfBounds cd (moveBird cd dt (gustsRef s) (birdRef s))
                  then crashEffects (moveBird cd dt (gustsRef s) (birdRef s)) else [])"
  by (simp add: updateBird_def Let_def outOfBounds_def crashEffects_def)

lemma pipeBody_fst:
  "fst (pipeBody cd dt p s) =
     p\<lparr>pipe_x := pipe_x p - PIPE_SPEED cd * dt,
       animationOffset := (if animationOffset p < 1 then animationOffset p + dt * 3
                           else animationOffset p),
       passed := passed p \<or> trailingEdgeBehind cd dt s p\<rparr>"
  by (auto simp add: pipeBody_def Let_def trailingEdgeBehind_def)

lemma pipeBody_passed:
  "passed (fst (pipeBody cd dt p s)) \<longleftrightarrow> passed p \<or> trailingEdgeBehind cd dt s p"
  by (simp add: pipeBody_fst)

lemma pipeBody_score:
  "score (snd (pipeBody cd dt p s)) =
     score s + (if \<not> passed p \<and> trailingEdgeBehind cd dt s p then 1 else 0)"
  by (simp add: pipeBody_def Let_def trailingEdgeBehind_def)

lemma pipeBody_effects:
  "effects (snd (pipeBody cd dt p s)) =
     effects s @ (if \<not> passed p \<and> trailingEdgeBehind cd dt s p then scoreEffects cd dt p else [])"
  by (simp add: pipeBody_def Let_def trailingEdgeBehind_def scoreEffects_def)

lemma trailingEdgeBehind_cong:
  "birdRef s' = birdRef s \<Longrightarrow> trailingEdgeBehind cd dt s' = trailingEdgeBehind cd dt s"
  by (rule ext) (simp add: trailingEdgeBehind_def)

lemma pipesForEach_fst:
  "fst (pipesForEach cd dt ps s) = map (\<lambda>p. fst (pipeBody cd dt p s)) ps"
proof (induction ps arbitrary: s)
  case Nil show ?case by simp
next
  case (Cons p ps)
  have tb: "trailingEdgeBehind cd dt (snd (pipeBody cd dt p s)) = trailingEdgeBehind cd dt s"
    by (rule trailingEdgeBehind_cong) simp
  show ?case
    by (simp add: case_prod_unfold Let_def Cons.IH) (simp add: pipeBody_fst tb)
qed

lemma pipesForEach_score:
  "score (snd (pipesForEach cd dt ps s)) =
     score s + length (filter (\<lambda>p. \<not> passed p \<and> trailingEdgeBehind cd dt s p) ps)"
proof (induction ps arbitrary: s)
  case Nil show ?case by simp
next
  case (Cons p ps)
  have tb: "trailingEdgeBehind cd dt (snd (pipeBody cd dt p s)) = trailingEdgeBehind cd dt s"
    by (rule trailingEdgeBehind_cong) simp
  show ?case
    by (simp add: case_prod_unfold Let_def Cons.IH tb pipeBody_score)
qed

lemma pipesForEach_effects:
  "effects (snd (pipesForEach cd dt ps s)) =
     effects s @ concat (map (scoreEffects cd dt)
                          (filter (\<lambda>p. \<not> passed p \<and> trailingEdgeBehind cd dt s p) ps))"
proof (induction ps arbitrary: s)
  case Nil show ?case by simp
next
  case (Cons p ps)
  have tb: "trailingEdgeBehind cd dt (snd (pipeBody cd dt p s)) = trailingEdgeBehind cd dt s"
    by (rule trailingEdgeBehind_cong) simp
  show ?case
    by (simp add: case_prod_unfold Let_def Cons.IH tb pipeBody_effects)
qed

lemma updatePipes_score:
  "score (updatePipes cd dt s) =
     (if gameOverRef s then score s
      else score s + length (filter (\<lambda>p. \<not> passed p \<and> trailingEdgeBehind cd dt s p) (pipesRef s)))"
  by (simp add: updatePipes_def Let_def case_prod_unfold pipesForEach_score)

lemma updatePipes_pipesRef:
  "\<not> gameOverRef s \<Longrightarrow> pipesRef (updatePipes cd dt s) =
     filter (\<lambda>pipe. pipe_x pipe > - pipe_width pipe) (map (\<lambda>p. fst (pipeBody cd dt p s)) (pipesRef s)) @
     (if nextPipeTimeRef s - dt \<le> 0
      then [createPipe (CANVAS_HEIGHT cd) (PIPE_GAP cd) (PIPE_WIDTH cd) (CANVAS_WIDTH cd + 50)
              (rand (snd (pipesForEach cd dt (pipesRef s) s)) 0)
              (rand (snd (pipesForEach cd dt (pipesRef s) s)) 1)]
      else [])"
  by (simp add: updatePipes_def Let_def case_prod_unfold pipesForEach_fst)

lemma updatePipes_birdRef [simp]: "birdRef (updatePipes cd dt s) = birdRef s"
  by (simp add: updatePipes_def Let_def case_prod_unfold)

lemma updatePipes_effects:
  "\<not> gameOverRef s \<Longrightarrow> effects (updatePipes cd dt s) =
     effects s @
     concat (map (scoreEffects cd dt)
              (filter (\<lambda>p. \<not> passed p \<and> trailingEdgeBehind cd dt s p) (pipesRef s))) @
     (if list_ex (checkCollision (birdRef s)) (pipesRef (updatePipes cd dt s))
      then crashEffects (birdRef s) else [])"
  by (simp add: updatePipes_def Let_def case_prod_unfold pipesForEach_effects crashEffects_def)

lemma updatePipes_gameOver:
  "gameOver (updatePipes cd dt s) =
     (gameOver s \<or>
      \<not> gameOverRef s \<and> list_ex (checkCollision (birdRef s)) (pipesRef (updatePipes cd dt s)))"
  by (auto simp add: updatePipes_def Let_def case_prod_unfold)


lemma update_unfold:
  "update cd dt s =
     (if isGameRunningRef s then
        updateWindEnergy dt (updateParticles dt (updateGusts dt
          (updatePipes cd dt (updateBird cd dt
             (updateGameTime dt (updateClouds cd dt (updateScreenShake dt s)))))))
      else updateGameTime dt (updateClouds cd dt (updateScreenShake dt s)))"
  by (simp add: update_def Let_def)

lemma update_birdRef:
  "birdRef (update cd dt s) =
     (if isGameRunningRef s \<and> \<not> gameOverRef s
      then moveBird cd dt (gustsRef s) (birdRef s) else birdRef s)"
  by (simp add: update_unfold updateBird_birdRef)

lemma update_gameOver_crash:
  assumes "isGameRunningRef s" "\<not> gameOverRef s"
          "outOfBounds cd (moveBird cd dt (gustsRef s) (birdRef s))"
  shows "gameOver (update cd dt s)"
  using assms by (simp add: update_unfold updatePipes_gameOver updateBird_gameOver)

lemma update_pipesRef:
  assumes "isGameRunningRef s" "\<not> gameOverRef s" "0 < nextPipeTimeRef s - dt"
  shows "pipesRef (update cd dt s) =
     filter (\<lambda>pipe. pipe_x pipe > - pipe_width pipe)
       (map (\<lambda>p. p\<lparr>pipe_x := pipe_x p - PIPE_SPEED cd * dt,
                    animationOffset := (if animationOffset p < 1 then animationOffset p + dt * 3
                                        else animationOffset p),
                    passed := passed p \<or>
                      pipe_x p - PIPE_SPEED cd * dt + pipe_width p
                        < bird_x (moveBird cd dt (gustsRef s) (birdRef s))\<rparr>) (pipesRef s))"
  using assms
  by (simp add: update_unfold updatePipes_pipesRef pipeBody_fst trailingEdgeBehind_def
        updateBird_birdRef)

lemma update_effects:
  assumes "isGameRunningRef s" "\<not> gameOverRef s"
  shows "effects (update cd dt s) =
     effects s @
     (if outOfBounds cd (moveBird cd dt (gustsRef s) (birdRef s))
      then crashEffects (moveBird cd dt (gustsRef s) (birdRef s)) else []) @
     concat (map (scoreEffects cd dt)
              (filter (\<lambda>p. \<not> passed p \<and>
                          pipe_x p - PIPE_SPEED cd * dt + pipe_width p
                            < bird_x (moveBird cd dt (gustsRef s) (birdRef s))) (pipesRef s))) @
     (if list_ex (checkCollision (moveBird cd dt (gustsRef s) (birdRef s))) (pipesRef (update cd dt s))
      then crashEffects (moveBird cd dt (gustsRef s) (birdRef s)) else [])"
  using assms
  by (simp add: update_unfold updatePipes_effects updateBird_effects updateBird_birdRef
        trailingEdgeBehind_def)

lemma fallingApp_tick: "frameDelta 1020 fallingApp = 1 / 50"
  by (simp add: frameDelta_def fallingApp_def)

lemma fallingApp_move:
  "bird_x (moveBird demoCanvas (1 / 50) (gustsRef fallingApp) (birdRef fallingApp)) = 100.98"
  "bird_y (moveBird demoCanvas (1 / 50) (gustsRef fallingApp) (birdRef fallingApp)) = 589.32"
  "bird_vy (moveBird demoCanvas (1 / 50) (gustsRef fallingApp) (birdRef fallingApp)) = 516"
  "bird_vx (moveBird demoCanvas (1 / 50) (gustsRef fallingApp) (birdRef fallingApp)) = 49"
  "bird_radius (moveBird demoCanvas (1 / 50) (gustsRef fallingApp) (birdRef fallingApp)) = 20"
  by (simp_all add: moveBird_def fallingApp_def Let_def GRAVITY_def CANVAS_WIDTH_def demoCanvas_def)

lemma fallingApp_oob:
  "outOfBounds demoCanvas (moveBird demoCanvas (1 / 50) (gustsRef fallingApp) (birdRef fallingApp))"
  by (simp add: outOfBounds_def fallingApp_move CANVAS_HEIGHT_def) (simp add: demoCanvas_def)

lemma gameLoop_fields:
  "birdRef (gameLoop cd t s) =
     (if frameDelta t s > 0 \<and> frameDelta t s < 0.1 then birdRef (update cd (frameDelta t s) s) else birdRef s)"
  "effects (gameLoop cd t s) =
     (if frameDelta t s > 0 \<and> frameDelta t s < 0.1 then effects (update cd (frameDelta t s) s) else effects s)"
  "gameOver (gameLoop cd t s) =
     (if frameDelta t s > 0 \<and> frameDelta t s < 0.1 then gameOver (update cd (frameDelta t s) s) else gameOver s)"
  "pipesRef (gameLoop cd t s) =
     (if frameDelta t s > 0 \<and> frameDelta t s < 0.1 then pipesRef (update cd (frameDelta t s) s) else pipesRef s)"
  by (simp_all add: gameLoop_def Let_def)

lemma closingApp_tick: "frameDelta 1020 closingApp = 1 / 50"
  by (simp add: frameDelta_def closingApp_def fallingApp_def)

lemma closingApp_pipes:
  "pipesRef (update demoCanvas (1 / 50) closingApp) =
     [\<lparr>pipe_x = 117, topHeight = 200, bottomY = 350, pipe_width = 60, gap = 150,
       passed = False, pipeColor = ''#4CAF50'', animationOffset = 1\<rparr>]"
proof -
  have s: "isGameRunningRef closingApp" "\<not> gameOverRef closingApp"
          "0 < nextPipeTimeRef closingApp - 1 / 50"
    by (simp_all add: closingApp_def fallingApp_def)
  have p: "pipesRef closingApp =
     [\<lparr>pipe_x = 121, topHeight = 200, bottomY = 350, pipe_width = 60, gap = 150,
       passed = False, pipeColor = ''#4CAF50'', animationOffset = 1\<rparr>]"
    by (simp add: closingApp_def)
  have b: "birdRef closingApp = birdRef fallingApp" "gustsRef closingApp = gustsRef fallingApp"
    by (simp_all add: closingApp_def)
  have speed: "PIPE_SPEED demoCanvas = 200"
    by (simp add: PIPE_SPEED_def CANVAS_WIDTH_def demoCanvas_def)
  show ?thesis
    by (simp add: update_pipesRef[OF s] p b speed fallingApp_move)
qed

subsection \<open>New obstacles\<close>








lemma minTopHeight_fl [simp]: "fl (minTopHeight H) = minTopHeight H"
  by (simp add: minTopHeight_def)


subsection \<open>Gusts\<close>


lemma normalize_vec_nlen:
  "normalize_vec \<lparr>vec_x = a, vec_y = b\<rparr> =
     (if nlen a b > 0 then \<lparr>vec_x = fl (a / nlen a b), vec_y = fl (b / nlen a b)\<rparr>
      else \<lparr>vec_x = 0, vec_y = 0\<rparr>)"
  by (simp add: normalize_vec_def nlen_def Let_def)

lemma sqrt_near_one:
  assumes "0 \<le> z" and "\<bar>z - 1\<bar> \<le> d"
  shows "\<bar>sqrt z - 1\<bar> \<le> d"
proof -
  have s: "0 \<le> sqrt z" using assms(1) by simp
  have "(sqrt z - 1) * (sqrt z + 1) = z - 1"
    using assms(1) by (simp add: algebra_simps)
  then have "\<bar>sqrt z - 1\<bar> * \<bar>sqrt z + 1\<bar> = \<bar>z - 1\<bar>"
    by (simp only: abs_mult[symmetric])
  moreover have "\<bar>sqrt z - 1\<bar> * 1 \<le> \<bar>sqrt z - 1\<bar> * \<bar>sqrt z + 1\<bar>"
    using s by (intro mult_left_mono) simp_all
  ultimately show ?thesis using assms(2) by simp
qed

lemma normalize_vec_near_unit:
  assumes "0 < a * a + b * b"
  shows "\<bar>sqrt ((vec_x (normalize_vec \<lparr>vec_x = a, vec_y = b\<rparr>))\<^sup>2 +
               (vec_y (normalize_vec \<lparr>vec_x = a, vec_y = b\<rparr>))\<^sup>2) - 1\<bar> \<le> 1 / 2 ^ 50"
proof -
  let ?z = "(fl (a / nlen a b))\<^sup>2 + (fl (b / nlen a b))\<^sup>2"
  have pos: "0 < nlen a b" using nlen_sq_bounds(1)[OF assms] .
  have n: "normalize_vec \<lparr>vec_x = a, vec_y = b\<rparr> =
             \<lparr>vec_x = fl (a / nlen a b), vec_y = fl (b / nlen a b)\<rparr>"
    using pos by (simp add: normalize_vec_nlen)
  have lo: "1 - 1 / 2 ^ 50 \<le> ?z"
    using normalized_sq_bounds(1)[OF assms] roundoff_numeric1 by (rule order_trans[rotated])
  have hi: "?z \<le> 1 + 1 / 2 ^ 50"
    using normalized_sq_bounds(2)[OF assms] roundoff_numeric2 by (rule order_trans)
  have "\<bar>?z - 1\<bar> \<le> 1 / 2 ^ 50" using lo hi by linarith
  moreover have "0 \<le> ?z" by simp
  ultimately have "\<bar>sqrt ?z - 1\<bar> \<le> 1 / 2 ^ 50" by (rule sqrt_near_one[rotated])
  then show ?thesis by (simp only: n Vec.select_convs)
qed

lemma distance_swap:
  "distance a b = sqrt ((vec_x b - vec_x a) * (vec_x b - vec_x a) + (vec_y b - vec_y a) * (vec_y b - vec_y a))"
  by (simp add: distance_def power2_eq_square algebra_simps)

lemma createGust_wellFormed:
  assumes "createGust cd a b s = (Some g, s')"
  shows "gustWellFormed g"
proof -
  let ?q = "(vec_x b - vec_x a) * (vec_x b - vec_x a) + (vec_y b - vec_y a) * (vec_y b - vec_y a)"
  have len: "\<not> distance a b < 20" using assms by (auto simp add: createGust_def Let_def split: if_splits)
  then have "20 \<le> sqrt ?q" by (simp only: distance_swap not_less)
  then have "0 < sqrt ?q" by linarith
  then have pos: "0 < ?q" by (simp only: real_sqrt_gt_0_iff)
  have g: "direction g = normalize_vec \<lparr>vec_x = vec_x b - vec_x a, vec_y = vec_y b - vec_y a\<rparr>"
          "magnitude g = min (distance a b * 2) GUST_BASE_POWER"
    using assms by (auto simp add: createGust_def Let_def split: if_splits)
  have "\<bar>directionLength g - 1\<bar> \<le> 1 / 2 ^ 50"
    unfolding directionLength_def g by (rule normalize_vec_near_unit[OF pos])
  moreover have "40 \<le> magnitude g" "magnitude g \<le> 1200"
    using len by (simp_all add: g GUST_BASE_POWER_def)
  ultimately show ?thesis by (simp only: gustWellFormed_def simp_thms)
qed

lemma gustStep_wellFormed [simp]: "gustWellFormed (gustStep dt g) = gustWellFormed g"
  by (simp add: gustWellFormed_def directionLength_def gustStep_def)

lemma update_gustsRef:
  "gustsRef (update cd dt s) =
     (if isGameRunningRef s
      then filter (\<lambda>gust. gust_life gust > 0) (map (gustStep dt) (gustsRef s))
      else gustsRef s)"
  by (simp add: update_unfold updateGusts_def)

lemma gameLoop_unfold:
  "gameLoop cd t s =
     (if frameDelta t s > 0 \<and> frameDelta t s < 0.1 then update cd (frameDelta t s) s else s)
       \<lparr>lastTimeRef := t\<rparr>"
  by (simp add: gameLoop_def Let_def)

lemma gameLoop_gusts_only_age:
  assumes "g' \<in> set (gustsRef (gameLoop cd t s))"
  shows "\<exists>g \<in> set (gustsRef s). \<exists>l. l \<le> gust_life g \<and> g' = g\<lparr>gust_life := l\<rparr>"
proof (cases "frameDelta t s > 0 \<and> frameDelta t s < 0.1 \<and> isGameRunningRef s")
  case True
  then have "g' \<in> gustStep (frameDelta t s) ` set (gustsRef s)"
    using assms by (auto simp add: gameLoop_unfold update_gustsRef)
  then obtain g where g: "g \<in> set (gustsRef s)" "g' = g\<lparr>gust_life := gust_life g - frameDelta t s\<rparr>"
    by (auto simp add: gustStep_def)
  moreover have "gust_life g - frameDelta t s \<le> gust_life g" using True by simp
  ultimately show ?thesis by blast
next
  case False
  then have "g' \<in> set (gustsRef s)"
    using assms by (auto simp add: gameLoop_unfold update_gustsRef split: if_splits)
  moreover have "g' = g'\<lparr>gust_life := gust_life g'\<rparr>" by simp
  ultimately show ?thesis by blast
qed

lemma gameLoop_gustsWellFormed:
  "gustsWellFormed s \<Longrightarrow> gustsWellFormed (gameLoop cd t s)"
  by (auto simp add: gustsWellFormed_def gameLoop_unfold update_gustsRef split: if_splits)

lemma handleCanvasClick_gustsWellFormed:
  "gustsWellFormed s \<Longrightarrow> gustsWellFormed (handleCanvasClick cd s)"
  by (simp add: gustsWellFormed_def handleCanvasClick_def Let_def)

lemma handleMouseUp_gustsWellFormed:
  assumes "gustsWellFormed s"
  shows "gustsWellFormed (handleMouseUp cd s)"
proof (cases "isDrawingRendered s")
  case False
  then show ?thesis using assms by (simp add: handleMouseUp_def)
next
  case True
  show ?thesis
  proof (cases "drawStartRef s")
    case None
    then show ?thesis using assms True by (simp add: handleMouseUp_def)
  next
    case (Some a)
    show ?thesis
    proof (cases "drawCurrentRef s")
      case None
      then show ?thesis using assms True Some by (simp add: handleMouseUp_def)
    next
      case (Some b)
      obtain r s' where c: "createGust cd a b s = (r, s')" by (cases "createGust cd a b s")
      have s': "gustsRef s' = gustsRef s"
        using createGust_frame[of cd a b s] c by simp
      show ?thesis
      proof (cases r)
        case None
        then show ?thesis
          using assms True \<open>drawStartRef s = Some a\<close> Some c s'
          by (simp add: handleMouseUp_def gustsWellFormed_def)
      next
        case (Some g)
        then have "gustWellFormed g" using c createGust_wellFormed by blast
        then show ?thesis
          using assms True \<open>drawStartRef s = Some a\<close> \<open>drawCurrentRef s = Some b\<close> c s' Some
          by (simp add: handleMouseUp_def gustsWellFormed_def)
      qed
    qed
  qed
qed


lemma createGust_gustsRef:
  "createGust cd a b s = (r, s') \<Longrightarrow> gustsRef s' = gustsRef s"
  using createGust_frame[of cd a b s] by simp

lemma handleTouchEnd_gustsWellFormed:
  assumes "gustsWellFormed s"
  shows "gustsWellFormed (handleTouchEnd cd s)"
  using assms
  by (auto simp add: gustsWellFormed_def handleTouchEnd_def Let_def
        split: option.splits bool.splits prod.splits if_splits
        dest: createGust_wellFormed createGust_gustsRef)

lemma step_gustsWellFormed:
  assumes "gustsWellFormed s"
  shows "gustsWellFormed (step cd e s)"
proof (cases e)
  case (Frame t)
  then show ?thesis using assms by (simp add: gameLoop_gustsWellFormed)
next
  case Commit
  then show ?thesis using assms by (simp add: gustsWellFormed_def commit_def Let_def)
next
  case Click
  then show ?thesis using assms by (simp add: handleCanvasClick_gustsWellFormed)
next
  case (MouseDown p)
  then show ?thesis using assms by (simp add: gustsWellFormed_def handleMouseDown_def)
next
  case (MouseMove p)
  then show ?thesis using assms by (simp add: gustsWellFormed_def handleMouseMove_def)
next
  case MouseUp
  then show ?thesis using assms by (simp add: handleMouseUp_gustsWellFormed)
next
  case (TouchStart p)
  then show ?thesis
    using assms handleCanvasClick_gustsWellFormed[of s cd]
    by (auto simp add: handleTouchStart_def gustsWellFormed_def)
next
  case (TouchMove p)
  then show ?thesis using assms by (simp add: gustsWellFormed_def handleTouchMove_def)
next
  case TouchEnd
  then show ?thesis using assms by (simp add: handleTouchEnd_gustsWellFormed)
qed

lemma run_gustsWellFormed:
  "gustsWellFormed s \<Longrightarrow> gustsWellFormed (run cd es s)"
  by (induction es arbitrary: s) (simp_all add: step_gustsWellFormed)

lemma initialApp_gustsRef [simp]: "gustsRef (initialApp cd best r) = []"
  by (simp add: initialApp_def)

lemma sqrt_10000: "sqrt 10000 = 100"
  by (rule real_sqrt_unique) simp_all

lemma normalize_vec_horizontal:
  "normalize_vec \<lparr>vec_x = 100, vec_y = 0\<rparr> = \<lparr>vec_x = 1, vec_y = 0\<rparr>"
  by (simp add: normalize_vec_def Let_def fl_10000 sqrt_10000 fl_100)

lemma normalize_vec_diagonal:
  "normalize_vec \<lparr>vec_x = 100, vec_y = 100\<rparr> =
     \<lparr>vec_x = 1592262918131443 / 2 ^ 51, vec_y = 1592262918131443 / 2 ^ 51\<rparr>"
proof -
  have len: "fl (sqrt (fl (fl (100 * 100) + fl (100 * 100)))) = 621977702395095 / 2 ^ 42"
    by (simp add: fl_10000 fl_20000 fl_sqrt_20000)
  have pos: "(0::real) < 621977702395095 / 2 ^ 42" by simp
  show ?thesis
    unfolding normalize_vec_def Let_def
    by (simp only: Vec.select_convs len fl_diag_component pos if_True)
qed

lemma demoApp_createGust:
  "fst (createGust demoCanvas \<lparr>vec_x = 400, vec_y = 300\<rparr> \<lparr>vec_x = 500, vec_y = 300\<rparr> demoApp) =
     Some \<lparr>gust_x = 400, gust_y = 300, direction = \<lparr>vec_x = 1, vec_y = 0\<rparr>, magnitude = 200,
           gust_radius = 100, gust_life = 1.2, gust_maxLife = 1.2\<rparr>"
  by (simp add: createGust_def Let_def distance_horizontal normalize_vec_horizontal
        GUST_COST_PER_PIXEL_def GUST_BASE_POWER_def GUST_RADIUS_def GUST_LIFE_def CANVAS_WIDTH_def
        demoCanvas_def demoApp_def)

lemma createGust_fst:
  assumes "\<not> distance a b < 20"
    and "\<not> min (distance a b * GUST_COST_PER_PIXEL) (windEnergyRef s) < 10"
  shows "fst (createGust cd a b s) =
           Some \<lparr>gust_x = vec_x a, gust_y = vec_y a,
                 direction = normalize_vec \<lparr>vec_x = vec_x b - vec_x a, vec_y = vec_y b - vec_y a\<rparr>,
                 magnitude = min (distance a b * 2) GUST_BASE_POWER,
                 gust_radius = GUST_RADIUS cd, gust_life = GUST_LIFE, gust_maxLife = GUST_LIFE\<rparr>"
  using assms by (simp add: createGust_def Let_def)

lemma sqrt_20000_gt: "141 < sqrt 20000"
  by (rule real_less_rsqrt) simp

lemma diagonalApp_createGust:
  "fst (createGust demoCanvas \<lparr>vec_x = 100, vec_y = 100\<rparr> \<lparr>vec_x = 200, vec_y = 200\<rparr> diagonalApp) =
     Some \<lparr>gust_x = 100, gust_y = 100,
           direction = \<lparr>vec_x = 1592262918131443 / 2 ^ 51, vec_y = 1592262918131443 / 2 ^ 51\<rparr>,
           magnitude = min (sqrt 20000 * 2) 1200,
           gust_radius = 100, gust_life = 1.2, gust_maxLife = 1.2\<rparr>"
proof -
  let ?a = "\<lparr>vec_x = 100, vec_y = 100\<rparr>" and ?b = "\<lparr>vec_x = 200, vec_y = 200\<rparr>"
  have dist: "distance ?a ?b = sqrt 20000" by (simp add: distance_def)
  have e: "windEnergyRef diagonalApp = 50" by (simp add: diagonalApp_def demoApp_def)
  have long: "\<not> distance ?a ?b < 20" using sqrt_20000_gt by (simp add: dist)
  have paid: "\<not> min (distance ?a ?b * GUST_COST_PER_PIXEL) (windEnergyRef diagonalApp) < 10"
    using sqrt_20000_gt by (simp add: dist e GUST_COST_PER_PIXEL_def)
  show ?thesis
    by (simp add: createGust_fst[OF long paid] dist normalize_vec_diagonal
          GUST_BASE_POWER_def GUST_RADIUS_def GUST_LIFE_def CANVAS_WIDTH_def demoCanvas_def)
qed

lemma diag_not_unit:
  "sqrt ((1592262918131443 / 2 ^ 51)\<^sup>2 + (1592262918131443 / 2 ^ 51)\<^sup>2) \<noteq> 1"
proof -
  have "(1592262918131443 / 2 ^ 51 :: real)\<^sup>2 + (1592262918131443 / 2 ^ 51)\<^sup>2 \<noteq> 1"
    by (simp add: power_divide)
  then show ?thesis by (simp only: real_sqrt_eq_1_iff not_False_eq_True)
qed

lemma handleMouseUp_gustsRef:
  assumes "isDrawingRendered s" "drawStartRef s = Some a" "drawCurrentRef s = Some b"
  shows "gustsRef (handleMouseUp cd s) =
           gustsRef s @ (case fst (createGust cd a b s) of Some g \<Rightarrow> [g] | None \<Rightarrow> [])"
  using assms
  by (auto simp add: handleMouseUp_def Let_def split: option.splits prod.splits
        dest: createGust_gustsRef)

subsection \<open>A tick after the run is over\<close>

lemma update_over:
  assumes "gameOverRef s"
  shows "update cd dt s =
     (if isGameRunningRef s
      then updateWindEnergy dt (updateParticles dt (updateGusts dt
             (updateGameTime dt (updateClouds cd dt (updateScreenShake dt s)))))
      else updateGameTime dt (updateClouds cd dt (updateScreenShake dt s)))"
  using assms by (simp add: update_unfold updateBird_over updatePipes_over)

lemma update_over_fields:
  assumes "gameOverRef s"
  shows "birdRef (update cd dt s) = birdRef s"
    and "pipesRef (update cd dt s) = pipesRef s"
    and "nextPipeTimeRef (update cd dt s) = nextPipeTimeRef s"
    and "score (update cd dt s) = score s"
    and "gameOver (update cd dt s) = gameOver s"
    and "effects (update cd dt s) = effects s"
    and "gameTimeRef (update cd dt s) =
          (if isGameRunningRef s then gameTimeRef s + dt else gameTimeRef s)"
  using assms
  by (simp_all add: update_over updateGameTime_def)

lemma overApp_tick: "frameDelta 1016 overApp = 2 / 125"
  by (simp add: frameDelta_def overApp_def)

subsection \<open>One pipe over many ticks\<close>

lemma scoredOver_passed: "passed p \<Longrightarrow> scoredOver cd ticks p = 0"
  by (induction ticks arbitrary: p) (auto simp add: pipeBody_score pipeBody_passed)

lemma scoredOver_le_1: "scoredOver cd ticks p \<le> 1"
proof (induction ticks arbitrary: p)
  case Nil
  show ?case by simp
next
  case (Cons a ticks)
  obtain dt s where a: "a = (dt, s)" by (cases a)
  show ?case
  proof (cases "\<not> passed p \<and> trailingEdgeBehind cd dt s p")
    case True
    then have "passed (fst (pipeBody cd dt p s))" by (simp add: pipeBody_passed)
    then have "scoredOver cd ticks (fst (pipeBody cd dt p s)) = 0" by (rule scoredOver_passed)
    then show ?thesis using True by (simp add: a pipeBody_score)
  next
    case False
    then show ?thesis
      using Cons.IH[of "fst (pipeBody cd dt p s)"] by (auto simp add: a pipeBody_score)
  qed
qed

subsection \<open>The score and the pipes not yet counted\<close>

lemma unpassed_map_pipeBody:
  "length (filter (\<lambda>p. \<not> passed p) (map (\<lambda>p. fst (pipeBody cd dt p s)) ps)) +
   length (filter (\<lambda>p. \<not> passed p \<and> trailingEdgeBehind cd dt s p) ps) =
   length (filter (\<lambda>p. \<not> passed p) ps)"
  by (induction ps) (auto simp add: pipeBody_passed)

lemma length_filter_filter_le:
  "length (filter P (filter Q xs)) \<le> length (filter P xs)"
  by (induction xs) auto

lemma updatePipes_potential:
  "score (updatePipes cd dt s) + unpassedCount (updatePipes cd dt s)
     \<le> score s + unpassedCount s + (if \<not> gameOverRef s \<and> nextPipeTimeRef s - dt \<le> 0 then 1 else 0)"
proof (cases "gameOverRef s")
  case True
  then show ?thesis by (simp add: updatePipes_over)
next
  case False
  let ?kept = "filter (\<lambda>pipe. pipe_x pipe > - pipe_width pipe)
                 (map (\<lambda>p. fst (pipeBody cd dt p s)) (pipesRef s))"
  have k: "length (filter (\<lambda>p. \<not> passed p) ?kept)
             \<le> length (filter (\<lambda>p. \<not> passed p) (map (\<lambda>p. fst (pipeBody cd dt p s)) (pipesRef s)))"
    by (rule length_filter_filter_le)
  show ?thesis
    using k unpassed_map_pipeBody[of cd dt s "pipesRef s"] False
    by (simp add: unpassedCount_def updatePipes_pipesRef[OF False] updatePipes_score)
qed

lemma update_potential:
  "score (update cd dt s) + unpassedCount (update cd dt s) \<le> score s + unpassedCount s + 1"
proof -
  let ?x = "updateBird cd dt (updateGameTime dt (updateClouds cd dt (updateScreenShake dt s)))"
  have x: "score ?x = score s" "pipesRef ?x = pipesRef s" by simp_all
  have "score (updatePipes cd dt ?x) + unpassedCount (updatePipes cd dt ?x)
          \<le> score ?x + unpassedCount ?x + 1"
    using updatePipes_potential[of cd dt ?x] by (simp split: if_splits)
  then show ?thesis
    by (simp add: update_unfold unpassedCount_def x)
qed

lemma gameLoop_potential:
  "score (gameLoop cd t s) + unpassedCount (gameLoop cd t s) \<le> score s + unpassedCount s + 1"
  using update_potential[of cd "frameDelta t s" s]
  by (simp add: gameLoop_def Let_def unpassedCount_def)

lemma createGust_score_pipes:
  "createGust cd a b s = (r, s') \<Longrightarrow> score s' = score s \<and> pipesRef s' = pipesRef s"
  using createGust_frame[of cd a b s] by simp

lemma handleCanvasClick_potential:
  "score (handleCanvasClick cd s) + unpassedCount (handleCanvasClick cd s)
     \<le> score s + unpassedCount s"
  by (simp add: unpassedCount_def handleCanvasClick_def Let_def)

lemma handleMouseUp_score_pipes:
  "score (handleMouseUp cd s) = score s \<and> pipesRef (handleMouseUp cd s) = pipesRef s"
  by (auto simp add: handleMouseUp_def Let_def
        split: option.splits bool.splits prod.splits dest: createGust_score_pipes)

lemma handleTouchEnd_score_pipes:
  "score (handleTouchEnd cd s) = score s \<and> pipesRef (handleTouchEnd cd s) = pipesRef s"
  by (auto simp add: handleTouchEnd_def Let_def
        split: option.splits bool.splits prod.splits if_splits dest: createGust_score_pipes)

lemma step_potential:
  "score (step cd e s) + unpassedCount (step cd e s)
     \<le> score s + unpassedCount s + (if isFrame e then 1 else 0)"
proof (cases e)
  case (Frame t)
  then show ?thesis using gameLoop_potential[of cd t s] by simp
next
  case Commit
  then show ?thesis by (simp add: unpassedCount_def commit_def Let_def)
next
  case Click
  then show ?thesis using handleCanvasClick_potential[of cd s] by simp
next
  case (MouseDown p)
  then show ?thesis by (simp add: unpassedCount_def handleMouseDown_def)
next
  case (MouseMove p)
  then show ?thesis by (simp add: unpassedCount_def handleMouseMove_def)
next
  case MouseUp
  then show ?thesis by (simp add: unpassedCount_def handleMouseUp_score_pipes)
next
  case (TouchStart p)
  then show ?thesis
    using handleCanvasClick_potential[of cd s]
    by (simp add: handleTouchStart_def) (simp add: unpassedCount_def)
next
  case (TouchMove p)
  then show ?thesis by (simp add: unpassedCount_def handleTouchMove_def)
next
  case TouchEnd
  then show ?thesis by (simp add: unpassedCount_def handleTouchEnd_score_pipes)
qed

lemma run_potential:
  "score (run cd es s) + unpassedCount (run cd es s)
     \<le> score s + unpassedCount s + length (filter isFrame es)"
proof (induction es arbitrary: s)
  case Nil
  show ?case by simp
next
  case (Cons e es)
  have "score (run cd es (step cd e s)) + unpassedCount (run cd es (step cd e s))
          \<le> score (step cd e s) + unpassedCount (step cd e s) + length (filter isFrame es)"
    by (rule Cons.IH)
  then show ?case using step_potential[of cd e s] by (simp split: if_splits)
qed


lemma updatePipes_nextPipeTimeRef:
  "\<not> gameOverRef s \<Longrightarrow> nextPipeTimeRef (updatePipes cd dt s) =
     (if nextPipeTimeRef s - dt \<le> 0 then 2.5 else nextPipeTimeRef s - dt)"
  by (simp add: updatePipes_def Let_def case_prod_unfold)

section \<open>The properties\<close>

subsection \<open>C1: what a tick does once the run is over\<close>

text \<open>
  C1, as stated, fails: in the state \<open>overApp\<close> (the run is over, \<open>gameOver\<close> and
  \<open>gameOverRef\<close> are set) the frame at 1016 ms, 16 ms after the last one, ages the gust
  from 1.2 to 1.184, regenerates the energy from 50 to 50.24 and advances the game time
  from 5 to 5.016. Only \<open>updateBird\<close> and \<open>updatePipes\<close> test \<open>gameOverRef\<close>;
  \<open>isGameRunning\<close> stays set after a crash, so \<open>updateGusts\<close>, \<open>updateParticles\<close>,
  \<open>updateWindEnergy\<close> and \<open>updateGameTime\<close> keep running.
\<close>

theorem over_tick_still_ages_gusts_counterexample:
  "gameOver overApp \<and> gameOverRef overApp \<and>
   gustsRef (gameLoop demoCanvas 1016 overApp) \<noteq> gustsRef overApp \<and>
   map gust_life (gustsRef overApp) = [1.2] \<and>
   map gust_life (gustsRef (gameLoop demoCanvas 1016 overApp)) = [1.184] \<and>
   windEnergy overApp = 50 \<and>
   windEnergy (gameLoop demoCanvas 1016 overApp) = 50.24 \<and>
   gameTimeRef overApp = 5 \<and>
   gameTimeRef (gameLoop demoCanvas 1016 overApp) = 5.016"
proof -
  have o: "gameOverRef overApp" "isGameRunningRef overApp" "gameOver overApp"
    by (simp_all add: overApp_def)
  have g: "gustsRef (gameLoop demoCanvas 1016 overApp) =
             filter (\<lambda>gust. gust_life gust > 0) (map (gustStep (2 / 125)) (gustsRef overApp))"
    using o by (simp add: gameLoop_unfold overApp_tick update_gustsRef)
  have e: "windEnergy (gameLoop demoCanvas 1016 overApp) =
             min MAX_WIND_ENERGY (windEnergy overApp + WIND_REGEN_RATE * (2 / 125))"
    using o by (simp add: gameLoop_unfold overApp_tick update_windEnergy)
       (simp add: overApp_def MAX_WIND_ENERGY_def)
  have t: "gameTimeRef (gameLoop demoCanvas 1016 overApp) = gameTimeRef overApp + 2 / 125"
    using o by (simp add: gameLoop_unfold overApp_tick update_over_fields)
  have v: "gustsRef overApp = [demoGust]" "windEnergy overApp = 50" "gameTimeRef overApp = 5"
    by (simp_all add: overApp_def)
  show ?thesis
    using o
    by (simp add: g e t v)
       (simp add: demoGust_def gustStep_def MAX_WIND_ENERGY_def WIND_REGEN_RATE_def)
qed

text \<open>
  C1, amended. Once \<open>gameOverRef\<close> is set, a frame leaves the bird, the obstacle list,
  the spawn countdown, the score and the game-over flag as they were and fires no cue.
  It does not suspend the rest: with \<open>isGameRunningRef\<close> set and a delta in \<open>(0, 0.1)\<close>,
  every gust ages by the delta and the expired ones are pruned, the energy regenerates
  towards \<open>MAX_WIND_ENERGY\<close> while \<open>windEnergyRef\<close> is below it, and the game time
  advances by the delta.
\<close>

theorem over_tick_freezes_bird_and_pipes:
  assumes "gameOverRef s"
  shows "birdRef (gameLoop cd t s) = birdRef s \<and>
         pipesRef (gameLoop cd t s) = pipesRef s \<and>
         nextPipeTimeRef (gameLoop cd t s) = nextPipeTimeRef s \<and>
         score (gameLoop cd t s) = score s \<and>
         gameOver (gameLoop cd t s) = gameOver s \<and>
         effects (gameLoop cd t s) = effects s \<and>
         (isGameRunningRef s \<and> 0 < frameDelta t s \<and> frameDelta t s < 0.1 \<longrightarrow>
            gustsRef (gameLoop cd t s) =
              filter (\<lambda>gust. gust_life gust > 0) (map (gustStep (frameDelta t s)) (gustsRef s)) \<and>
            windEnergy (gameLoop cd t s) =
              (if windEnergyRef s < MAX_WIND_ENERGY
               then min MAX_WIND_ENERGY (windEnergy s + WIND_REGEN_RATE * frameDelta t s)
               else windEnergy s) \<and>
            gameTimeRef (gameLoop cd t s) = gameTimeRef s + frameDelta t s)"
proof -
  have frozen: "birdRef (gameLoop cd t s) = birdRef s \<and>
         pipesRef (gameLoop cd t s) = pipesRef s \<and>
         nextPipeTimeRef (gameLoop cd t s) = nextPipeTimeRef s \<and>
         score (gameLoop cd t s) = score s \<and>
         gameOver (gameLoop cd t s) = gameOver s \<and>
         effects (gameLoop cd t s) = effects s"
    using assms by (simp add: gameLoop_unfold update_over_fields)
  have live: "gustsRef (gameLoop cd t s) =
              filter (\<lambda>gust. gust_life gust > 0) (map (gustStep (frameDelta t s)) (gustsRef s)) \<and>
            windEnergy (gameLoop cd t s) =
              (if windEnergyRef s < MAX_WIND_ENERGY
               then min MAX_WIND_ENERGY (windEnergy s + WIND_REGEN_RATE * frameDelta t s)
               else windEnergy s) \<and>
            gameTimeRef (gameLoop cd t s) = gameTimeRef s + frameDelta t s"
    if "isGameRunningRef s" "0 < frameDelta t s" "frameDelta t s < 0.1"
    using that assms
    by (simp add: gameLoop_unfold update_over_fields update_gustsRef update_windEnergy)
  show ?thesis using frozen live by blast
qed

theorem over_tick_freezes_bird_and_pipes_witness:
  "gameOverRef overApp \<and> isGameRunningRef overApp \<and>
   0 < frameDelta 1016 overApp \<and> frameDelta 1016 overApp < 0.1 \<and>
   birdRef (gameLoop demoCanvas 1016 overApp) = birdRef overApp \<and>
   pipesRef (gameLoop demoCanvas 1016 overApp) = [] \<and>
   score (gameLoop demoCanvas 1016 overApp) = 3 \<and>
   gustsRef (gameLoop demoCanvas 1016 overApp) = [demoGust\<lparr>gust_life := 1.184\<rparr>] \<and>
   windEnergy (gameLoop demoCanvas 1016 overApp) = 50.24 \<and>
   gameTimeRef (gameLoop demoCanvas 1016 overApp) = 5.016"
proof -
  have o: "gameOverRef overApp" by (simp add: overApp_def)
  have r: "isGameRunningRef overApp" by (simp add: overApp_def)
  have v: "gustsRef overApp = [demoGust]" "windEnergy overApp = 50" "gameTimeRef overApp = 5"
          "windEnergyRef overApp = 50" "pipesRef overApp = []" "score overApp = 3"
    by (simp_all add: overApp_def)
  show ?thesis
    using over_tick_freezes_bird_and_pipes[OF o, of demoCanvas 1016] o r
    by (simp add: overApp_tick v)
       (simp add: demoGust_def gustStep_def MAX_WIND_ENERGY_def WIND_REGEN_RATE_def)
qed

subsection \<open>C2: a frame with an out-of-range delta is dropped\<close>

text \<open>
  C2. When the delta-time of a frame is \<open>\<le> 0\<close> or \<open>\<ge> 0.1\<close> seconds, \<open>gameLoop\<close> skips
  the whole update: the bird, the obstacle list, the gust list, the particle list, the
  energy and the score are exactly what they were. The only cell the frame writes is
  \<open>lastTimeRef\<close>.
\<close>

theorem gameLoop_discards_out_of_range_delta:
  assumes "frameDelta currentTime s \<le> 0 \<or> frameDelta currentTime s \<ge> 0.1"
  shows "birdRef (gameLoop cd currentTime s) = birdRef s \<and>
         pipesRef (gameLoop cd currentTime s) = pipesRef s \<and>
         gustsRef (gameLoop cd currentTime s) = gustsRef s \<and>
         particlesRef (gameLoop cd currentTime s) = particlesRef s \<and>
         windEnergy (gameLoop cd currentTime s) = windEnergy s \<and>
         score (gameLoop cd currentTime s) = score s \<and>
         gameLoop cd currentTime s = s\<lparr>lastTimeRef := currentTime\<rparr>"
proof -
  have "gameLoop cd currentTime s = s\<lparr>lastTimeRef := currentTime\<rparr>"
    using assms by (auto simp add: gameLoop_def Let_def)
  then show ?thesis by simp
qed

theorem gameLoop_discards_out_of_range_delta_witness:
  "frameDelta 1200 demoApp \<ge> 0.1 \<and>
   birdRef (gameLoop demoCanvas 1200 demoApp) = birdRef demoApp \<and>
   windEnergy (gameLoop demoCanvas 1200 demoApp) = 50 \<and>
   gameLoop demoCanvas 1200 demoApp = demoApp\<lparr>lastTimeRef := 1200\<rparr> \<and>
   frameDelta 900 demoApp \<le> 0 \<and>
   gameLoop demoCanvas 900 demoApp = demoApp\<lparr>lastTimeRef := 900\<rparr>"
proof -
  have late: "frameDelta 1200 demoApp \<ge> 0.1" by (simp add: frameDelta_def demoApp_def)
  have early: "frameDelta 900 demoApp \<le> 0" by (simp add: frameDelta_def demoApp_def)
  have e: "windEnergy demoApp = 50" by (simp add: demoApp_def)
  show ?thesis
    using gameLoop_discards_out_of_range_delta[of 1200 demoApp demoCanvas]
          gameLoop_discards_out_of_range_delta[of 900 demoApp demoCanvas]
          late early e
    by simp
qed

subsection \<open>C3: the velocities of the bird at a crash\<close>

text \<open>
  C3. In \<open>fallingApp\<close> the frame at 1020 ms moves the bird to \<open>y = 589.32\<close>, below the
  floor at 580. The run becomes over, as the claim says, but \<open>updateBird\<close> leaves the
  velocities of the bird as the move computed them, \<open>vy = 516\<close> and \<open>vx = 49\<close>: it
  never writes zero to them.
\<close>

theorem crash_keeps_velocity_at_fallingApp:
  "\<not> gameOver fallingApp \<and>
   gameOver (gameLoop demoCanvas 1020 fallingApp) \<and>
   bird_y (birdRef (gameLoop demoCanvas 1020 fallingApp)) = 589.32 \<and>
   bird_vy (birdRef (gameLoop demoCanvas 1020 fallingApp)) = 516 \<and>
   bird_vx (birdRef (gameLoop demoCanvas 1020 fallingApp)) = 49"
proof -
  have s: "isGameRunningRef fallingApp" "\<not> gameOverRef fallingApp" "\<not> gameOver fallingApp"
    by (simp_all add: fallingApp_def)
  have over: "gameOver (update demoCanvas (1 / 50) fallingApp)"
    using s(1,2) fallingApp_oob by (rule update_gameOver_crash)
  show ?thesis
    using s over
    by (simp add: gameLoop_fields fallingApp_tick update_birdRef fallingApp_move)
qed

subsection \<open>C4: how often the crash cues fire\<close>

text \<open>
  C4. In \<open>closingApp\<close> the run is not over, the bird is inside the canvas and touches no
  pipe. The frame at 1020 ms fires the crash cues twice: \<open>updateBird\<close> fires them
  because the bird is now below the floor, and in the same frame \<open>updatePipes\<close> fires
  them again because the bird now overlaps the pipe. Both test \<open>gameOverRef\<close>, which is
  only set by the effect that runs after the next render.
\<close>

theorem crash_cues_fire_twice_in_one_frame:
  "\<not> gameOver closingApp \<and> \<not> gameOverRef closingApp \<and>
   \<not> outOfBounds demoCanvas (birdRef closingApp) \<and>
   filter (checkCollision (birdRef closingApp)) (pipesRef closingApp) = [] \<and>
   effects closingApp = [] \<and>
   effects (gameLoop demoCanvas 1020 closingApp) =
     [Sound 150 0.5 ''square'', ShakeAdded 15, Burst 100.98 589.32 10 ''#FF0000'',
      Sound 150 0.5 ''square'', ShakeAdded 15, Burst 100.98 589.32 10 ''#FF0000'']"
proof -
  have s: "isGameRunningRef closingApp" "\<not> gameOverRef closingApp"
    by (simp_all add: closingApp_def fallingApp_def)
  have g: "\<not> gameOver closingApp" by (simp add: closingApp_def fallingApp_def)
  have e: "effects closingApp = []" by (simp add: closingApp_def fallingApp_def)
  have p: "pipesRef closingApp =
     [\<lparr>pipe_x = 121, topHeight = 200, bottomY = 350, pipe_width = 60, gap = 150,
       passed = False, pipeColor = ''#4CAF50'', animationOffset = 1\<rparr>]"
    by (simp add: closingApp_def)
  have b: "birdRef closingApp = birdRef fallingApp" "gustsRef closingApp = gustsRef fallingApp"
    by (simp_all add: closingApp_def)
  have inside: "\<not> outOfBounds demoCanvas (birdRef closingApp)"
    by (simp add: b outOfBounds_def CANVAS_HEIGHT_def demoCanvas_def fallingApp_def)
  have clear: "filter (checkCollision (birdRef closingApp)) (pipesRef closingApp) = []"
    by (simp add: p b checkCollision_def Let_def fallingApp_def)
  have speed: "PIPE_SPEED demoCanvas = 200"
    by (simp add: PIPE_SPEED_def CANVAS_WIDTH_def demoCanvas_def)
  have hit: "checkCollision (moveBird demoCanvas (1 / 50) (gustsRef fallingApp) (birdRef fallingApp))
     \<lparr>pipe_x = 117, topHeight = 200, bottomY = 350, pipe_width = 60, gap = 150,
       passed = False, pipeColor = ''#4CAF50'', animationOffset = 1\<rparr>"
    by (simp add: checkCollision_def Let_def fallingApp_move)
  have cues: "effects (gameLoop demoCanvas 1020 closingApp) =
     [Sound 150 0.5 ''square'', ShakeAdded 15, Burst 100.98 589.32 10 ''#FF0000'',
      Sound 150 0.5 ''square'', ShakeAdded 15, Burst 100.98 589.32 10 ''#FF0000'']"
    using hit fallingApp_oob
    by (simp add: gameLoop_fields closingApp_tick update_effects[OF s] e p b speed closingApp_pipes
          fallingApp_move crashEffects_def)
  show ?thesis using s(2) g inside clear e cues by (simp only: simp_thms)
qed

subsection \<open>C5: rejected gust requests\<close>

text \<open>
  C5. A gust request whose stroke is shorter than 20, or whose cost
  \<open>min (strokeLength * GUST_COST_PER_PIXEL) windEnergyRef\<close> is below 10, returns no gust
  and leaves the whole state, the energy included, as it was. With the stroke held in
  \<open>drawStartRef\<close> and \<open>drawCurrentRef\<close>, neither \<open>handleMouseUp\<close> nor
  \<open>handleTouchEnd\<close> then adds a gust or debits energy.
\<close>

theorem createGust_rejects_short_or_cheap:
  assumes "distance start end < 20 \<or>
           min (distance start end * GUST_COST_PER_PIXEL) (windEnergyRef s) < 10"
  shows "createGust cd start end s = (None, s) \<and>
         (drawStartRef s = Some start \<and> drawCurrentRef s = Some end \<longrightarrow>
            gustsRef (handleMouseUp cd s) = gustsRef s \<and>
            windEnergy (handleMouseUp cd s) = windEnergy s \<and>
            gustsRef (handleTouchEnd cd s) = gustsRef s \<and>
            windEnergy (handleTouchEnd cd s) = windEnergy s)"
proof -
  have none: "createGust cd start end s = (None, s)"
    using assms by (rule createGust_None)
  have "gustsRef (handleMouseUp cd s) = gustsRef s \<and>
        windEnergy (handleMouseUp cd s) = windEnergy s"
    if "drawStartRef s = Some start" "drawCurrentRef s = Some end"
    using that none by (simp add: handleMouseUp_def split: bool.splits)
  moreover have "gustsRef (handleTouchEnd cd s) = gustsRef s \<and>
        windEnergy (handleTouchEnd cd s) = windEnergy s"
    if "drawStartRef s = Some start" "drawCurrentRef s = Some end"
    using that none by (simp add: handleTouchEnd_def Let_def split: bool.splits)
  ultimately show ?thesis using none by blast
qed

theorem createGust_rejects_short_or_cheap_witness:
  "min (distance \<lparr>vec_x = 400, vec_y = 300\<rparr> \<lparr>vec_x = 500, vec_y = 300\<rparr> * GUST_COST_PER_PIXEL)
       (windEnergyRef (demoApp\<lparr>windEnergyRef := 5\<rparr>)) < 10 \<and>
   createGust demoCanvas \<lparr>vec_x = 400, vec_y = 300\<rparr> \<lparr>vec_x = 500, vec_y = 300\<rparr>
       (demoApp\<lparr>windEnergyRef := 5\<rparr>) = (None, demoApp\<lparr>windEnergyRef := 5\<rparr>) \<and>
   gustsRef (handleMouseUp demoCanvas (demoApp\<lparr>windEnergyRef := 5\<rparr>)) = [] \<and>
   windEnergy (handleMouseUp demoCanvas (demoApp\<lparr>windEnergyRef := 5\<rparr>)) = 50 \<and>
   distance \<lparr>vec_x = 400, vec_y = 300\<rparr> \<lparr>vec_x = 410, vec_y = 300\<rparr> < 20 \<and>
   createGust demoCanvas \<lparr>vec_x = 400, vec_y = 300\<rparr> \<lparr>vec_x = 410, vec_y = 300\<rparr> demoApp
     = (None, demoApp)"
proof -
  have cheap: "min (distance \<lparr>vec_x = 400, vec_y = 300\<rparr> \<lparr>vec_x = 500, vec_y = 300\<rparr> * GUST_COST_PER_PIXEL)
       (windEnergyRef (demoApp\<lparr>windEnergyRef := 5\<rparr>)) < 10"
    by (simp add: distance_horizontal GUST_COST_PER_PIXEL_def)
  have short: "distance \<lparr>vec_x = 400, vec_y = 300\<rparr> \<lparr>vec_x = 410, vec_y = 300\<rparr> < 20"
    by (simp add: distance_horizontal)
  have refs: "drawStartRef (demoApp\<lparr>windEnergyRef := 5\<rparr>) = Some \<lparr>vec_x = 400, vec_y = 300\<rparr>"
             "drawCurrentRef (demoApp\<lparr>windEnergyRef := 5\<rparr>) = Some \<lparr>vec_x = 500, vec_y = 300\<rparr>"
             "gustsRef (demoApp\<lparr>windEnergyRef := 5\<rparr>) = []"
             "windEnergy (demoApp\<lparr>windEnergyRef := 5\<rparr>) = 50"
    by (simp_all add: demoApp_def)
  show ?thesis
    using createGust_rejects_short_or_cheap[of "\<lparr>vec_x = 400, vec_y = 300\<rparr>"
            "\<lparr>vec_x = 500, vec_y = 300\<rparr>" "demoApp\<lparr>windEnergyRef := 5\<rparr>" demoCanvas]
          createGust_rejects_short_or_cheap[of "\<lparr>vec_x = 400, vec_y = 300\<rparr>"
            "\<lparr>vec_x = 410, vec_y = 300\<rparr>" demoApp demoCanvas]
          cheap short refs
    by simp
qed

subsection \<open>C6: the energy pool stays within its bounds\<close>

text \<open>
  C6. Starting from an energy value in \<open>[0, MAX_WIND_ENERGY]\<close>, the energy is still in
  \<open>[0, MAX_WIND_ENERGY]\<close> after any sequence of events: frames (which regenerate it), mouse
  and touch gestures (which create gusts and debit it), clicks (a restart refills it) and
  renders.
\<close>

theorem windEnergy_stays_in_range:
  assumes "0 \<le> windEnergy s" and "windEnergy s \<le> MAX_WIND_ENERGY"
  shows "0 \<le> windEnergy (run cd events s) \<and> windEnergy (run cd events s) \<le> MAX_WIND_ENERGY"
  using assms run_energyInRange[of s cd events] by (simp add: energyInRange_def)

theorem windEnergy_stays_in_range_witness:
  "0 \<le> windEnergy demoApp \<and> windEnergy demoApp \<le> MAX_WIND_ENERGY \<and>
   0 \<le> windEnergy (run demoCanvas [MouseUp, Commit, Frame 1016, Frame 1032] demoApp) \<and>
   windEnergy (run demoCanvas [MouseUp, Commit, Frame 1016, Frame 1032] demoApp) \<le> MAX_WIND_ENERGY"
proof -
  have lo: "0 \<le> windEnergy demoApp" by (simp add: demoApp_def)
  have hi: "windEnergy demoApp \<le> MAX_WIND_ENERGY" by (simp add: demoApp_def MAX_WIND_ENERGY_def)
  show ?thesis
    using windEnergy_stays_in_range[OF lo hi, of demoCanvas "[MouseUp, Commit, Frame 1016, Frame 1032]"]
          lo hi
    by simp
qed

subsection \<open>C7: the force of a gust on the bird\<close>

text \<open>
  C7. \<open>applyGustForce\<close> adds to the velocity of the bird the force of the gust at the
  position of the bird, times \<open>deltaTime\<close>: nothing at distance \<open>radius\<close> or more,
  \<open>magnitude * (1 - (d / radius)\<^sup>2)\<close> along the direction of the gust otherwise. The loop
  over the gusts in \<open>updateBird\<close> adds up the contributions of all gusts. For the gust at
  (400, 300) with radius 100, magnitude 1200 and direction (1, 0), a bird at (350, 300)
  gains \<open>900 * deltaTime\<close> of \<open>vx\<close> from it and a bird at (600, 300) is left as it is.
  Within the tick, the vertical velocity after the move is the old one plus gravity plus
  the sum of the contributions; the horizontal velocity is the old one plus the sum of
  the contributions, damped by the factor 0.98 that follows the loop, when the bird
  stays between the two walls.
\<close>

theorem applyGustForce_quadratic_falloff:
  "applyGustForce bird gust dt =
     bird\<lparr>bird_vx := bird_vx bird + vec_x (spec_gustForceAt (birdPos bird) gust) * dt,
          bird_vy := bird_vy bird + vec_y (spec_gustForceAt (birdPos bird) gust) * dt\<rparr> \<and>
   fold (\<lambda>gust bird. applyGustForce bird gust dt) gusts bird =
     bird\<lparr>bird_vx := bird_vx bird +
                     (\<Sum>gust\<leftarrow>gusts. vec_x (spec_gustForceAt (birdPos bird) gust)) * dt,
          bird_vy := bird_vy bird +
                     (\<Sum>gust\<leftarrow>gusts. vec_y (spec_gustForceAt (birdPos bird) gust)) * dt\<rparr> \<and>
   bird_vy (moveBird cd dt gusts bird) =
     bird_vy bird + GRAVITY * dt +
     (\<Sum>gust\<leftarrow>gusts. vec_y (spec_gustForceAt (birdPos bird) gust)) * dt \<and>
   (bird_radius bird \<le>
      bird_x bird +
      (bird_vx bird + (\<Sum>gust\<leftarrow>gusts. vec_x (spec_gustForceAt (birdPos bird) gust)) * dt)
        * 0.98 * dt \<and>
    bird_x bird +
      (bird_vx bird + (\<Sum>gust\<leftarrow>gusts. vec_x (spec_gustForceAt (birdPos bird) gust)) * dt)
        * 0.98 * dt \<le> CANVAS_WIDTH cd - bird_radius bird \<longrightarrow>
    bird_vx (moveBird cd dt gusts bird) =
      (bird_vx bird + (\<Sum>gust\<leftarrow>gusts. vec_x (spec_gustForceAt (birdPos bird) gust)) * dt)
        * 0.98) \<and>
   bird_vx (applyGustForce (bird\<lparr>bird_x := 350, bird_y := 300\<rparr>) demoGust dt) =
     bird_vx bird + 900 * dt \<and>
   applyGustForce (bird\<lparr>bird_x := 600, bird_y := 300\<rparr>) demoGust dt =
     bird\<lparr>bird_x := 600, bird_y := 300\<rparr>"
proof -
  have inside: "bird_vx (applyGustForce (bird\<lparr>bird_x := 350, bird_y := 300\<rparr>) demoGust dt) =
     bird_vx bird + 900 * dt"
    by (simp add: applyGustForce_def demoGust_def distance_def Let_def sqrt_2500 power2_eq_square)
  have outside: "applyGustForce (bird\<lparr>bird_x := 600, bird_y := 300\<rparr>) demoGust dt =
     bird\<lparr>bird_x := 600, bird_y := 300\<rparr>"
    by (simp add: applyGustForce_def demoGust_def distance_def Let_def)
  have one: "applyGustForce bird gust dt =
     bird\<lparr>bird_vx := bird_vx bird + vec_x (spec_gustForceAt (birdPos bird) gust) * dt,
          bird_vy := bird_vy bird + vec_y (spec_gustForceAt (birdPos bird) gust) * dt\<rparr>"
    by (rule applyGustForce_spec)
  have many: "fold (\<lambda>gust bird. applyGustForce bird gust dt) gusts bird =
     bird\<lparr>bird_vx := bird_vx bird +
                     (\<Sum>gust\<leftarrow>gusts. vec_x (spec_gustForceAt (birdPos bird) gust)) * dt,
          bird_vy := bird_vy bird +
                     (\<Sum>gust\<leftarrow>gusts. vec_y (spec_gustForceAt (birdPos bird) gust)) * dt\<rparr>"
    by (rule fold_applyGustForce)
  have tick: "bird_vy (moveBird cd dt gusts bird) =
     bird_vy bird + GRAVITY * dt +
     (\<Sum>gust\<leftarrow>gusts. vec_y (spec_gustForceAt (birdPos bird) gust)) * dt"
    by (rule moveBird_vy)
  have damped: "bird_radius bird \<le>
      bird_x bird +
      (bird_vx bird + (\<Sum>gust\<leftarrow>gusts. vec_x (spec_gustForceAt (birdPos bird) gust)) * dt)
        * 0.98 * dt \<and>
    bird_x bird +
      (bird_vx bird + (\<Sum>gust\<leftarrow>gusts. vec_x (spec_gustForceAt (birdPos bird) gust)) * dt)
        * 0.98 * dt \<le> CANVAS_WIDTH cd - bird_radius bird \<longrightarrow>
    bird_vx (moveBird cd dt gusts bird) =
      (bird_vx bird + (\<Sum>gust\<leftarrow>gusts. vec_x (spec_gustForceAt (birdPos bird) gust)) * dt)
        * 0.98"
    using moveBird_vx by blast
  show ?thesis
    using one many tick damped inside outside by blast
qed

theorem applyGustForce_quadratic_falloff_witness:
  "bird_vx (applyGustForce ((initialBird demoCanvas)\<lparr>bird_x := 350, bird_y := 300\<rparr>) demoGust 0.016)
     = 14.4 \<and>
   applyGustForce ((initialBird demoCanvas)\<lparr>bird_x := 600, bird_y := 300\<rparr>) demoGust 0.016 =
     (initialBird demoCanvas)\<lparr>bird_x := 600, bird_y := 300\<rparr> \<and>
   vec_x (spec_gustForceAt \<lparr>vec_x = 350, vec_y = 300\<rparr> demoGust) = 900 \<and>
   bird_vx (moveBird demoCanvas 0.016 [demoGust]
              ((initialBird demoCanvas)\<lparr>bird_x := 350, bird_y := 300\<rparr>)) = 14.112 \<and>
   bird_vy (moveBird demoCanvas 0.016 [demoGust]
              ((initialBird demoCanvas)\<lparr>bird_x := 350, bird_y := 300\<rparr>)) = 12.8"
proof -
  have f: "spec_gustForceAt \<lparr>vec_x = 350, vec_y = 300\<rparr> demoGust = \<lparr>vec_x = 900, vec_y = 0\<rparr>"
    by (simp add: spec_gustForceAt_def demoGust_def distance_def Let_def sqrt_2500
          power2_eq_square)
  have b: "birdPos ((initialBird demoCanvas)\<lparr>bird_x := 350, bird_y := 300\<rparr>) =
             \<lparr>vec_x = 350, vec_y = 300\<rparr>"
          "bird_vx ((initialBird demoCanvas)\<lparr>bird_x := 350, bird_y := 300\<rparr>) = 0"
          "bird_vy ((initialBird demoCanvas)\<lparr>bird_x := 350, bird_y := 300\<rparr>) = 0"
          "bird_radius ((initialBird demoCanvas)\<lparr>bird_x := 350, bird_y := 300\<rparr>) = 20"
          "CANVAS_WIDTH demoCanvas = 800"
    by (simp_all add: birdPos_def initialBird_def CANVAS_WIDTH_def demoCanvas_def)
  show ?thesis
    using applyGustForce_quadratic_falloff[of
            "(initialBird demoCanvas)\<lparr>bird_x := 350, bird_y := 300\<rparr>" demoGust "0.016"
            "[demoGust]" demoCanvas]
          applyGustForce_quadratic_falloff[of "initialBird demoCanvas" demoGust "0.016"
            "[]" demoCanvas]
    by (simp add: f b GRAVITY_def)
qed

subsection \<open>C8: where the gap of a new obstacle is placed\<close>




subsection \<open>C9: one point per obstacle\<close>

text \<open>
  C9. The loop body of \<open>updatePipes\<close> adds one to the score and marks the pipe passed
  exactly when the pipe is not yet passed and, scrolled by this tick, has its trailing
  edge behind the bird; a passed pipe stays passed and adds nothing. So over any sequence
  of ticks one pipe earns at most one point, and none once it is passed. In a whole tick
  the score grows by the number of pipes that are passed in it; a tick after the run is
  over changes nothing. The pipes that \<open>updatePipes\<close> leaves in \<open>pipesRef\<close> are the
  pipes as the loop body returned them, with their marks, those scrolled off the screen
  removed and at most one new pipe appended. Hence the score plus the number of pipes
  not yet counted grows by at most one per tick (only when a pipe is spawned), by at
  most one per frame of the game loop, and over any sequence of events by at most the
  number of frames in it: no pipe is counted twice, however the ticks, renders, clicks
  and restarts interleave.
\<close>

theorem score_once_per_pipe:
  "(passed pipe \<longrightarrow>
      score (snd (pipeBody cd dt pipe s)) = score s \<and> passed (fst (pipeBody cd dt pipe s))) \<and>
   (\<not> passed pipe \<and> trailingEdgeBehind cd dt s pipe \<longrightarrow>
      score (snd (pipeBody cd dt pipe s)) = score s + 1 \<and> passed (fst (pipeBody cd dt pipe s))) \<and>
   (\<not> passed pipe \<and> \<not> trailingEdgeBehind cd dt s pipe \<longrightarrow>
      score (snd (pipeBody cd dt pipe s)) = score s \<and> \<not> passed (fst (pipeBody cd dt pipe s))) \<and>
   scoredOver cd ticks pipe \<le> 1 \<and>
   (passed pipe \<longrightarrow> scoredOver cd ticks pipe = 0) \<and>
   (\<not> gameOverRef s \<longrightarrow>
      score (updatePipes cd dt s) =
        score s + length (filter (\<lambda>p. \<not> passed p \<and> trailingEdgeBehind cd dt s p) (pipesRef s))) \<and>
   (gameOverRef s \<longrightarrow> updatePipes cd dt s = s) \<and>
   (\<not> gameOverRef s \<longrightarrow>
      pipesRef (updatePipes cd dt s) =
        filter (\<lambda>pipe. pipe_x pipe > - pipe_width pipe)
          (map (\<lambda>p. fst (pipeBody cd dt p s)) (pipesRef s)) @
        (if nextPipeTimeRef s - dt \<le> 0
         then [createPipe (CANVAS_HEIGHT cd) (PIPE_GAP cd) (PIPE_WIDTH cd) (CANVAS_WIDTH cd + 50)
                 (rand (snd (pipesForEach cd dt (pipesRef s) s)) 0)
                 (rand (snd (pipesForEach cd dt (pipesRef s) s)) 1)]
         else [])) \<and>
   score (updatePipes cd dt s) + unpassedCount (updatePipes cd dt s)
     \<le> score s + unpassedCount s +
         (if \<not> gameOverRef s \<and> nextPipeTimeRef s - dt \<le> 0 then 1 else 0) \<and>
   score (gameLoop cd t s) + unpassedCount (gameLoop cd t s) \<le> score s + unpassedCount s + 1 \<and>
   score (run cd events s) + unpassedCount (run cd events s)
     \<le> score s + unpassedCount s + length (filter isFrame events)"
proof -
  have body: "score (snd (pipeBody cd dt pipe s)) =
                score s + (if \<not> passed pipe \<and> trailingEdgeBehind cd dt s pipe then 1 else 0)"
             "passed (fst (pipeBody cd dt pipe s)) \<longleftrightarrow> passed pipe \<or> trailingEdgeBehind cd dt s pipe"
    by (simp_all add: pipeBody_score pipeBody_passed)
  have once: "scoredOver cd ticks pipe \<le> 1" by (rule scoredOver_le_1)
  have never: "passed pipe \<longrightarrow> scoredOver cd ticks pipe = 0" by (simp add: scoredOver_passed)
  have tick: "\<not> gameOverRef s \<longrightarrow>
      score (updatePipes cd dt s) =
        score s + length (filter (\<lambda>p. \<not> passed p \<and> trailingEdgeBehind cd dt s p) (pipesRef s))"
    by (simp add: updatePipes_score)
  have over: "gameOverRef s \<longrightarrow> updatePipes cd dt s = s" by (simp add: updatePipes_over)
  have stored: "\<not> gameOverRef s \<longrightarrow>
      pipesRef (updatePipes cd dt s) =
        filter (\<lambda>pipe. pipe_x pipe > - pipe_width pipe)
          (map (\<lambda>p. fst (pipeBody cd dt p s)) (pipesRef s)) @
        (if nextPipeTimeRef s - dt \<le> 0
         then [createPipe (CANVAS_HEIGHT cd) (PIPE_GAP cd) (PIPE_WIDTH cd) (CANVAS_WIDTH cd + 50)
                 (rand (snd (pipesForEach cd dt (pipesRef s) s)) 0)
                 (rand (snd (pipesForEach cd dt (pipesRef s) s)) 1)]
         else [])"
    using updatePipes_pipesRef[of s cd dt] by blast
  have pot: "score (updatePipes cd dt s) + unpassedCount (updatePipes cd dt s)
     \<le> score s + unpassedCount s +
         (if \<not> gameOverRef s \<and> nextPipeTimeRef s - dt \<le> 0 then 1 else 0)"
    by (rule updatePipes_potential)
  have loop: "score (gameLoop cd t s) + unpassedCount (gameLoop cd t s) \<le> score s + unpassedCount s + 1"
    by (rule gameLoop_potential)
  have all: "score (run cd events s) + unpassedCount (run cd events s)
     \<le> score s + unpassedCount s + length (filter isFrame events)"
    by (rule run_potential)
  have old: "(passed pipe \<longrightarrow>
      score (snd (pipeBody cd dt pipe s)) = score s \<and> passed (fst (pipeBody cd dt pipe s))) \<and>
   (\<not> passed pipe \<and> trailingEdgeBehind cd dt s pipe \<longrightarrow>
      score (snd (pipeBody cd dt pipe s)) = score s + 1 \<and> passed (fst (pipeBody cd dt pipe s))) \<and>
   (\<not> passed pipe \<and> \<not> trailingEdgeBehind cd dt s pipe \<longrightarrow>
      score (snd (pipeBody cd dt pipe s)) = score s \<and> \<not> passed (fst (pipeBody cd dt pipe s)))"
    using body by auto
  show ?thesis using old once never tick over stored pot loop all by blast
qed

theorem score_once_per_pipe_witness:
  "\<not> passed demoPipe \<and> trailingEdgeBehind demoCanvas (1 / 50) demoApp demoPipe \<and>
   score demoApp = 0 \<and>
   score (snd (pipeBody demoCanvas (1 / 50) demoPipe demoApp)) = 1 \<and>
   passed (fst (pipeBody demoCanvas (1 / 50) demoPipe demoApp)) \<and>
   score (snd (pipeBody demoCanvas (1 / 50) (fst (pipeBody demoCanvas (1 / 50) demoPipe demoApp))
                 demoApp)) = 0 \<and>
   scoredOver demoCanvas [(1 / 50, demoApp), (1 / 50, demoApp), (1 / 50, demoApp)] demoPipe = 1 \<and>
   \<not> gameOverRef demoApp \<and>
   score (updatePipes demoCanvas (1 / 50) (demoApp\<lparr>pipesRef := [demoPipe]\<rparr>)) = 1 \<and>
   pipesRef (updatePipes demoCanvas (1 / 50) (demoApp\<lparr>pipesRef := [demoPipe]\<rparr>)) =
     [demoPipe\<lparr>pipe_x := 26, passed := True\<rparr>] \<and>
   score (updatePipes demoCanvas (1 / 50)
            (updatePipes demoCanvas (1 / 50) (demoApp\<lparr>pipesRef := [demoPipe]\<rparr>))) = 1 \<and>
   pipesRef (updatePipes demoCanvas (1 / 50)
               (updatePipes demoCanvas (1 / 50) (demoApp\<lparr>pipesRef := [demoPipe]\<rparr>))) =
     [demoPipe\<lparr>pipe_x := 22, passed := True\<rparr>]"
proof -
  let ?s0 = "demoApp\<lparr>pipesRef := [demoPipe]\<rparr>"
  let ?s1 = "updatePipes demoCanvas (1 / 50) ?s0"
  have speed: "PIPE_SPEED demoCanvas = 200"
    by (simp add: PIPE_SPEED_def CANVAS_WIDTH_def demoCanvas_def)
  have bird: "bird_x (birdRef demoApp) = 100"
    by (simp add: demoApp_def initialBird_def CANVAS_WIDTH_def demoCanvas_def)
  have p: "\<not> passed demoPipe" by (simp add: demoPipe_def)
  have b: "trailingEdgeBehind demoCanvas (1 / 50) demoApp demoPipe"
    by (simp add: trailingEdgeBehind_def speed bird) (simp add: demoPipe_def)
  have b': "trailingEdgeBehind demoCanvas (1 / 50) ?s0 demoPipe"
    using b by (simp add: trailingEdgeBehind_def)
  have s0: "score demoApp = 0" "\<not> gameOverRef demoApp" by (simp_all add: demoApp_def)
  have n0: "\<not> nextPipeTimeRef ?s0 - 1 / 50 \<le> 0" by (simp add: demoApp_def)
  have first: "score (snd (pipeBody demoCanvas (1 / 50) demoPipe demoApp)) = 1 \<and>
               passed (fst (pipeBody demoCanvas (1 / 50) demoPipe demoApp))"
    using score_once_per_pipe[of demoPipe demoCanvas "1 / 50" demoApp "[]"] p b s0 by simp
  have again: "score (snd (pipeBody demoCanvas (1 / 50)
                 (fst (pipeBody demoCanvas (1 / 50) demoPipe demoApp)) demoApp)) = 0"
    using score_once_per_pipe[of "fst (pipeBody demoCanvas (1 / 50) demoPipe demoApp)"
            demoCanvas "1 / 50" demoApp "[]"] first s0 by simp
  have total: "scoredOver demoCanvas [(1 / 50, demoApp), (1 / 50, demoApp), (1 / 50, demoApp)]
                 demoPipe = 1"
    using p b s0 by (simp add: pipeBody_score pipeBody_passed)
  have thm0: "score ?s1 =
        score ?s0 + length (filter (\<lambda>p. \<not> passed p \<and> trailingEdgeBehind demoCanvas (1 / 50) ?s0 p)
                            (pipesRef ?s0))"
       "pipesRef ?s1 =
        filter (\<lambda>pipe. pipe_x pipe > - pipe_width pipe)
          (map (\<lambda>p. fst (pipeBody demoCanvas (1 / 50) p ?s0)) (pipesRef ?s0))"
    using score_once_per_pipe[of demoPipe demoCanvas "1 / 50" ?s0 "[]" 0 "[]"] s0(2) n0
    by simp_all
  have tick: "score ?s1 = 1" using p b' s0 by (simp add: thm0(1))
  have marked: "fst (pipeBody demoCanvas (1 / 50) demoPipe ?s0) = demoPipe\<lparr>pipe_x := 26, passed := True\<rparr>"
    using b' by (simp add: pipeBody_fst speed) (simp add: demoPipe_def)
  have stored: "pipesRef ?s1 = [demoPipe\<lparr>pipe_x := 26, passed := True\<rparr>]"
    by (simp add: thm0(2) marked) (simp add: demoPipe_def)
  have s1: "\<not> gameOverRef ?s1" "\<not> nextPipeTimeRef ?s1 - 1 / 50 \<le> 0"
    using s0(2) by (simp_all add: updatePipes_nextPipeTimeRef demoApp_def)
  have thm1: "score (updatePipes demoCanvas (1 / 50) ?s1) =
        score ?s1 + length (filter (\<lambda>p. \<not> passed p \<and> trailingEdgeBehind demoCanvas (1 / 50) ?s1 p)
                            (pipesRef ?s1))"
       "pipesRef (updatePipes demoCanvas (1 / 50) ?s1) =
        filter (\<lambda>pipe. pipe_x pipe > - pipe_width pipe)
          (map (\<lambda>p. fst (pipeBody demoCanvas (1 / 50) p ?s1)) (pipesRef ?s1))"
    using score_once_per_pipe[of demoPipe demoCanvas "1 / 50" ?s1 "[]" 0 "[]"] s1
    by simp_all
  have tick2: "score (updatePipes demoCanvas (1 / 50) ?s1) = 1"
    by (simp add: thm1(1) stored tick)
  have stored2: "pipesRef (updatePipes demoCanvas (1 / 50) ?s1) = [demoPipe\<lparr>pipe_x := 22, passed := True\<rparr>]"
    by (simp add: thm1(2) stored pipeBody_fst speed) (simp add: demoPipe_def)
  show ?thesis using p b s0 first again total tick stored tick2 stored2 by (simp only: simp_thms)
qed

subsection \<open>C10: gusts keep their direction and a bounded magnitude\<close>

text \<open>
  C10, as stated: every gust that enters the active collection has a direction of
  Euclidean length exactly 1. This does not hold of the program, whose \<open>normalize\<close>
  rounds the square root and the two quotients. In \<open>diagonalApp\<close> the stroke goes from
  (100, 100) to (200, 200); on release the collection, empty before, holds one gust
  whose direction is \<open>(1592262918131443 / 2 ^ 51, 1592262918131443 / 2 ^ 51)\<close>
  (0.7071067811865475 twice), and the length of that vector is not 1.
\<close>

theorem gust_direction_not_unit_counterexample:
  "gustsRef diagonalApp = [] \<and>
   gustsRef (run demoCanvas [MouseUp] diagonalApp) =
     [\<lparr>gust_x = 100, gust_y = 100,
       direction = \<lparr>vec_x = 1592262918131443 / 2 ^ 51, vec_y = 1592262918131443 / 2 ^ 51\<rparr>,
       magnitude = min (sqrt 20000 * 2) 1200,
       gust_radius = 100, gust_life = 1.2, gust_maxLife = 1.2\<rparr>] \<and>
   directionLength (hd (gustsRef (run demoCanvas [MouseUp] diagonalApp))) \<noteq> 1"
proof -
  have d: "isDrawingRendered diagonalApp"
          "drawStartRef diagonalApp = Some \<lparr>vec_x = 100, vec_y = 100\<rparr>"
          "drawCurrentRef diagonalApp = Some \<lparr>vec_x = 200, vec_y = 200\<rparr>"
          "gustsRef diagonalApp = []"
    by (simp_all add: diagonalApp_def demoApp_def)
  have r: "gustsRef (run demoCanvas [MouseUp] diagonalApp) =
     [\<lparr>gust_x = 100, gust_y = 100,
       direction = \<lparr>vec_x = 1592262918131443 / 2 ^ 51, vec_y = 1592262918131443 / 2 ^ 51\<rparr>,
       magnitude = min (sqrt 20000 * 2) 1200,
       gust_radius = 100, gust_life = 1.2, gust_maxLife = 1.2\<rparr>]"
    by (simp add: handleMouseUp_gustsRef[OF d(1,2,3)] d(4) diagonalApp_createGust)
  have n: "directionLength (hd (gustsRef (run demoCanvas [MouseUp] diagonalApp))) \<noteq> 1"
    unfolding r directionLength_def using diag_not_unit by simp
  show ?thesis using d(4) r n by (simp only: simp_thms)
qed

text \<open>
  C10, amended. A gust that \<open>createGust\<close> returns has a direction whose Euclidean
  length is within \<open>1 / 2 ^ 50\<close> of 1 (the six roundings of \<open>normalize\<close> each add a
  relative error of at most \<open>1 / 2 ^ 53\<close>) and a magnitude in \<open>[40, 1200]\<close>: it is only
  made for a stroke of length 20 or more, so the vector that is normalized is not zero.
  This holds of every gust of the active collection in every state the game reaches from
  its state on mount, and is kept by every event. A frame changes nothing of a gust but
  its remaining life, which it never increases: every gust after the frame is a gust
  from before it with a life that is not larger.
\<close>

theorem gusts_near_unit_direction_bounded_magnitude:
  "(createGust cd a b s = (Some g, s') \<longrightarrow>
      \<bar>directionLength g - 1\<bar> \<le> 1 / 2 ^ 50 \<and> 40 \<le> magnitude g \<and> magnitude g \<le> 1200) \<and>
   ((\<forall>g \<in> set (gustsRef s). gustWellFormed g) \<longrightarrow>
      (\<forall>g \<in> set (gustsRef (run cd events s)). gustWellFormed g)) \<and>
   (\<forall>g \<in> set (gustsRef (run cd events (initialApp cd best r))). gustWellFormed g) \<and>
   (\<forall>g' \<in> set (gustsRef (gameLoop cd t s)).
      \<exists>g \<in> set (gustsRef s). \<exists>l. l \<le> gust_life g \<and> g' = g\<lparr>gust_life := l\<rparr>)"
proof -
  have new: "createGust cd a b s = (Some g, s') \<longrightarrow>
      \<bar>directionLength g - 1\<bar> \<le> 1 / 2 ^ 50 \<and> 40 \<le> magnitude g \<and> magnitude g \<le> 1200"
    using createGust_wellFormed[of cd a b s g s'] by (simp only: gustWellFormed_def) blast
  have inv: "(\<forall>g \<in> set (gustsRef s). gustWellFormed g) \<longrightarrow>
      (\<forall>g \<in> set (gustsRef (run cd events s)). gustWellFormed g)"
    using run_gustsWellFormed[of s cd events] by (simp add: gustsWellFormed_def)
  have "gustsWellFormed (initialApp cd best r)" by (simp add: gustsWellFormed_def)
  then have "gustsWellFormed (run cd events (initialApp cd best r))"
    by (rule run_gustsWellFormed)
  then have reach: "\<forall>g \<in> set (gustsRef (run cd events (initialApp cd best r))). gustWellFormed g"
    by (simp add: gustsWellFormed_def)
  have age: "\<forall>g' \<in> set (gustsRef (gameLoop cd t s)).
      \<exists>g \<in> set (gustsRef s). \<exists>l. l \<le> gust_life g \<and> g' = g\<lparr>gust_life := l\<rparr>"
    using gameLoop_gusts_only_age by blast
  show ?thesis using new inv reach age by blast
qed

theorem gusts_near_unit_direction_bounded_magnitude_witness:
  "gustsRef demoApp = [] \<and>
   gustsRef (run demoCanvas [MouseUp] demoApp) =
     [\<lparr>gust_x = 400, gust_y = 300, direction = \<lparr>vec_x = 1, vec_y = 0\<rparr>, magnitude = 200,
       gust_radius = 100, gust_life = 1.2, gust_maxLife = 1.2\<rparr>] \<and>
   gustWellFormed \<lparr>gust_x = 400, gust_y = 300, direction = \<lparr>vec_x = 1, vec_y = 0\<rparr>, magnitude = 200,
       gust_radius = 100, gust_life = 1.2, gust_maxLife = 1.2\<rparr> \<and>
   gustWellFormed (hd (gustsRef (run demoCanvas [MouseUp] diagonalApp)))"
proof -
  have d: "isDrawingRendered demoApp" "drawStartRef demoApp = Some \<lparr>vec_x = 400, vec_y = 300\<rparr>"
          "drawCurrentRef demoApp = Some \<lparr>vec_x = 500, vec_y = 300\<rparr>" "gustsRef demoApp = []"
    by (simp_all add: demoApp_def)
  have r: "gustsRef (run demoCanvas [MouseUp] demoApp) =
     [\<lparr>gust_x = 400, gust_y = 300, direction = \<lparr>vec_x = 1, vec_y = 0\<rparr>, magnitude = 200,
       gust_radius = 100, gust_life = 1.2, gust_maxLife = 1.2\<rparr>]"
    by (simp add: handleMouseUp_gustsRef[OF d(1,2,3)] d(4) demoApp_createGust)
  have d': "isDrawingRendered diagonalApp"
          "drawStartRef diagonalApp = Some \<lparr>vec_x = 100, vec_y = 100\<rparr>"
          "drawCurrentRef diagonalApp = Some \<lparr>vec_x = 200, vec_y = 200\<rparr>"
          "gustsRef diagonalApp = []"
    by (simp_all add: diagonalApp_def demoApp_def)
  have r': "gustsRef (run demoCanvas [MouseUp] diagonalApp) =
     [\<lparr>gust_x = 100, gust_y = 100,
       direction = \<lparr>vec_x = 1592262918131443 / 2 ^ 51, vec_y = 1592262918131443 / 2 ^ 51\<rparr>,
       magnitude = min (sqrt 20000 * 2) 1200,
       gust_radius = 100, gust_life = 1.2, gust_maxLife = 1.2\<rparr>]"
    by (simp add: handleMouseUp_gustsRef[OF d'(1,2,3)] d'(4) diagonalApp_createGust)
  have a: "gustWellFormed \<lparr>gust_x = 400, gust_y = 300, direction = \<lparr>vec_x = 1, vec_y = 0\<rparr>,
       magnitude = 200, gust_radius = 100, gust_life = 1.2, gust_maxLife = 1.2\<rparr>"
    using gusts_near_unit_direction_bounded_magnitude[of demoCanvas _ _ demoApp _ _ "[MouseUp]"] d(4) r
    by simp
  have b: "gustWellFormed (hd (gustsRef (run demoCanvas [MouseUp] diagonalApp)))"
    using gusts_near_unit_direction_bounded_magnitude[of demoCanvas _ _ diagonalApp _ _ "[MouseUp]"]
      d'(4) r'
    by simp
  show ?thesis using d(4) r a b by (simp only: simp_thms)
qed

end
